theory Spec2Isabelle
  imports Main "HOL-Library.Word" "HOL-Library.Sublist"
begin

section \<open>JavaScript values\<close>

text \<open>
  A JavaScript string is a sequence of UTF-16 code units; \<open>length\<close>, \<open>indexOf\<close>,
  \<open>slice\<close> and \<open>padEnd\<close> all count code units. ASCII literals of the source are
  written \<open>ascii ''...''\<close>; the three non-ASCII literals are given by their code units.
\<close>

type_synonym jstring = "16 word list"

definition ascii :: "string \<Rightarrow> jstring" where
  "ascii s = map (\<lambda>c. of_nat (of_char c)) s"

text \<open>
  A finite number is kept as the decimal triple of ECMAScript's Number::toString:
  \<open>Finite neg s n\<close> is the value \<open>\<plusminus> s * 10 ^ (n - k)\<close>, \<open>k\<close> the number of decimal digits
  of \<open>s\<close>; \<open>s = 0\<close> is zero. The programs observe a number only through its string
  conversion and its truthiness.
\<close>

datatype jsnum = NaN | Infinity bool | Finite bool nat int

text \<open>
  The plain structured values the functions are called with. An object is its list of
  own properties; the first binding of a key is the one that is read.
\<close>

datatype jsval =
    Undefined
  | Null
  | Bool bool
  | Num jsnum
  | Str jstring
  | Arr "jsval list"
  | Obj "(jstring \<times> jsval) list"

datatype error = TypeError

datatype jstype = TUndefined | TObject | TBoolean | TNumber | TString

fun typeof :: "jsval \<Rightarrow> jstype" where
  "typeof Undefined = TUndefined"
| "typeof Null = TObject"
| "typeof (Bool b) = TBoolean"
| "typeof (Num x) = TNumber"
| "typeof (Str s) = TString"
| "typeof (Arr xs) = TObject"
| "typeof (Obj fs) = TObject"

text \<open>\<open>Boolean(v)\<close>, also the test of \<open>!v\<close>.\<close>

fun truthy :: "jsval \<Rightarrow> bool" where
  "truthy Undefined = False"
| "truthy Null = False"
| "truthy (Bool b) = b"
| "truthy (Num NaN) = False"
| "truthy (Num (Infinity neg)) = True"
| "truthy (Num (Finite neg s n)) = (s \<noteq> 0)"
| "truthy (Str s) = (s \<noteq> [])"
| "truthy (Arr xs) = True"
| "truthy (Obj fs) = True"

text \<open>
  Reading a property \<open>v.k\<close>: a type error on \<open>undefined\<close> and \<open>null\<close>, the own
  property of an object, and \<open>undefined\<close> where there is none. None of the property
  names the programs read is defined on the prototypes of primitives or arrays.
\<close>

fun getProp :: "jsval \<Rightarrow> jstring \<Rightarrow> error + jsval" where
  "getProp Undefined k = Inl TypeError"
| "getProp Null k = Inl TypeError"
| "getProp (Obj fs) k = Inr (case map_of fs k of None \<Rightarrow> Undefined | Some v \<Rightarrow> v)"
| "getProp v k = Inr Undefined"

text \<open>The same read where the receiver is known not to be \<open>undefined\<close> or \<open>null\<close>.\<close>

fun field :: "jsval \<Rightarrow> jstring \<Rightarrow> jsval" where
  "field (Obj fs) k = (case map_of fs k of None \<Rightarrow> Undefined | Some v \<Rightarrow> v)"
| "field v k = Undefined"

section \<open>String built-ins\<close>

definition isDigit :: "16 word \<Rightarrow> bool" where
  "isDigit c = (0x30 \<le> c \<and> c \<le> 0x39)"

text \<open>White space and line terminators, the code units \<open>trim\<close> strips.\<close>

definition isWhiteSpace :: "16 word \<Rightarrow> bool" where
  "isWhiteSpace c =
     (c = 0x9 \<or> c = 0xA \<or> c = 0xB \<or> c = 0xC \<or> c = 0xD \<or> c = 0x20 \<or> c = 0xA0
      \<or> c = 0x1680 \<or> (0x2000 \<le> c \<and> c \<le> 0x200A) \<or> c = 0x2028 \<or> c = 0x2029
      \<or> c = 0x202F \<or> c = 0x205F \<or> c = 0x3000 \<or> c = 0xFEFF)"

definition trim :: "jstring \<Rightarrow> jstring" where
  "trim s = rev (dropWhile isWhiteSpace (rev (dropWhile isWhiteSpace s)))"

subsection \<open>Case conversion\<close>

text \<open>
  \<open>toUpperCase\<close> and \<open>toLowerCase\<close> read the string as code points (a high surrogate
  followed by a low one is one code point, any other code unit is one by itself), map every
  code point by the locale-insensitive full case mappings of the Unicode Character Database
  (UnicodeData and the unconditional part of SpecialCasing, Unicode 14.0), and write the
  result back as code units. The tables list the code points from U+0080 on that the
  conversion changes; A-Z and a-z are the only ones below. The capital sigma U+03A3 is not
  in the lower-case table: its lower case depends on the context (Final_Sigma).
\<close>

definition upperTable1 :: "(int \<times> int list) list" where
  "upperTable1 = [
     (0xB5, [0x39C]), (0xDF, [0x53, 0x53]), (0xE0, [0xC0]), (0xE1, [0xC1]), (0xE2, [0xC2]),
     (0xE3, [0xC3]), (0xE4, [0xC4]), (0xE5, [0xC5]), (0xE6, [0xC6]), (0xE7, [0xC7]),
     (0xE8, [0xC8]), (0xE9, [0xC9]), (0xEA, [0xCA]), (0xEB, [0xCB]), (0xEC, [0xCC]),
     (0xED, [0xCD]), (0xEE, [0xCE]), (0xEF, [0xCF]), (0xF0, [0xD0]), (0xF1, [0xD1]),
     (0xF2, [0xD2]), (0xF3, [0xD3]), (0xF4, [0xD4]), (0xF5, [0xD5]), (0xF6, [0xD6]),
     (0xF8, [0xD8]), (0xF9, [0xD9]), (0xFA, [0xDA]), (0xFB, [0xDB]), (0xFC, [0xDC]),
     (0xFD, [0xDD]), (0xFE, [0xDE]), (0xFF, [0x178]), (0x101, [0x100]), (0x103, [0x102]),
     (0x105, [0x104]), (0x107, [0x106]), (0x109, [0x108]), (0x10B, [0x10A]), (0x10D, [0x10C]),
     (0x10F, [0x10E]), (0x111, [0x110]), (0x113, [0x112]), (0x115, [0x114]), (0x117, [0x116]),
     (0x119, [0x118]), (0x11B, [0x11A]), (0x11D, [0x11C]), (0x11F, [0x11E]), (0x121, [0x120]),
     (0x123, [0x122]), (0x125, [0x124]), (0x127, [0x126]), (0x129, [0x128]), (0x12B, [0x12A]),
     (0x12D, [0x12C]), (0x12F, [0x12E]), (0x131, [0x49]), (0x133, [0x132]), (0x135, [0x134]),
     (0x137, [0x136]), (0x13A, [0x139]), (0x13C, [0x13B]), (0x13E, [0x13D]), (0x140, [0x13F]),
     (0x142, [0x141]), (0x144, [0x143]), (0x146, [0x145]), (0x148, [0x147]),
     (0x149, [0x2BC, 0x4E]), (0x14B, [0x14A]), (0x14D, [0x14C]), (0x14F, [0x14E]),
     (0x151, [0x150]), (0x153, [0x152]), (0x155, [0x154]), (0x157, [0x156]), (0x159, [0x158]),
     (0x15B, [0x15A]), (0x15D, [0x15C]), (0x15F, [0x15E]), (0x161, [0x160]), (0x163, [0x162]),
     (0x165, [0x164]), (0x167, [0x166]), (0x169, [0x168]), (0x16B, [0x16A]), (0x16D, [0x16C]),
     (0x16F, [0x16E]), (0x171, [0x170]), (0x173, [0x172]), (0x175, [0x174]), (0x177, [0x176]),
     (0x17A, [0x179]), (0x17C, [0x17B]), (0x17E, [0x17D]), (0x17F, [0x53]), (0x180, [0x243]),
     (0x183, [0x182]), (0x185, [0x184]), (0x188, [0x187]), (0x18C, [0x18B]), (0x192, [0x191]),
     (0x195, [0x1F6]), (0x199, [0x198]), (0x19A, [0x23D]), (0x19E, [0x220]), (0x1A1, [0x1A0]),
     (0x1A3, [0x1A2]), (0x1A5, [0x1A4]), (0x1A8, [0x1A7]), (0x1AD, [0x1AC]), (0x1B0, [0x1AF]),
     (0x1B4, [0x1B3]), (0x1B6, [0x1B5]), (0x1B9, [0x1B8]), (0x1BD, [0x1BC]), (0x1BF, [0x1F7]),
     (0x1C5, [0x1C4]), (0x1C6, [0x1C4]), (0x1C8, [0x1C7]), (0x1C9, [0x1C7]), (0x1CB, [0x1CA]),
     (0x1CC, [0x1CA]), (0x1CE, [0x1CD]), (0x1D0, [0x1CF]), (0x1D2, [0x1D1]), (0x1D4, [0x1D3])]"

definition upperTable2 :: "(int \<times> int list) list" where
  "upperTable2 = [
     (0x1D6, [0x1D5]), (0x1D8, [0x1D7]), (0x1DA, [0x1D9]), (0x1DC, [0x1DB]), (0x1DD, [0x18E]),
     (0x1DF, [0x1DE]), (0x1E1, [0x1E0]), (0x1E3, [0x1E2]), (0x1E5, [0x1E4]), (0x1E7, [0x1E6]),
     (0x1E9, [0x1E8]), (0x1EB, [0x1EA]), (0x1ED, [0x1EC]), (0x1EF, [0x1EE]),
     (0x1F0, [0x4A, 0x30C]), (0x1F2, [0x1F1]), (0x1F3, [0x1F1]), (0x1F5, [0x1F4]),
     (0x1F9, [0x1F8]), (0x1FB, [0x1FA]), (0x1FD, [0x1FC]), (0x1FF, [0x1FE]), (0x201, [0x200]),
     (0x203, [0x202]), (0x205, [0x204]), (0x207, [0x206]), (0x209, [0x208]), (0x20B, [0x20A]),
     (0x20D, [0x20C]), (0x20F, [0x20E]), (0x211, [0x210]), (0x213, [0x212]), (0x215, [0x214]),
     (0x217, [0x216]), (0x219, [0x218]), (0x21B, [0x21A]), (0x21D, [0x21C]), (0x21F, [0x21E]),
     (0x223, [0x222]), (0x225, [0x224]), (0x227, [0x226]), (0x229, [0x228]), (0x22B, [0x22A]),
     (0x22D, [0x22C]), (0x22F, [0x22E]), (0x231, [0x230]), (0x233, [0x232]), (0x23C, [0x23B]),
     (0x23F, [0x2C7E]), (0x240, [0x2C7F]), (0x242, [0x241]), (0x247, [0x246]),
     (0x249, [0x248]), (0x24B, [0x24A]), (0x24D, [0x24C]), (0x24F, [0x24E]), (0x250, [0x2C6F]),
     (0x251, [0x2C6D]), (0x252, [0x2C70]), (0x253, [0x181]), (0x254, [0x186]),
     (0x256, [0x189]), (0x257, [0x18A]), (0x259, [0x18F]), (0x25B, [0x190]), (0x25C, [0xA7AB]),
     (0x260, [0x193]), (0x261, [0xA7AC]), (0x263, [0x194]), (0x265, [0xA78D]),
     (0x266, [0xA7AA]), (0x268, [0x197]), (0x269, [0x196]), (0x26A, [0xA7AE]),
     (0x26B, [0x2C62]), (0x26C, [0xA7AD]), (0x26F, [0x19C]), (0x271, [0x2C6E]),
     (0x272, [0x19D]), (0x275, [0x19F]), (0x27D, [0x2C64]), (0x280, [0x1A6]),
     (0x282, [0xA7C5]), (0x283, [0x1A9]), (0x287, [0xA7B1]), (0x288, [0x1AE]),
     (0x289, [0x244]), (0x28A, [0x1B1]), (0x28B, [0x1B2]), (0x28C, [0x245]), (0x292, [0x1B7]),
     (0x29D, [0xA7B2]), (0x29E, [0xA7B0]), (0x345, [0x399]), (0x371, [0x370]),
     (0x373, [0x372]), (0x377, [0x376]), (0x37B, [0x3FD]), (0x37C, [0x3FE]), (0x37D, [0x3FF]),
     (0x390, [0x399, 0x308, 0x301]), (0x3AC, [0x386]), (0x3AD, [0x388]), (0x3AE, [0x389]),
     (0x3AF, [0x38A]), (0x3B0, [0x3A5, 0x308, 0x301]), (0x3B1, [0x391]), (0x3B2, [0x392]),
     (0x3B3, [0x393]), (0x3B4, [0x394]), (0x3B5, [0x395]), (0x3B6, [0x396]), (0x3B7, [0x397]),
     (0x3B8, [0x398]), (0x3B9, [0x399]), (0x3BA, [0x39A]), (0x3BB, [0x39B]), (0x3BC, [0x39C]),
     (0x3BD, [0x39D]), (0x3BE, [0x39E]), (0x3BF, [0x39F]), (0x3C0, [0x3A0]), (0x3C1, [0x3A1]),
     (0x3C2, [0x3A3]), (0x3C3, [0x3A3]), (0x3C4, [0x3A4]), (0x3C5, [0x3A5]), (0x3C6, [0x3A6])]"

definition upperTable3 :: "(int \<times> int list) list" where
  "upperTable3 = [
     (0x3C7, [0x3A7]), (0x3C8, [0x3A8]), (0x3C9, [0x3A9]), (0x3CA, [0x3AA]), (0x3CB, [0x3AB]),
     (0x3CC, [0x38C]), (0x3CD, [0x38E]), (0x3CE, [0x38F]), (0x3D0, [0x392]), (0x3D1, [0x398]),
     (0x3D5, [0x3A6]), (0x3D6, [0x3A0]), (0x3D7, [0x3CF]), (0x3D9, [0x3D8]), (0x3DB, [0x3DA]),
     (0x3DD, [0x3DC]), (0x3DF, [0x3DE]), (0x3E1, [0x3E0]), (0x3E3, [0x3E2]), (0x3E5, [0x3E4]),
     (0x3E7, [0x3E6]), (0x3E9, [0x3E8]), (0x3EB, [0x3EA]), (0x3ED, [0x3EC]), (0x3EF, [0x3EE]),
     (0x3F0, [0x39A]), (0x3F1, [0x3A1]), (0x3F2, [0x3F9]), (0x3F3, [0x37F]), (0x3F5, [0x395]),
     (0x3F8, [0x3F7]), (0x3FB, [0x3FA]), (0x430, [0x410]), (0x431, [0x411]), (0x432, [0x412]),
     (0x433, [0x413]), (0x434, [0x414]), (0x435, [0x415]), (0x436, [0x416]), (0x437, [0x417]),
     (0x438, [0x418]), (0x439, [0x419]), (0x43A, [0x41A]), (0x43B, [0x41B]), (0x43C, [0x41C]),
     (0x43D, [0x41D]), (0x43E, [0x41E]), (0x43F, [0x41F]), (0x440, [0x420]), (0x441, [0x421]),
     (0x442, [0x422]), (0x443, [0x423]), (0x444, [0x424]), (0x445, [0x425]), (0x446, [0x426]),
     (0x447, [0x427]), (0x448, [0x428]), (0x449, [0x429]), (0x44A, [0x42A]), (0x44B, [0x42B]),
     (0x44C, [0x42C]), (0x44D, [0x42D]), (0x44E, [0x42E]), (0x44F, [0x42F]), (0x450, [0x400]),
     (0x451, [0x401]), (0x452, [0x402]), (0x453, [0x403]), (0x454, [0x404]), (0x455, [0x405]),
     (0x456, [0x406]), (0x457, [0x407]), (0x458, [0x408]), (0x459, [0x409]), (0x45A, [0x40A]),
     (0x45B, [0x40B]), (0x45C, [0x40C]), (0x45D, [0x40D]), (0x45E, [0x40E]), (0x45F, [0x40F]),
     (0x461, [0x460]), (0x463, [0x462]), (0x465, [0x464]), (0x467, [0x466]), (0x469, [0x468]),
     (0x46B, [0x46A]), (0x46D, [0x46C]), (0x46F, [0x46E]), (0x471, [0x470]), (0x473, [0x472]),
     (0x475, [0x474]), (0x477, [0x476]), (0x479, [0x478]), (0x47B, [0x47A]), (0x47D, [0x47C]),
     (0x47F, [0x47E]), (0x481, [0x480]), (0x48B, [0x48A]), (0x48D, [0x48C]), (0x48F, [0x48E]),
     (0x491, [0x490]), (0x493, [0x492]), (0x495, [0x494]), (0x497, [0x496]), (0x499, [0x498]),
     (0x49B, [0x49A]), (0x49D, [0x49C]), (0x49F, [0x49E]), (0x4A1, [0x4A0]), (0x4A3, [0x4A2]),
     (0x4A5, [0x4A4]), (0x4A7, [0x4A6]), (0x4A9, [0x4A8]), (0x4AB, [0x4AA]), (0x4AD, [0x4AC]),
     (0x4AF, [0x4AE]), (0x4B1, [0x4B0]), (0x4B3, [0x4B2]), (0x4B5, [0x4B4]), (0x4B7, [0x4B6]),
     (0x4B9, [0x4B8]), (0x4BB, [0x4BA]), (0x4BD, [0x4BC]), (0x4BF, [0x4BE]), (0x4C2, [0x4C1]),
     (0x4C4, [0x4C3]), (0x4C6, [0x4C5]), (0x4C8, [0x4C7])]"

definition upperTable4 :: "(int \<times> int list) list" where
  "upperTable4 = [
     (0x4CA, [0x4C9]), (0x4CC, [0x4CB]), (0x4CE, [0x4CD]), (0x4CF, [0x4C0]), (0x4D1, [0x4D0]),
     (0x4D3, [0x4D2]), (0x4D5, [0x4D4]), (0x4D7, [0x4D6]), (0x4D9, [0x4D8]), (0x4DB, [0x4DA]),
     (0x4DD, [0x4DC]), (0x4DF, [0x4DE]), (0x4E1, [0x4E0]), (0x4E3, [0x4E2]), (0x4E5, [0x4E4]),
     (0x4E7, [0x4E6]), (0x4E9, [0x4E8]), (0x4EB, [0x4EA]), (0x4ED, [0x4EC]), (0x4EF, [0x4EE]),
     (0x4F1, [0x4F0]), (0x4F3, [0x4F2]), (0x4F5, [0x4F4]), (0x4F7, [0x4F6]), (0x4F9, [0x4F8]),
     (0x4FB, [0x4FA]), (0x4FD, [0x4FC]), (0x4FF, [0x4FE]), (0x501, [0x500]), (0x503, [0x502]),
     (0x505, [0x504]), (0x507, [0x506]), (0x509, [0x508]), (0x50B, [0x50A]), (0x50D, [0x50C]),
     (0x50F, [0x50E]), (0x511, [0x510]), (0x513, [0x512]), (0x515, [0x514]), (0x517, [0x516]),
     (0x519, [0x518]), (0x51B, [0x51A]), (0x51D, [0x51C]), (0x51F, [0x51E]), (0x521, [0x520]),
     (0x523, [0x522]), (0x525, [0x524]), (0x527, [0x526]), (0x529, [0x528]), (0x52B, [0x52A]),
     (0x52D, [0x52C]), (0x52F, [0x52E]), (0x561, [0x531]), (0x562, [0x532]), (0x563, [0x533]),
     (0x564, [0x534]), (0x565, [0x535]), (0x566, [0x536]), (0x567, [0x537]), (0x568, [0x538]),
     (0x569, [0x539]), (0x56A, [0x53A]), (0x56B, [0x53B]), (0x56C, [0x53C]), (0x56D, [0x53D]),
     (0x56E, [0x53E]), (0x56F, [0x53F]), (0x570, [0x540]), (0x571, [0x541]), (0x572, [0x542]),
     (0x573, [0x543]), (0x574, [0x544]), (0x575, [0x545]), (0x576, [0x546]), (0x577, [0x547]),
     (0x578, [0x548]), (0x579, [0x549]), (0x57A, [0x54A]), (0x57B, [0x54B]), (0x57C, [0x54C]),
     (0x57D, [0x54D]), (0x57E, [0x54E]), (0x57F, [0x54F]), (0x580, [0x550]), (0x581, [0x551]),
     (0x582, [0x552]), (0x583, [0x553]), (0x584, [0x554]), (0x585, [0x555]), (0x586, [0x556]),
     (0x587, [0x535, 0x552]), (0x10D0, [0x1C90]), (0x10D1, [0x1C91]), (0x10D2, [0x1C92]),
     (0x10D3, [0x1C93]), (0x10D4, [0x1C94]), (0x10D5, [0x1C95]), (0x10D6, [0x1C96]),
     (0x10D7, [0x1C97]), (0x10D8, [0x1C98]), (0x10D9, [0x1C99]), (0x10DA, [0x1C9A]),
     (0x10DB, [0x1C9B]), (0x10DC, [0x1C9C]), (0x10DD, [0x1C9D]), (0x10DE, [0x1C9E]),
     (0x10DF, [0x1C9F]), (0x10E0, [0x1CA0]), (0x10E1, [0x1CA1]), (0x10E2, [0x1CA2]),
     (0x10E3, [0x1CA3]), (0x10E4, [0x1CA4]), (0x10E5, [0x1CA5]), (0x10E6, [0x1CA6]),
     (0x10E7, [0x1CA7]), (0x10E8, [0x1CA8]), (0x10E9, [0x1CA9]), (0x10EA, [0x1CAA]),
     (0x10EB, [0x1CAB]), (0x10EC, [0x1CAC]), (0x10ED, [0x1CAD]), (0x10EE, [0x1CAE]),
     (0x10EF, [0x1CAF]), (0x10F0, [0x1CB0]), (0x10F1, [0x1CB1]), (0x10F2, [0x1CB2]),
     (0x10F3, [0x1CB3]), (0x10F4, [0x1CB4])]"

definition upperTable5 :: "(int \<times> int list) list" where
  "upperTable5 = [
     (0x10F5, [0x1CB5]), (0x10F6, [0x1CB6]), (0x10F7, [0x1CB7]), (0x10F8, [0x1CB8]),
     (0x10F9, [0x1CB9]), (0x10FA, [0x1CBA]), (0x10FD, [0x1CBD]), (0x10FE, [0x1CBE]),
     (0x10FF, [0x1CBF]), (0x13F8, [0x13F0]), (0x13F9, [0x13F1]), (0x13FA, [0x13F2]),
     (0x13FB, [0x13F3]), (0x13FC, [0x13F4]), (0x13FD, [0x13F5]), (0x1C80, [0x412]),
     (0x1C81, [0x414]), (0x1C82, [0x41E]), (0x1C83, [0x421]), (0x1C84, [0x422]),
     (0x1C85, [0x422]), (0x1C86, [0x42A]), (0x1C87, [0x462]), (0x1C88, [0xA64A]),
     (0x1D79, [0xA77D]), (0x1D7D, [0x2C63]), (0x1D8E, [0xA7C6]), (0x1E01, [0x1E00]),
     (0x1E03, [0x1E02]), (0x1E05, [0x1E04]), (0x1E07, [0x1E06]), (0x1E09, [0x1E08]),
     (0x1E0B, [0x1E0A]), (0x1E0D, [0x1E0C]), (0x1E0F, [0x1E0E]), (0x1E11, [0x1E10]),
     (0x1E13, [0x1E12]), (0x1E15, [0x1E14]), (0x1E17, [0x1E16]), (0x1E19, [0x1E18]),
     (0x1E1B, [0x1E1A]), (0x1E1D, [0x1E1C]), (0x1E1F, [0x1E1E]), (0x1E21, [0x1E20]),
     (0x1E23, [0x1E22]), (0x1E25, [0x1E24]), (0x1E27, [0x1E26]), (0x1E29, [0x1E28]),
     (0x1E2B, [0x1E2A]), (0x1E2D, [0x1E2C]), (0x1E2F, [0x1E2E]), (0x1E31, [0x1E30]),
     (0x1E33, [0x1E32]), (0x1E35, [0x1E34]), (0x1E37, [0x1E36]), (0x1E39, [0x1E38]),
     (0x1E3B, [0x1E3A]), (0x1E3D, [0x1E3C]), (0x1E3F, [0x1E3E]), (0x1E41, [0x1E40]),
     (0x1E43, [0x1E42]), (0x1E45, [0x1E44]), (0x1E47, [0x1E46]), (0x1E49, [0x1E48]),
     (0x1E4B, [0x1E4A]), (0x1E4D, [0x1E4C]), (0x1E4F, [0x1E4E]), (0x1E51, [0x1E50]),
     (0x1E53, [0x1E52]), (0x1E55, [0x1E54]), (0x1E57, [0x1E56]), (0x1E59, [0x1E58]),
     (0x1E5B, [0x1E5A]), (0x1E5D, [0x1E5C]), (0x1E5F, [0x1E5E]), (0x1E61, [0x1E60]),
     (0x1E63, [0x1E62]), (0x1E65, [0x1E64]), (0x1E67, [0x1E66]), (0x1E69, [0x1E68]),
     (0x1E6B, [0x1E6A]), (0x1E6D, [0x1E6C]), (0x1E6F, [0x1E6E]), (0x1E71, [0x1E70]),
     (0x1E73, [0x1E72]), (0x1E75, [0x1E74]), (0x1E77, [0x1E76]), (0x1E79, [0x1E78]),
     (0x1E7B, [0x1E7A]), (0x1E7D, [0x1E7C]), (0x1E7F, [0x1E7E]), (0x1E81, [0x1E80]),
     (0x1E83, [0x1E82]), (0x1E85, [0x1E84]), (0x1E87, [0x1E86]), (0x1E89, [0x1E88]),
     (0x1E8B, [0x1E8A]), (0x1E8D, [0x1E8C]), (0x1E8F, [0x1E8E]), (0x1E91, [0x1E90]),
     (0x1E93, [0x1E92]), (0x1E95, [0x1E94]), (0x1E96, [0x48, 0x331]), (0x1E97, [0x54, 0x308]),
     (0x1E98, [0x57, 0x30A]), (0x1E99, [0x59, 0x30A]), (0x1E9A, [0x41, 0x2BE]),
     (0x1E9B, [0x1E60]), (0x1EA1, [0x1EA0]), (0x1EA3, [0x1EA2]), (0x1EA5, [0x1EA4]),
     (0x1EA7, [0x1EA6]), (0x1EA9, [0x1EA8]), (0x1EAB, [0x1EAA]), (0x1EAD, [0x1EAC]),
     (0x1EAF, [0x1EAE]), (0x1EB1, [0x1EB0]), (0x1EB3, [0x1EB2]), (0x1EB5, [0x1EB4]),
     (0x1EB7, [0x1EB6]), (0x1EB9, [0x1EB8]), (0x1EBB, [0x1EBA]), (0x1EBD, [0x1EBC]),
     (0x1EBF, [0x1EBE]), (0x1EC1, [0x1EC0]), (0x1EC3, [0x1EC2]), (0x1EC5, [0x1EC4]),
     (0x1EC7, [0x1EC6])]"

definition upperTable6 :: "(int \<times> int list) list" where
  "upperTable6 = [
     (0x1EC9, [0x1EC8]), (0x1ECB, [0x1ECA]), (0x1ECD, [0x1ECC]), (0x1ECF, [0x1ECE]),
     (0x1ED1, [0x1ED0]), (0x1ED3, [0x1ED2]), (0x1ED5, [0x1ED4]), (0x1ED7, [0x1ED6]),
     (0x1ED9, [0x1ED8]), (0x1EDB, [0x1EDA]), (0x1EDD, [0x1EDC]), (0x1EDF, [0x1EDE]),
     (0x1EE1, [0x1EE0]), (0x1EE3, [0x1EE2]), (0x1EE5, [0x1EE4]), (0x1EE7, [0x1EE6]),
     (0x1EE9, [0x1EE8]), (0x1EEB, [0x1EEA]), (0x1EED, [0x1EEC]), (0x1EEF, [0x1EEE]),
     (0x1EF1, [0x1EF0]), (0x1EF3, [0x1EF2]), (0x1EF5, [0x1EF4]), (0x1EF7, [0x1EF6]),
     (0x1EF9, [0x1EF8]), (0x1EFB, [0x1EFA]), (0x1EFD, [0x1EFC]), (0x1EFF, [0x1EFE]),
     (0x1F00, [0x1F08]), (0x1F01, [0x1F09]), (0x1F02, [0x1F0A]), (0x1F03, [0x1F0B]),
     (0x1F04, [0x1F0C]), (0x1F05, [0x1F0D]), (0x1F06, [0x1F0E]), (0x1F07, [0x1F0F]),
     (0x1F10, [0x1F18]), (0x1F11, [0x1F19]), (0x1F12, [0x1F1A]), (0x1F13, [0x1F1B]),
     (0x1F14, [0x1F1C]), (0x1F15, [0x1F1D]), (0x1F20, [0x1F28]), (0x1F21, [0x1F29]),
     (0x1F22, [0x1F2A]), (0x1F23, [0x1F2B]), (0x1F24, [0x1F2C]), (0x1F25, [0x1F2D]),
     (0x1F26, [0x1F2E]), (0x1F27, [0x1F2F]), (0x1F30, [0x1F38]), (0x1F31, [0x1F39]),
     (0x1F32, [0x1F3A]), (0x1F33, [0x1F3B]), (0x1F34, [0x1F3C]), (0x1F35, [0x1F3D]),
     (0x1F36, [0x1F3E]), (0x1F37, [0x1F3F]), (0x1F40, [0x1F48]), (0x1F41, [0x1F49]),
     (0x1F42, [0x1F4A]), (0x1F43, [0x1F4B]), (0x1F44, [0x1F4C]), (0x1F45, [0x1F4D]),
     (0x1F50, [0x3A5, 0x313]), (0x1F51, [0x1F59]), (0x1F52, [0x3A5, 0x313, 0x300]),
     (0x1F53, [0x1F5B]), (0x1F54, [0x3A5, 0x313, 0x301]), (0x1F55, [0x1F5D]),
     (0x1F56, [0x3A5, 0x313, 0x342]), (0x1F57, [0x1F5F]), (0x1F60, [0x1F68]),
     (0x1F61, [0x1F69]), (0x1F62, [0x1F6A]), (0x1F63, [0x1F6B]), (0x1F64, [0x1F6C]),
     (0x1F65, [0x1F6D]), (0x1F66, [0x1F6E]), (0x1F67, [0x1F6F]), (0x1F70, [0x1FBA]),
     (0x1F71, [0x1FBB]), (0x1F72, [0x1FC8]), (0x1F73, [0x1FC9]), (0x1F74, [0x1FCA]),
     (0x1F75, [0x1FCB]), (0x1F76, [0x1FDA]), (0x1F77, [0x1FDB]), (0x1F78, [0x1FF8]),
     (0x1F79, [0x1FF9]), (0x1F7A, [0x1FEA]), (0x1F7B, [0x1FEB]), (0x1F7C, [0x1FFA]),
     (0x1F7D, [0x1FFB]), (0x1F80, [0x1F08, 0x399]), (0x1F81, [0x1F09, 0x399]),
     (0x1F82, [0x1F0A, 0x399]), (0x1F83, [0x1F0B, 0x399]), (0x1F84, [0x1F0C, 0x399]),
     (0x1F85, [0x1F0D, 0x399]), (0x1F86, [0x1F0E, 0x399]), (0x1F87, [0x1F0F, 0x399]),
     (0x1F88, [0x1F08, 0x399]), (0x1F89, [0x1F09, 0x399]), (0x1F8A, [0x1F0A, 0x399]),
     (0x1F8B, [0x1F0B, 0x399]), (0x1F8C, [0x1F0C, 0x399]), (0x1F8D, [0x1F0D, 0x399]),
     (0x1F8E, [0x1F0E, 0x399]), (0x1F8F, [0x1F0F, 0x399]), (0x1F90, [0x1F28, 0x399]),
     (0x1F91, [0x1F29, 0x399]), (0x1F92, [0x1F2A, 0x399]), (0x1F93, [0x1F2B, 0x399]),
     (0x1F94, [0x1F2C, 0x399]), (0x1F95, [0x1F2D, 0x399]), (0x1F96, [0x1F2E, 0x399]),
     (0x1F97, [0x1F2F, 0x399]), (0x1F98, [0x1F28, 0x399]), (0x1F99, [0x1F29, 0x399]),
     (0x1F9A, [0x1F2A, 0x399]), (0x1F9B, [0x1F2B, 0x399]), (0x1F9C, [0x1F2C, 0x399]),
     (0x1F9D, [0x1F2D, 0x399]), (0x1F9E, [0x1F2E, 0x399]), (0x1F9F, [0x1F2F, 0x399]),
     (0x1FA0, [0x1F68, 0x399]), (0x1FA1, [0x1F69, 0x399])]"

definition upperTable7 :: "(int \<times> int list) list" where
  "upperTable7 = [
     (0x1FA2, [0x1F6A, 0x399]), (0x1FA3, [0x1F6B, 0x399]), (0x1FA4, [0x1F6C, 0x399]),
     (0x1FA5, [0x1F6D, 0x399]), (0x1FA6, [0x1F6E, 0x399]), (0x1FA7, [0x1F6F, 0x399]),
     (0x1FA8, [0x1F68, 0x399]), (0x1FA9, [0x1F69, 0x399]), (0x1FAA, [0x1F6A, 0x399]),
     (0x1FAB, [0x1F6B, 0x399]), (0x1FAC, [0x1F6C, 0x399]), (0x1FAD, [0x1F6D, 0x399]),
     (0x1FAE, [0x1F6E, 0x399]), (0x1FAF, [0x1F6F, 0x399]), (0x1FB0, [0x1FB8]),
     (0x1FB1, [0x1FB9]), (0x1FB2, [0x1FBA, 0x399]), (0x1FB3, [0x391, 0x399]),
     (0x1FB4, [0x386, 0x399]), (0x1FB6, [0x391, 0x342]), (0x1FB7, [0x391, 0x342, 0x399]),
     (0x1FBC, [0x391, 0x399]), (0x1FBE, [0x399]), (0x1FC2, [0x1FCA, 0x399]),
     (0x1FC3, [0x397, 0x399]), (0x1FC4, [0x389, 0x399]), (0x1FC6, [0x397, 0x342]),
     (0x1FC7, [0x397, 0x342, 0x399]), (0x1FCC, [0x397, 0x399]), (0x1FD0, [0x1FD8]),
     (0x1FD1, [0x1FD9]), (0x1FD2, [0x399, 0x308, 0x300]), (0x1FD3, [0x399, 0x308, 0x301]),
     (0x1FD6, [0x399, 0x342]), (0x1FD7, [0x399, 0x308, 0x342]), (0x1FE0, [0x1FE8]),
     (0x1FE1, [0x1FE9]), (0x1FE2, [0x3A5, 0x308, 0x300]), (0x1FE3, [0x3A5, 0x308, 0x301]),
     (0x1FE4, [0x3A1, 0x313]), (0x1FE5, [0x1FEC]), (0x1FE6, [0x3A5, 0x342]),
     (0x1FE7, [0x3A5, 0x308, 0x342]), (0x1FF2, [0x1FFA, 0x399]), (0x1FF3, [0x3A9, 0x399]),
     (0x1FF4, [0x38F, 0x399]), (0x1FF6, [0x3A9, 0x342]), (0x1FF7, [0x3A9, 0x342, 0x399]),
     (0x1FFC, [0x3A9, 0x399]), (0x214E, [0x2132]), (0x2170, [0x2160]), (0x2171, [0x2161]),
     (0x2172, [0x2162]), (0x2173, [0x2163]), (0x2174, [0x2164]), (0x2175, [0x2165]),
     (0x2176, [0x2166]), (0x2177, [0x2167]), (0x2178, [0x2168]), (0x2179, [0x2169]),
     (0x217A, [0x216A]), (0x217B, [0x216B]), (0x217C, [0x216C]), (0x217D, [0x216D]),
     (0x217E, [0x216E]), (0x217F, [0x216F]), (0x2184, [0x2183]), (0x24D0, [0x24B6]),
     (0x24D1, [0x24B7]), (0x24D2, [0x24B8]), (0x24D3, [0x24B9]), (0x24D4, [0x24BA]),
     (0x24D5, [0x24BB]), (0x24D6, [0x24BC]), (0x24D7, [0x24BD]), (0x24D8, [0x24BE]),
     (0x24D9, [0x24BF]), (0x24DA, [0x24C0]), (0x24DB, [0x24C1]), (0x24DC, [0x24C2]),
     (0x24DD, [0x24C3]), (0x24DE, [0x24C4]), (0x24DF, [0x24C5]), (0x24E0, [0x24C6]),
     (0x24E1, [0x24C7]), (0x24E2, [0x24C8]), (0x24E3, [0x24C9]), (0x24E4, [0x24CA]),
     (0x24E5, [0x24CB]), (0x24E6, [0x24CC]), (0x24E7, [0x24CD]), (0x24E8, [0x24CE]),
     (0x24E9, [0x24CF]), (0x2C30, [0x2C00]), (0x2C31, [0x2C01]), (0x2C32, [0x2C02]),
     (0x2C33, [0x2C03]), (0x2C34, [0x2C04]), (0x2C35, [0x2C05]), (0x2C36, [0x2C06]),
     (0x2C37, [0x2C07]), (0x2C38, [0x2C08]), (0x2C39, [0x2C09]), (0x2C3A, [0x2C0A]),
     (0x2C3B, [0x2C0B]), (0x2C3C, [0x2C0C]), (0x2C3D, [0x2C0D]), (0x2C3E, [0x2C0E]),
     (0x2C3F, [0x2C0F]), (0x2C40, [0x2C10]), (0x2C41, [0x2C11]), (0x2C42, [0x2C12]),
     (0x2C43, [0x2C13]), (0x2C44, [0x2C14]), (0x2C45, [0x2C15]), (0x2C46, [0x2C16]),
     (0x2C47, [0x2C17]), (0x2C48, [0x2C18]), (0x2C49, [0x2C19]), (0x2C4A, [0x2C1A]),
     (0x2C4B, [0x2C1B]), (0x2C4C, [0x2C1C]), (0x2C4D, [0x2C1D]), (0x2C4E, [0x2C1E]),
     (0x2C4F, [0x2C1F]), (0x2C50, [0x2C20]), (0x2C51, [0x2C21]), (0x2C52, [0x2C22])]"

definition upperTable8 :: "(int \<times> int list) list" where
  "upperTable8 = [
     (0x2C53, [0x2C23]), (0x2C54, [0x2C24]), (0x2C55, [0x2C25]), (0x2C56, [0x2C26]),
     (0x2C57, [0x2C27]), (0x2C58, [0x2C28]), (0x2C59, [0x2C29]), (0x2C5A, [0x2C2A]),
     (0x2C5B, [0x2C2B]), (0x2C5C, [0x2C2C]), (0x2C5D, [0x2C2D]), (0x2C5E, [0x2C2E]),
     (0x2C5F, [0x2C2F]), (0x2C61, [0x2C60]), (0x2C65, [0x23A]), (0x2C66, [0x23E]),
     (0x2C68, [0x2C67]), (0x2C6A, [0x2C69]), (0x2C6C, [0x2C6B]), (0x2C73, [0x2C72]),
     (0x2C76, [0x2C75]), (0x2C81, [0x2C80]), (0x2C83, [0x2C82]), (0x2C85, [0x2C84]),
     (0x2C87, [0x2C86]), (0x2C89, [0x2C88]), (0x2C8B, [0x2C8A]), (0x2C8D, [0x2C8C]),
     (0x2C8F, [0x2C8E]), (0x2C91, [0x2C90]), (0x2C93, [0x2C92]), (0x2C95, [0x2C94]),
     (0x2C97, [0x2C96]), (0x2C99, [0x2C98]), (0x2C9B, [0x2C9A]), (0x2C9D, [0x2C9C]),
     (0x2C9F, [0x2C9E]), (0x2CA1, [0x2CA0]), (0x2CA3, [0x2CA2]), (0x2CA5, [0x2CA4]),
     (0x2CA7, [0x2CA6]), (0x2CA9, [0x2CA8]), (0x2CAB, [0x2CAA]), (0x2CAD, [0x2CAC]),
     (0x2CAF, [0x2CAE]), (0x2CB1, [0x2CB0]), (0x2CB3, [0x2CB2]), (0x2CB5, [0x2CB4]),
     (0x2CB7, [0x2CB6]), (0x2CB9, [0x2CB8]), (0x2CBB, [0x2CBA]), (0x2CBD, [0x2CBC]),
     (0x2CBF, [0x2CBE]), (0x2CC1, [0x2CC0]), (0x2CC3, [0x2CC2]), (0x2CC5, [0x2CC4]),
     (0x2CC7, [0x2CC6]), (0x2CC9, [0x2CC8]), (0x2CCB, [0x2CCA]), (0x2CCD, [0x2CCC]),
     (0x2CCF, [0x2CCE]), (0x2CD1, [0x2CD0]), (0x2CD3, [0x2CD2]), (0x2CD5, [0x2CD4]),
     (0x2CD7, [0x2CD6]), (0x2CD9, [0x2CD8]), (0x2CDB, [0x2CDA]), (0x2CDD, [0x2CDC]),
     (0x2CDF, [0x2CDE]), (0x2CE1, [0x2CE0]), (0x2CE3, [0x2CE2]), (0x2CEC, [0x2CEB]),
     (0x2CEE, [0x2CED]), (0x2CF3, [0x2CF2]), (0x2D00, [0x10A0]), (0x2D01, [0x10A1]),
     (0x2D02, [0x10A2]), (0x2D03, [0x10A3]), (0x2D04, [0x10A4]), (0x2D05, [0x10A5]),
     (0x2D06, [0x10A6]), (0x2D07, [0x10A7]), (0x2D08, [0x10A8]), (0x2D09, [0x10A9]),
     (0x2D0A, [0x10AA]), (0x2D0B, [0x10AB]), (0x2D0C, [0x10AC]), (0x2D0D, [0x10AD]),
     (0x2D0E, [0x10AE]), (0x2D0F, [0x10AF]), (0x2D10, [0x10B0]), (0x2D11, [0x10B1]),
     (0x2D12, [0x10B2]), (0x2D13, [0x10B3]), (0x2D14, [0x10B4]), (0x2D15, [0x10B5]),
     (0x2D16, [0x10B6]), (0x2D17, [0x10B7]), (0x2D18, [0x10B8]), (0x2D19, [0x10B9]),
     (0x2D1A, [0x10BA]), (0x2D1B, [0x10BB]), (0x2D1C, [0x10BC]), (0x2D1D, [0x10BD]),
     (0x2D1E, [0x10BE]), (0x2D1F, [0x10BF]), (0x2D20, [0x10C0]), (0x2D21, [0x10C1]),
     (0x2D22, [0x10C2]), (0x2D23, [0x10C3]), (0x2D24, [0x10C4]), (0x2D25, [0x10C5]),
     (0x2D27, [0x10C7]), (0x2D2D, [0x10CD]), (0xA641, [0xA640]), (0xA643, [0xA642]),
     (0xA645, [0xA644]), (0xA647, [0xA646]), (0xA649, [0xA648]), (0xA64B, [0xA64A]),
     (0xA64D, [0xA64C]), (0xA64F, [0xA64E]), (0xA651, [0xA650]), (0xA653, [0xA652]),
     (0xA655, [0xA654]), (0xA657, [0xA656]), (0xA659, [0xA658]), (0xA65B, [0xA65A])]"

definition upperTable9 :: "(int \<times> int list) list" where
  "upperTable9 = [
     (0xA65D, [0xA65C]), (0xA65F, [0xA65E]), (0xA661, [0xA660]), (0xA663, [0xA662]),
     (0xA665, [0xA664]), (0xA667, [0xA666]), (0xA669, [0xA668]), (0xA66B, [0xA66A]),
     (0xA66D, [0xA66C]), (0xA681, [0xA680]), (0xA683, [0xA682]), (0xA685, [0xA684]),
     (0xA687, [0xA686]), (0xA689, [0xA688]), (0xA68B, [0xA68A]), (0xA68D, [0xA68C]),
     (0xA68F, [0xA68E]), (0xA691, [0xA690]), (0xA693, [0xA692]), (0xA695, [0xA694]),
     (0xA697, [0xA696]), (0xA699, [0xA698]), (0xA69B, [0xA69A]), (0xA723, [0xA722]),
     (0xA725, [0xA724]), (0xA727, [0xA726]), (0xA729, [0xA728]), (0xA72B, [0xA72A]),
     (0xA72D, [0xA72C]), (0xA72F, [0xA72E]), (0xA733, [0xA732]), (0xA735, [0xA734]),
     (0xA737, [0xA736]), (0xA739, [0xA738]), (0xA73B, [0xA73A]), (0xA73D, [0xA73C]),
     (0xA73F, [0xA73E]), (0xA741, [0xA740]), (0xA743, [0xA742]), (0xA745, [0xA744]),
     (0xA747, [0xA746]), (0xA749, [0xA748]), (0xA74B, [0xA74A]), (0xA74D, [0xA74C]),
     (0xA74F, [0xA74E]), (0xA751, [0xA750]), (0xA753, [0xA752]), (0xA755, [0xA754]),
     (0xA757, [0xA756]), (0xA759, [0xA758]), (0xA75B, [0xA75A]), (0xA75D, [0xA75C]),
     (0xA75F, [0xA75E]), (0xA761, [0xA760]), (0xA763, [0xA762]), (0xA765, [0xA764]),
     (0xA767, [0xA766]), (0xA769, [0xA768]), (0xA76B, [0xA76A]), (0xA76D, [0xA76C]),
     (0xA76F, [0xA76E]), (0xA77A, [0xA779]), (0xA77C, [0xA77B]), (0xA77F, [0xA77E]),
     (0xA781, [0xA780]), (0xA783, [0xA782]), (0xA785, [0xA784]), (0xA787, [0xA786]),
     (0xA78C, [0xA78B]), (0xA791, [0xA790]), (0xA793, [0xA792]), (0xA794, [0xA7C4]),
     (0xA797, [0xA796]), (0xA799, [0xA798]), (0xA79B, [0xA79A]), (0xA79D, [0xA79C]),
     (0xA79F, [0xA79E]), (0xA7A1, [0xA7A0]), (0xA7A3, [0xA7A2]), (0xA7A5, [0xA7A4]),
     (0xA7A7, [0xA7A6]), (0xA7A9, [0xA7A8]), (0xA7B5, [0xA7B4]), (0xA7B7, [0xA7B6]),
     (0xA7B9, [0xA7B8]), (0xA7BB, [0xA7BA]), (0xA7BD, [0xA7BC]), (0xA7BF, [0xA7BE]),
     (0xA7C1, [0xA7C0]), (0xA7C3, [0xA7C2]), (0xA7C8, [0xA7C7]), (0xA7CA, [0xA7C9]),
     (0xA7D1, [0xA7D0]), (0xA7D7, [0xA7D6]), (0xA7D9, [0xA7D8]), (0xA7F6, [0xA7F5]),
     (0xAB53, [0xA7B3]), (0xAB70, [0x13A0]), (0xAB71, [0x13A1]), (0xAB72, [0x13A2]),
     (0xAB73, [0x13A3]), (0xAB74, [0x13A4]), (0xAB75, [0x13A5]), (0xAB76, [0x13A6]),
     (0xAB77, [0x13A7]), (0xAB78, [0x13A8]), (0xAB79, [0x13A9]), (0xAB7A, [0x13AA]),
     (0xAB7B, [0x13AB]), (0xAB7C, [0x13AC]), (0xAB7D, [0x13AD]), (0xAB7E, [0x13AE]),
     (0xAB7F, [0x13AF]), (0xAB80, [0x13B0]), (0xAB81, [0x13B1]), (0xAB82, [0x13B2]),
     (0xAB83, [0x13B3]), (0xAB84, [0x13B4]), (0xAB85, [0x13B5]), (0xAB86, [0x13B6]),
     (0xAB87, [0x13B7]), (0xAB88, [0x13B8]), (0xAB89, [0x13B9]), (0xAB8A, [0x13BA]),
     (0xAB8B, [0x13BB]), (0xAB8C, [0x13BC]), (0xAB8D, [0x13BD]), (0xAB8E, [0x13BE])]"

definition upperTable10 :: "(int \<times> int list) list" where
  "upperTable10 = [
     (0xAB8F, [0x13BF]), (0xAB90, [0x13C0]), (0xAB91, [0x13C1]), (0xAB92, [0x13C2]),
     (0xAB93, [0x13C3]), (0xAB94, [0x13C4]), (0xAB95, [0x13C5]), (0xAB96, [0x13C6]),
     (0xAB97, [0x13C7]), (0xAB98, [0x13C8]), (0xAB99, [0x13C9]), (0xAB9A, [0x13CA]),
     (0xAB9B, [0x13CB]), (0xAB9C, [0x13CC]), (0xAB9D, [0x13CD]), (0xAB9E, [0x13CE]),
     (0xAB9F, [0x13CF]), (0xABA0, [0x13D0]), (0xABA1, [0x13D1]), (0xABA2, [0x13D2]),
     (0xABA3, [0x13D3]), (0xABA4, [0x13D4]), (0xABA5, [0x13D5]), (0xABA6, [0x13D6]),
     (0xABA7, [0x13D7]), (0xABA8, [0x13D8]), (0xABA9, [0x13D9]), (0xABAA, [0x13DA]),
     (0xABAB, [0x13DB]), (0xABAC, [0x13DC]), (0xABAD, [0x13DD]), (0xABAE, [0x13DE]),
     (0xABAF, [0x13DF]), (0xABB0, [0x13E0]), (0xABB1, [0x13E1]), (0xABB2, [0x13E2]),
     (0xABB3, [0x13E3]), (0xABB4, [0x13E4]), (0xABB5, [0x13E5]), (0xABB6, [0x13E6]),
     (0xABB7, [0x13E7]), (0xABB8, [0x13E8]), (0xABB9, [0x13E9]), (0xABBA, [0x13EA]),
     (0xABBB, [0x13EB]), (0xABBC, [0x13EC]), (0xABBD, [0x13ED]), (0xABBE, [0x13EE]),
     (0xABBF, [0x13EF]), (0xFB00, [0x46, 0x46]), (0xFB01, [0x46, 0x49]),
     (0xFB02, [0x46, 0x4C]), (0xFB03, [0x46, 0x46, 0x49]), (0xFB04, [0x46, 0x46, 0x4C]),
     (0xFB05, [0x53, 0x54]), (0xFB06, [0x53, 0x54]), (0xFB13, [0x544, 0x546]),
     (0xFB14, [0x544, 0x535]), (0xFB15, [0x544, 0x53B]), (0xFB16, [0x54E, 0x546]),
     (0xFB17, [0x544, 0x53D]), (0xFF41, [0xFF21]), (0xFF42, [0xFF22]), (0xFF43, [0xFF23]),
     (0xFF44, [0xFF24]), (0xFF45, [0xFF25]), (0xFF46, [0xFF26]), (0xFF47, [0xFF27]),
     (0xFF48, [0xFF28]), (0xFF49, [0xFF29]), (0xFF4A, [0xFF2A]), (0xFF4B, [0xFF2B]),
     (0xFF4C, [0xFF2C]), (0xFF4D, [0xFF2D]), (0xFF4E, [0xFF2E]), (0xFF4F, [0xFF2F]),
     (0xFF50, [0xFF30]), (0xFF51, [0xFF31]), (0xFF52, [0xFF32]), (0xFF53, [0xFF33]),
     (0xFF54, [0xFF34]), (0xFF55, [0xFF35]), (0xFF56, [0xFF36]), (0xFF57, [0xFF37]),
     (0xFF58, [0xFF38]), (0xFF59, [0xFF39]), (0xFF5A, [0xFF3A]), (0x10428, [0x10400]),
     (0x10429, [0x10401]), (0x1042A, [0x10402]), (0x1042B, [0x10403]), (0x1042C, [0x10404]),
     (0x1042D, [0x10405]), (0x1042E, [0x10406]), (0x1042F, [0x10407]), (0x10430, [0x10408]),
     (0x10431, [0x10409]), (0x10432, [0x1040A]), (0x10433, [0x1040B]), (0x10434, [0x1040C]),
     (0x10435, [0x1040D]), (0x10436, [0x1040E]), (0x10437, [0x1040F]), (0x10438, [0x10410]),
     (0x10439, [0x10411]), (0x1043A, [0x10412]), (0x1043B, [0x10413]), (0x1043C, [0x10414]),
     (0x1043D, [0x10415]), (0x1043E, [0x10416]), (0x1043F, [0x10417]), (0x10440, [0x10418]),
     (0x10441, [0x10419]), (0x10442, [0x1041A]), (0x10443, [0x1041B]), (0x10444, [0x1041C]),
     (0x10445, [0x1041D]), (0x10446, [0x1041E]), (0x10447, [0x1041F]), (0x10448, [0x10420]),
     (0x10449, [0x10421]), (0x1044A, [0x10422]), (0x1044B, [0x10423]), (0x1044C, [0x10424]),
     (0x1044D, [0x10425]), (0x1044E, [0x10426]), (0x1044F, [0x10427]), (0x104D8, [0x104B0])]"

definition upperTable11 :: "(int \<times> int list) list" where
  "upperTable11 = [
     (0x104D9, [0x104B1]), (0x104DA, [0x104B2]), (0x104DB, [0x104B3]), (0x104DC, [0x104B4]),
     (0x104DD, [0x104B5]), (0x104DE, [0x104B6]), (0x104DF, [0x104B7]), (0x104E0, [0x104B8]),
     (0x104E1, [0x104B9]), (0x104E2, [0x104BA]), (0x104E3, [0x104BB]), (0x104E4, [0x104BC]),
     (0x104E5, [0x104BD]), (0x104E6, [0x104BE]), (0x104E7, [0x104BF]), (0x104E8, [0x104C0]),
     (0x104E9, [0x104C1]), (0x104EA, [0x104C2]), (0x104EB, [0x104C3]), (0x104EC, [0x104C4]),
     (0x104ED, [0x104C5]), (0x104EE, [0x104C6]), (0x104EF, [0x104C7]), (0x104F0, [0x104C8]),
     (0x104F1, [0x104C9]), (0x104F2, [0x104CA]), (0x104F3, [0x104CB]), (0x104F4, [0x104CC]),
     (0x104F5, [0x104CD]), (0x104F6, [0x104CE]), (0x104F7, [0x104CF]), (0x104F8, [0x104D0]),
     (0x104F9, [0x104D1]), (0x104FA, [0x104D2]), (0x104FB, [0x104D3]), (0x10597, [0x10570]),
     (0x10598, [0x10571]), (0x10599, [0x10572]), (0x1059A, [0x10573]), (0x1059B, [0x10574]),
     (0x1059C, [0x10575]), (0x1059D, [0x10576]), (0x1059E, [0x10577]), (0x1059F, [0x10578]),
     (0x105A0, [0x10579]), (0x105A1, [0x1057A]), (0x105A3, [0x1057C]), (0x105A4, [0x1057D]),
     (0x105A5, [0x1057E]), (0x105A6, [0x1057F]), (0x105A7, [0x10580]), (0x105A8, [0x10581]),
     (0x105A9, [0x10582]), (0x105AA, [0x10583]), (0x105AB, [0x10584]), (0x105AC, [0x10585]),
     (0x105AD, [0x10586]), (0x105AE, [0x10587]), (0x105AF, [0x10588]), (0x105B0, [0x10589]),
     (0x105B1, [0x1058A]), (0x105B3, [0x1058C]), (0x105B4, [0x1058D]), (0x105B5, [0x1058E]),
     (0x105B6, [0x1058F]), (0x105B7, [0x10590]), (0x105B8, [0x10591]), (0x105B9, [0x10592]),
     (0x105BB, [0x10594]), (0x105BC, [0x10595]), (0x10CC0, [0x10C80]), (0x10CC1, [0x10C81]),
     (0x10CC2, [0x10C82]), (0x10CC3, [0x10C83]), (0x10CC4, [0x10C84]), (0x10CC5, [0x10C85]),
     (0x10CC6, [0x10C86]), (0x10CC7, [0x10C87]), (0x10CC8, [0x10C88]), (0x10CC9, [0x10C89]),
     (0x10CCA, [0x10C8A]), (0x10CCB, [0x10C8B]), (0x10CCC, [0x10C8C]), (0x10CCD, [0x10C8D]),
     (0x10CCE, [0x10C8E]), (0x10CCF, [0x10C8F]), (0x10CD0, [0x10C90]), (0x10CD1, [0x10C91]),
     (0x10CD2, [0x10C92]), (0x10CD3, [0x10C93]), (0x10CD4, [0x10C94]), (0x10CD5, [0x10C95]),
     (0x10CD6, [0x10C96]), (0x10CD7, [0x10C97]), (0x10CD8, [0x10C98]), (0x10CD9, [0x10C99]),
     (0x10CDA, [0x10C9A]), (0x10CDB, [0x10C9B]), (0x10CDC, [0x10C9C]), (0x10CDD, [0x10C9D]),
     (0x10CDE, [0x10C9E]), (0x10CDF, [0x10C9F]), (0x10CE0, [0x10CA0]), (0x10CE1, [0x10CA1]),
     (0x10CE2, [0x10CA2]), (0x10CE3, [0x10CA3]), (0x10CE4, [0x10CA4]), (0x10CE5, [0x10CA5]),
     (0x10CE6, [0x10CA6]), (0x10CE7, [0x10CA7]), (0x10CE8, [0x10CA8]), (0x10CE9, [0x10CA9]),
     (0x10CEA, [0x10CAA]), (0x10CEB, [0x10CAB]), (0x10CEC, [0x10CAC]), (0x10CED, [0x10CAD]),
     (0x10CEE, [0x10CAE]), (0x10CEF, [0x10CAF]), (0x10CF0, [0x10CB0]), (0x10CF1, [0x10CB1]),
     (0x10CF2, [0x10CB2]), (0x118C0, [0x118A0]), (0x118C1, [0x118A1]), (0x118C2, [0x118A2]),
     (0x118C3, [0x118A3]), (0x118C4, [0x118A4]), (0x118C5, [0x118A5]), (0x118C6, [0x118A6])]"

definition upperTable12 :: "(int \<times> int list) list" where
  "upperTable12 = [
     (0x118C7, [0x118A7]), (0x118C8, [0x118A8]), (0x118C9, [0x118A9]), (0x118CA, [0x118AA]),
     (0x118CB, [0x118AB]), (0x118CC, [0x118AC]), (0x118CD, [0x118AD]), (0x118CE, [0x118AE]),
     (0x118CF, [0x118AF]), (0x118D0, [0x118B0]), (0x118D1, [0x118B1]), (0x118D2, [0x118B2]),
     (0x118D3, [0x118B3]), (0x118D4, [0x118B4]), (0x118D5, [0x118B5]), (0x118D6, [0x118B6]),
     (0x118D7, [0x118B7]), (0x118D8, [0x118B8]), (0x118D9, [0x118B9]), (0x118DA, [0x118BA]),
     (0x118DB, [0x118BB]), (0x118DC, [0x118BC]), (0x118DD, [0x118BD]), (0x118DE, [0x118BE]),
     (0x118DF, [0x118BF]), (0x16E60, [0x16E40]), (0x16E61, [0x16E41]), (0x16E62, [0x16E42]),
     (0x16E63, [0x16E43]), (0x16E64, [0x16E44]), (0x16E65, [0x16E45]), (0x16E66, [0x16E46]),
     (0x16E67, [0x16E47]), (0x16E68, [0x16E48]), (0x16E69, [0x16E49]), (0x16E6A, [0x16E4A]),
     (0x16E6B, [0x16E4B]), (0x16E6C, [0x16E4C]), (0x16E6D, [0x16E4D]), (0x16E6E, [0x16E4E]),
     (0x16E6F, [0x16E4F]), (0x16E70, [0x16E50]), (0x16E71, [0x16E51]), (0x16E72, [0x16E52]),
     (0x16E73, [0x16E53]), (0x16E74, [0x16E54]), (0x16E75, [0x16E55]), (0x16E76, [0x16E56]),
     (0x16E77, [0x16E57]), (0x16E78, [0x16E58]), (0x16E79, [0x16E59]), (0x16E7A, [0x16E5A]),
     (0x16E7B, [0x16E5B]), (0x16E7C, [0x16E5C]), (0x16E7D, [0x16E5D]), (0x16E7E, [0x16E5E]),
     (0x16E7F, [0x16E5F]), (0x1E922, [0x1E900]), (0x1E923, [0x1E901]), (0x1E924, [0x1E902]),
     (0x1E925, [0x1E903]), (0x1E926, [0x1E904]), (0x1E927, [0x1E905]), (0x1E928, [0x1E906]),
     (0x1E929, [0x1E907]), (0x1E92A, [0x1E908]), (0x1E92B, [0x1E909]), (0x1E92C, [0x1E90A]),
     (0x1E92D, [0x1E90B]), (0x1E92E, [0x1E90C]), (0x1E92F, [0x1E90D]), (0x1E930, [0x1E90E]),
     (0x1E931, [0x1E90F]), (0x1E932, [0x1E910]), (0x1E933, [0x1E911]), (0x1E934, [0x1E912]),
     (0x1E935, [0x1E913]), (0x1E936, [0x1E914]), (0x1E937, [0x1E915]), (0x1E938, [0x1E916]),
     (0x1E939, [0x1E917]), (0x1E93A, [0x1E918]), (0x1E93B, [0x1E919]), (0x1E93C, [0x1E91A]),
     (0x1E93D, [0x1E91B]), (0x1E93E, [0x1E91C]), (0x1E93F, [0x1E91D]), (0x1E940, [0x1E91E]),
     (0x1E941, [0x1E91F]), (0x1E942, [0x1E920]), (0x1E943, [0x1E921])]"

definition upperTable :: "(int \<times> int list) list" where
  "upperTable = upperTable1 @ upperTable2 @ upperTable3 @ upperTable4 @ upperTable5 @ upperTable6 @ upperTable7 @ upperTable8 @ upperTable9 @ upperTable10 @ upperTable11 @ upperTable12"

definition lowerTable1 :: "(int \<times> int list) list" where
  "lowerTable1 = [
     (0xC0, [0xE0]), (0xC1, [0xE1]), (0xC2, [0xE2]), (0xC3, [0xE3]), (0xC4, [0xE4]),
     (0xC5, [0xE5]), (0xC6, [0xE6]), (0xC7, [0xE7]), (0xC8, [0xE8]), (0xC9, [0xE9]),
     (0xCA, [0xEA]), (0xCB, [0xEB]), (0xCC, [0xEC]), (0xCD, [0xED]), (0xCE, [0xEE]),
     (0xCF, [0xEF]), (0xD0, [0xF0]), (0xD1, [0xF1]), (0xD2, [0xF2]), (0xD3, [0xF3]),
     (0xD4, [0xF4]), (0xD5, [0xF5]), (0xD6, [0xF6]), (0xD8, [0xF8]), (0xD9, [0xF9]),
     (0xDA, [0xFA]), (0xDB, [0xFB]), (0xDC, [0xFC]), (0xDD, [0xFD]), (0xDE, [0xFE]),
     (0x100, [0x101]), (0x102, [0x103]), (0x104, [0x105]), (0x106, [0x107]), (0x108, [0x109]),
     (0x10A, [0x10B]), (0x10C, [0x10D]), (0x10E, [0x10F]), (0x110, [0x111]), (0x112, [0x113]),
     (0x114, [0x115]), (0x116, [0x117]), (0x118, [0x119]), (0x11A, [0x11B]), (0x11C, [0x11D]),
     (0x11E, [0x11F]), (0x120, [0x121]), (0x122, [0x123]), (0x124, [0x125]), (0x126, [0x127]),
     (0x128, [0x129]), (0x12A, [0x12B]), (0x12C, [0x12D]), (0x12E, [0x12F]),
     (0x130, [0x69, 0x307]), (0x132, [0x133]), (0x134, [0x135]), (0x136, [0x137]),
     (0x139, [0x13A]), (0x13B, [0x13C]), (0x13D, [0x13E]), (0x13F, [0x140]), (0x141, [0x142]),
     (0x143, [0x144]), (0x145, [0x146]), (0x147, [0x148]), (0x14A, [0x14B]), (0x14C, [0x14D]),
     (0x14E, [0x14F]), (0x150, [0x151]), (0x152, [0x153]), (0x154, [0x155]), (0x156, [0x157]),
     (0x158, [0x159]), (0x15A, [0x15B]), (0x15C, [0x15D]), (0x15E, [0x15F]), (0x160, [0x161]),
     (0x162, [0x163]), (0x164, [0x165]), (0x166, [0x167]), (0x168, [0x169]), (0x16A, [0x16B]),
     (0x16C, [0x16D]), (0x16E, [0x16F]), (0x170, [0x171]), (0x172, [0x173]), (0x174, [0x175]),
     (0x176, [0x177]), (0x178, [0xFF]), (0x179, [0x17A]), (0x17B, [0x17C]), (0x17D, [0x17E]),
     (0x181, [0x253]), (0x182, [0x183]), (0x184, [0x185]), (0x186, [0x254]), (0x187, [0x188]),
     (0x189, [0x256]), (0x18A, [0x257]), (0x18B, [0x18C]), (0x18E, [0x1DD]), (0x18F, [0x259]),
     (0x190, [0x25B]), (0x191, [0x192]), (0x193, [0x260]), (0x194, [0x263]), (0x196, [0x269]),
     (0x197, [0x268]), (0x198, [0x199]), (0x19C, [0x26F]), (0x19D, [0x272]), (0x19F, [0x275]),
     (0x1A0, [0x1A1]), (0x1A2, [0x1A3]), (0x1A4, [0x1A5]), (0x1A6, [0x280]), (0x1A7, [0x1A8]),
     (0x1A9, [0x283]), (0x1AC, [0x1AD]), (0x1AE, [0x288]), (0x1AF, [0x1B0]), (0x1B1, [0x28A]),
     (0x1B2, [0x28B]), (0x1B3, [0x1B4]), (0x1B5, [0x1B6]), (0x1B7, [0x292]), (0x1B8, [0x1B9])]"

definition lowerTable2 :: "(int \<times> int list) list" where
  "lowerTable2 = [
     (0x1BC, [0x1BD]), (0x1C4, [0x1C6]), (0x1C5, [0x1C6]), (0x1C7, [0x1C9]), (0x1C8, [0x1C9]),
     (0x1CA, [0x1CC]), (0x1CB, [0x1CC]), (0x1CD, [0x1CE]), (0x1CF, [0x1D0]), (0x1D1, [0x1D2]),
     (0x1D3, [0x1D4]), (0x1D5, [0x1D6]), (0x1D7, [0x1D8]), (0x1D9, [0x1DA]), (0x1DB, [0x1DC]),
     (0x1DE, [0x1DF]), (0x1E0, [0x1E1]), (0x1E2, [0x1E3]), (0x1E4, [0x1E5]), (0x1E6, [0x1E7]),
     (0x1E8, [0x1E9]), (0x1EA, [0x1EB]), (0x1EC, [0x1ED]), (0x1EE, [0x1EF]), (0x1F1, [0x1F3]),
     (0x1F2, [0x1F3]), (0x1F4, [0x1F5]), (0x1F6, [0x195]), (0x1F7, [0x1BF]), (0x1F8, [0x1F9]),
     (0x1FA, [0x1FB]), (0x1FC, [0x1FD]), (0x1FE, [0x1FF]), (0x200, [0x201]), (0x202, [0x203]),
     (0x204, [0x205]), (0x206, [0x207]), (0x208, [0x209]), (0x20A, [0x20B]), (0x20C, [0x20D]),
     (0x20E, [0x20F]), (0x210, [0x211]), (0x212, [0x213]), (0x214, [0x215]), (0x216, [0x217]),
     (0x218, [0x219]), (0x21A, [0x21B]), (0x21C, [0x21D]), (0x21E, [0x21F]), (0x220, [0x19E]),
     (0x222, [0x223]), (0x224, [0x225]), (0x226, [0x227]), (0x228, [0x229]), (0x22A, [0x22B]),
     (0x22C, [0x22D]), (0x22E, [0x22F]), (0x230, [0x231]), (0x232, [0x233]), (0x23A, [0x2C65]),
     (0x23B, [0x23C]), (0x23D, [0x19A]), (0x23E, [0x2C66]), (0x241, [0x242]), (0x243, [0x180]),
     (0x244, [0x289]), (0x245, [0x28C]), (0x246, [0x247]), (0x248, [0x249]), (0x24A, [0x24B]),
     (0x24C, [0x24D]), (0x24E, [0x24F]), (0x370, [0x371]), (0x372, [0x373]), (0x376, [0x377]),
     (0x37F, [0x3F3]), (0x386, [0x3AC]), (0x388, [0x3AD]), (0x389, [0x3AE]), (0x38A, [0x3AF]),
     (0x38C, [0x3CC]), (0x38E, [0x3CD]), (0x38F, [0x3CE]), (0x391, [0x3B1]), (0x392, [0x3B2]),
     (0x393, [0x3B3]), (0x394, [0x3B4]), (0x395, [0x3B5]), (0x396, [0x3B6]), (0x397, [0x3B7]),
     (0x398, [0x3B8]), (0x399, [0x3B9]), (0x39A, [0x3BA]), (0x39B, [0x3BB]), (0x39C, [0x3BC]),
     (0x39D, [0x3BD]), (0x39E, [0x3BE]), (0x39F, [0x3BF]), (0x3A0, [0x3C0]), (0x3A1, [0x3C1]),
     (0x3A4, [0x3C4]), (0x3A5, [0x3C5]), (0x3A6, [0x3C6]), (0x3A7, [0x3C7]), (0x3A8, [0x3C8]),
     (0x3A9, [0x3C9]), (0x3AA, [0x3CA]), (0x3AB, [0x3CB]), (0x3CF, [0x3D7]), (0x3D8, [0x3D9]),
     (0x3DA, [0x3DB]), (0x3DC, [0x3DD]), (0x3DE, [0x3DF]), (0x3E0, [0x3E1]), (0x3E2, [0x3E3]),
     (0x3E4, [0x3E5]), (0x3E6, [0x3E7]), (0x3E8, [0x3E9]), (0x3EA, [0x3EB]), (0x3EC, [0x3ED]),
     (0x3EE, [0x3EF]), (0x3F4, [0x3B8]), (0x3F7, [0x3F8]), (0x3F9, [0x3F2]), (0x3FA, [0x3FB]),
     (0x3FD, [0x37B]), (0x3FE, [0x37C]), (0x3FF, [0x37D])]"

definition lowerTable3 :: "(int \<times> int list) list" where
  "lowerTable3 = [
     (0x400, [0x450]), (0x401, [0x451]), (0x402, [0x452]), (0x403, [0x453]), (0x404, [0x454]),
     (0x405, [0x455]), (0x406, [0x456]), (0x407, [0x457]), (0x408, [0x458]), (0x409, [0x459]),
     (0x40A, [0x45A]), (0x40B, [0x45B]), (0x40C, [0x45C]), (0x40D, [0x45D]), (0x40E, [0x45E]),
     (0x40F, [0x45F]), (0x410, [0x430]), (0x411, [0x431]), (0x412, [0x432]), (0x413, [0x433]),
     (0x414, [0x434]), (0x415, [0x435]), (0x416, [0x436]), (0x417, [0x437]), (0x418, [0x438]),
     (0x419, [0x439]), (0x41A, [0x43A]), (0x41B, [0x43B]), (0x41C, [0x43C]), (0x41D, [0x43D]),
     (0x41E, [0x43E]), (0x41F, [0x43F]), (0x420, [0x440]), (0x421, [0x441]), (0x422, [0x442]),
     (0x423, [0x443]), (0x424, [0x444]), (0x425, [0x445]), (0x426, [0x446]), (0x427, [0x447]),
     (0x428, [0x448]), (0x429, [0x449]), (0x42A, [0x44A]), (0x42B, [0x44B]), (0x42C, [0x44C]),
     (0x42D, [0x44D]), (0x42E, [0x44E]), (0x42F, [0x44F]), (0x460, [0x461]), (0x462, [0x463]),
     (0x464, [0x465]), (0x466, [0x467]), (0x468, [0x469]), (0x46A, [0x46B]), (0x46C, [0x46D]),
     (0x46E, [0x46F]), (0x470, [0x471]), (0x472, [0x473]), (0x474, [0x475]), (0x476, [0x477]),
     (0x478, [0x479]), (0x47A, [0x47B]), (0x47C, [0x47D]), (0x47E, [0x47F]), (0x480, [0x481]),
     (0x48A, [0x48B]), (0x48C, [0x48D]), (0x48E, [0x48F]), (0x490, [0x491]), (0x492, [0x493]),
     (0x494, [0x495]), (0x496, [0x497]), (0x498, [0x499]), (0x49A, [0x49B]), (0x49C, [0x49D]),
     (0x49E, [0x49F]), (0x4A0, [0x4A1]), (0x4A2, [0x4A3]), (0x4A4, [0x4A5]), (0x4A6, [0x4A7]),
     (0x4A8, [0x4A9]), (0x4AA, [0x4AB]), (0x4AC, [0x4AD]), (0x4AE, [0x4AF]), (0x4B0, [0x4B1]),
     (0x4B2, [0x4B3]), (0x4B4, [0x4B5]), (0x4B6, [0x4B7]), (0x4B8, [0x4B9]), (0x4BA, [0x4BB]),
     (0x4BC, [0x4BD]), (0x4BE, [0x4BF]), (0x4C0, [0x4CF]), (0x4C1, [0x4C2]), (0x4C3, [0x4C4]),
     (0x4C5, [0x4C6]), (0x4C7, [0x4C8]), (0x4C9, [0x4CA]), (0x4CB, [0x4CC]), (0x4CD, [0x4CE]),
     (0x4D0, [0x4D1]), (0x4D2, [0x4D3]), (0x4D4, [0x4D5]), (0x4D6, [0x4D7]), (0x4D8, [0x4D9]),
     (0x4DA, [0x4DB]), (0x4DC, [0x4DD]), (0x4DE, [0x4DF]), (0x4E0, [0x4E1]), (0x4E2, [0x4E3]),
     (0x4E4, [0x4E5]), (0x4E6, [0x4E7]), (0x4E8, [0x4E9]), (0x4EA, [0x4EB]), (0x4EC, [0x4ED]),
     (0x4EE, [0x4EF]), (0x4F0, [0x4F1]), (0x4F2, [0x4F3]), (0x4F4, [0x4F5]), (0x4F6, [0x4F7]),
     (0x4F8, [0x4F9]), (0x4FA, [0x4FB]), (0x4FC, [0x4FD]), (0x4FE, [0x4FF]), (0x500, [0x501]),
     (0x502, [0x503]), (0x504, [0x505]), (0x506, [0x507])]"

definition lowerTable4 :: "(int \<times> int list) list" where
  "lowerTable4 = [
     (0x508, [0x509]), (0x50A, [0x50B]), (0x50C, [0x50D]), (0x50E, [0x50F]), (0x510, [0x511]),
     (0x512, [0x513]), (0x514, [0x515]), (0x516, [0x517]), (0x518, [0x519]), (0x51A, [0x51B]),
     (0x51C, [0x51D]), (0x51E, [0x51F]), (0x520, [0x521]), (0x522, [0x523]), (0x524, [0x525]),
     (0x526, [0x527]), (0x528, [0x529]), (0x52A, [0x52B]), (0x52C, [0x52D]), (0x52E, [0x52F]),
     (0x531, [0x561]), (0x532, [0x562]), (0x533, [0x563]), (0x534, [0x564]), (0x535, [0x565]),
     (0x536, [0x566]), (0x537, [0x567]), (0x538, [0x568]), (0x539, [0x569]), (0x53A, [0x56A]),
     (0x53B, [0x56B]), (0x53C, [0x56C]), (0x53D, [0x56D]), (0x53E, [0x56E]), (0x53F, [0x56F]),
     (0x540, [0x570]), (0x541, [0x571]), (0x542, [0x572]), (0x543, [0x573]), (0x544, [0x574]),
     (0x545, [0x575]), (0x546, [0x576]), (0x547, [0x577]), (0x548, [0x578]), (0x549, [0x579]),
     (0x54A, [0x57A]), (0x54B, [0x57B]), (0x54C, [0x57C]), (0x54D, [0x57D]), (0x54E, [0x57E]),
     (0x54F, [0x57F]), (0x550, [0x580]), (0x551, [0x581]), (0x552, [0x582]), (0x553, [0x583]),
     (0x554, [0x584]), (0x555, [0x585]), (0x556, [0x586]), (0x10A0, [0x2D00]),
     (0x10A1, [0x2D01]), (0x10A2, [0x2D02]), (0x10A3, [0x2D03]), (0x10A4, [0x2D04]),
     (0x10A5, [0x2D05]), (0x10A6, [0x2D06]), (0x10A7, [0x2D07]), (0x10A8, [0x2D08]),
     (0x10A9, [0x2D09]), (0x10AA, [0x2D0A]), (0x10AB, [0x2D0B]), (0x10AC, [0x2D0C]),
     (0x10AD, [0x2D0D]), (0x10AE, [0x2D0E]), (0x10AF, [0x2D0F]), (0x10B0, [0x2D10]),
     (0x10B1, [0x2D11]), (0x10B2, [0x2D12]), (0x10B3, [0x2D13]), (0x10B4, [0x2D14]),
     (0x10B5, [0x2D15]), (0x10B6, [0x2D16]), (0x10B7, [0x2D17]), (0x10B8, [0x2D18]),
     (0x10B9, [0x2D19]), (0x10BA, [0x2D1A]), (0x10BB, [0x2D1B]), (0x10BC, [0x2D1C]),
     (0x10BD, [0x2D1D]), (0x10BE, [0x2D1E]), (0x10BF, [0x2D1F]), (0x10C0, [0x2D20]),
     (0x10C1, [0x2D21]), (0x10C2, [0x2D22]), (0x10C3, [0x2D23]), (0x10C4, [0x2D24]),
     (0x10C5, [0x2D25]), (0x10C7, [0x2D27]), (0x10CD, [0x2D2D]), (0x13A0, [0xAB70]),
     (0x13A1, [0xAB71]), (0x13A2, [0xAB72]), (0x13A3, [0xAB73]), (0x13A4, [0xAB74]),
     (0x13A5, [0xAB75]), (0x13A6, [0xAB76]), (0x13A7, [0xAB77]), (0x13A8, [0xAB78]),
     (0x13A9, [0xAB79]), (0x13AA, [0xAB7A]), (0x13AB, [0xAB7B]), (0x13AC, [0xAB7C]),
     (0x13AD, [0xAB7D]), (0x13AE, [0xAB7E]), (0x13AF, [0xAB7F]), (0x13B0, [0xAB80]),
     (0x13B1, [0xAB81]), (0x13B2, [0xAB82]), (0x13B3, [0xAB83]), (0x13B4, [0xAB84]),
     (0x13B5, [0xAB85]), (0x13B6, [0xAB86]), (0x13B7, [0xAB87]), (0x13B8, [0xAB88]),
     (0x13B9, [0xAB89]), (0x13BA, [0xAB8A]), (0x13BB, [0xAB8B]), (0x13BC, [0xAB8C]),
     (0x13BD, [0xAB8D])]"

definition lowerTable5 :: "(int \<times> int list) list" where
  "lowerTable5 = [
     (0x13BE, [0xAB8E]), (0x13BF, [0xAB8F]), (0x13C0, [0xAB90]), (0x13C1, [0xAB91]),
     (0x13C2, [0xAB92]), (0x13C3, [0xAB93]), (0x13C4, [0xAB94]), (0x13C5, [0xAB95]),
     (0x13C6, [0xAB96]), (0x13C7, [0xAB97]), (0x13C8, [0xAB98]), (0x13C9, [0xAB99]),
     (0x13CA, [0xAB9A]), (0x13CB, [0xAB9B]), (0x13CC, [0xAB9C]), (0x13CD, [0xAB9D]),
     (0x13CE, [0xAB9E]), (0x13CF, [0xAB9F]), (0x13D0, [0xABA0]), (0x13D1, [0xABA1]),
     (0x13D2, [0xABA2]), (0x13D3, [0xABA3]), (0x13D4, [0xABA4]), (0x13D5, [0xABA5]),
     (0x13D6, [0xABA6]), (0x13D7, [0xABA7]), (0x13D8, [0xABA8]), (0x13D9, [0xABA9]),
     (0x13DA, [0xABAA]), (0x13DB, [0xABAB]), (0x13DC, [0xABAC]), (0x13DD, [0xABAD]),
     (0x13DE, [0xABAE]), (0x13DF, [0xABAF]), (0x13E0, [0xABB0]), (0x13E1, [0xABB1]),
     (0x13E2, [0xABB2]), (0x13E3, [0xABB3]), (0x13E4, [0xABB4]), (0x13E5, [0xABB5]),
     (0x13E6, [0xABB6]), (0x13E7, [0xABB7]), (0x13E8, [0xABB8]), (0x13E9, [0xABB9]),
     (0x13EA, [0xABBA]), (0x13EB, [0xABBB]), (0x13EC, [0xABBC]), (0x13ED, [0xABBD]),
     (0x13EE, [0xABBE]), (0x13EF, [0xABBF]), (0x13F0, [0x13F8]), (0x13F1, [0x13F9]),
     (0x13F2, [0x13FA]), (0x13F3, [0x13FB]), (0x13F4, [0x13FC]), (0x13F5, [0x13FD]),
     (0x1C90, [0x10D0]), (0x1C91, [0x10D1]), (0x1C92, [0x10D2]), (0x1C93, [0x10D3]),
     (0x1C94, [0x10D4]), (0x1C95, [0x10D5]), (0x1C96, [0x10D6]), (0x1C97, [0x10D7]),
     (0x1C98, [0x10D8]), (0x1C99, [0x10D9]), (0x1C9A, [0x10DA]), (0x1C9B, [0x10DB]),
     (0x1C9C, [0x10DC]), (0x1C9D, [0x10DD]), (0x1C9E, [0x10DE]), (0x1C9F, [0x10DF]),
     (0x1CA0, [0x10E0]), (0x1CA1, [0x10E1]), (0x1CA2, [0x10E2]), (0x1CA3, [0x10E3]),
     (0x1CA4, [0x10E4]), (0x1CA5, [0x10E5]), (0x1CA6, [0x10E6]), (0x1CA7, [0x10E7]),
     (0x1CA8, [0x10E8]), (0x1CA9, [0x10E9]), (0x1CAA, [0x10EA]), (0x1CAB, [0x10EB]),
     (0x1CAC, [0x10EC]), (0x1CAD, [0x10ED]), (0x1CAE, [0x10EE]), (0x1CAF, [0x10EF]),
     (0x1CB0, [0x10F0]), (0x1CB1, [0x10F1]), (0x1CB2, [0x10F2]), (0x1CB3, [0x10F3]),
     (0x1CB4, [0x10F4]), (0x1CB5, [0x10F5]), (0x1CB6, [0x10F6]), (0x1CB7, [0x10F7]),
     (0x1CB8, [0x10F8]), (0x1CB9, [0x10F9]), (0x1CBA, [0x10FA]), (0x1CBD, [0x10FD]),
     (0x1CBE, [0x10FE]), (0x1CBF, [0x10FF]), (0x1E00, [0x1E01]), (0x1E02, [0x1E03]),
     (0x1E04, [0x1E05]), (0x1E06, [0x1E07]), (0x1E08, [0x1E09]), (0x1E0A, [0x1E0B]),
     (0x1E0C, [0x1E0D]), (0x1E0E, [0x1E0F]), (0x1E10, [0x1E11]), (0x1E12, [0x1E13]),
     (0x1E14, [0x1E15]), (0x1E16, [0x1E17]), (0x1E18, [0x1E19]), (0x1E1A, [0x1E1B]),
     (0x1E1C, [0x1E1D]), (0x1E1E, [0x1E1F]), (0x1E20, [0x1E21]), (0x1E22, [0x1E23]),
     (0x1E24, [0x1E25]), (0x1E26, [0x1E27]), (0x1E28, [0x1E29]), (0x1E2A, [0x1E2B]),
     (0x1E2C, [0x1E2D]), (0x1E2E, [0x1E2F]), (0x1E30, [0x1E31]), (0x1E32, [0x1E33])]"

definition lowerTable6 :: "(int \<times> int list) list" where
  "lowerTable6 = [
     (0x1E34, [0x1E35]), (0x1E36, [0x1E37]), (0x1E38, [0x1E39]), (0x1E3A, [0x1E3B]),
     (0x1E3C, [0x1E3D]), (0x1E3E, [0x1E3F]), (0x1E40, [0x1E41]), (0x1E42, [0x1E43]),
     (0x1E44, [0x1E45]), (0x1E46, [0x1E47]), (0x1E48, [0x1E49]), (0x1E4A, [0x1E4B]),
     (0x1E4C, [0x1E4D]), (0x1E4E, [0x1E4F]), (0x1E50, [0x1E51]), (0x1E52, [0x1E53]),
     (0x1E54, [0x1E55]), (0x1E56, [0x1E57]), (0x1E58, [0x1E59]), (0x1E5A, [0x1E5B]),
     (0x1E5C, [0x1E5D]), (0x1E5E, [0x1E5F]), (0x1E60, [0x1E61]), (0x1E62, [0x1E63]),
     (0x1E64, [0x1E65]), (0x1E66, [0x1E67]), (0x1E68, [0x1E69]), (0x1E6A, [0x1E6B]),
     (0x1E6C, [0x1E6D]), (0x1E6E, [0x1E6F]), (0x1E70, [0x1E71]), (0x1E72, [0x1E73]),
     (0x1E74, [0x1E75]), (0x1E76, [0x1E77]), (0x1E78, [0x1E79]), (0x1E7A, [0x1E7B]),
     (0x1E7C, [0x1E7D]), (0x1E7E, [0x1E7F]), (0x1E80, [0x1E81]), (0x1E82, [0x1E83]),
     (0x1E84, [0x1E85]), (0x1E86, [0x1E87]), (0x1E88, [0x1E89]), (0x1E8A, [0x1E8B]),
     (0x1E8C, [0x1E8D]), (0x1E8E, [0x1E8F]), (0x1E90, [0x1E91]), (0x1E92, [0x1E93]),
     (0x1E94, [0x1E95]), (0x1E9E, [0xDF]), (0x1EA0, [0x1EA1]), (0x1EA2, [0x1EA3]),
     (0x1EA4, [0x1EA5]), (0x1EA6, [0x1EA7]), (0x1EA8, [0x1EA9]), (0x1EAA, [0x1EAB]),
     (0x1EAC, [0x1EAD]), (0x1EAE, [0x1EAF]), (0x1EB0, [0x1EB1]), (0x1EB2, [0x1EB3]),
     (0x1EB4, [0x1EB5]), (0x1EB6, [0x1EB7]), (0x1EB8, [0x1EB9]), (0x1EBA, [0x1EBB]),
     (0x1EBC, [0x1EBD]), (0x1EBE, [0x1EBF]), (0x1EC0, [0x1EC1]), (0x1EC2, [0x1EC3]),
     (0x1EC4, [0x1EC5]), (0x1EC6, [0x1EC7]), (0x1EC8, [0x1EC9]), (0x1ECA, [0x1ECB]),
     (0x1ECC, [0x1ECD]), (0x1ECE, [0x1ECF]), (0x1ED0, [0x1ED1]), (0x1ED2, [0x1ED3]),
     (0x1ED4, [0x1ED5]), (0x1ED6, [0x1ED7]), (0x1ED8, [0x1ED9]), (0x1EDA, [0x1EDB]),
     (0x1EDC, [0x1EDD]), (0x1EDE, [0x1EDF]), (0x1EE0, [0x1EE1]), (0x1EE2, [0x1EE3]),
     (0x1EE4, [0x1EE5]), (0x1EE6, [0x1EE7]), (0x1EE8, [0x1EE9]), (0x1EEA, [0x1EEB]),
     (0x1EEC, [0x1EED]), (0x1EEE, [0x1EEF]), (0x1EF0, [0x1EF1]), (0x1EF2, [0x1EF3]),
     (0x1EF4, [0x1EF5]), (0x1EF6, [0x1EF7]), (0x1EF8, [0x1EF9]), (0x1EFA, [0x1EFB]),
     (0x1EFC, [0x1EFD]), (0x1EFE, [0x1EFF]), (0x1F08, [0x1F00]), (0x1F09, [0x1F01]),
     (0x1F0A, [0x1F02]), (0x1F0B, [0x1F03]), (0x1F0C, [0x1F04]), (0x1F0D, [0x1F05]),
     (0x1F0E, [0x1F06]), (0x1F0F, [0x1F07]), (0x1F18, [0x1F10]), (0x1F19, [0x1F11]),
     (0x1F1A, [0x1F12]), (0x1F1B, [0x1F13]), (0x1F1C, [0x1F14]), (0x1F1D, [0x1F15]),
     (0x1F28, [0x1F20]), (0x1F29, [0x1F21]), (0x1F2A, [0x1F22]), (0x1F2B, [0x1F23]),
     (0x1F2C, [0x1F24]), (0x1F2D, [0x1F25]), (0x1F2E, [0x1F26]), (0x1F2F, [0x1F27]),
     (0x1F38, [0x1F30]), (0x1F39, [0x1F31]), (0x1F3A, [0x1F32]), (0x1F3B, [0x1F33]),
     (0x1F3C, [0x1F34]), (0x1F3D, [0x1F35]), (0x1F3E, [0x1F36]), (0x1F3F, [0x1F37])]"

definition lowerTable7 :: "(int \<times> int list) list" where
  "lowerTable7 = [
     (0x1F48, [0x1F40]), (0x1F49, [0x1F41]), (0x1F4A, [0x1F42]), (0x1F4B, [0x1F43]),
     (0x1F4C, [0x1F44]), (0x1F4D, [0x1F45]), (0x1F59, [0x1F51]), (0x1F5B, [0x1F53]),
     (0x1F5D, [0x1F55]), (0x1F5F, [0x1F57]), (0x1F68, [0x1F60]), (0x1F69, [0x1F61]),
     (0x1F6A, [0x1F62]), (0x1F6B, [0x1F63]), (0x1F6C, [0x1F64]), (0x1F6D, [0x1F65]),
     (0x1F6E, [0x1F66]), (0x1F6F, [0x1F67]), (0x1F88, [0x1F80]), (0x1F89, [0x1F81]),
     (0x1F8A, [0x1F82]), (0x1F8B, [0x1F83]), (0x1F8C, [0x1F84]), (0x1F8D, [0x1F85]),
     (0x1F8E, [0x1F86]), (0x1F8F, [0x1F87]), (0x1F98, [0x1F90]), (0x1F99, [0x1F91]),
     (0x1F9A, [0x1F92]), (0x1F9B, [0x1F93]), (0x1F9C, [0x1F94]), (0x1F9D, [0x1F95]),
     (0x1F9E, [0x1F96]), (0x1F9F, [0x1F97]), (0x1FA8, [0x1FA0]), (0x1FA9, [0x1FA1]),
     (0x1FAA, [0x1FA2]), (0x1FAB, [0x1FA3]), (0x1FAC, [0x1FA4]), (0x1FAD, [0x1FA5]),
     (0x1FAE, [0x1FA6]), (0x1FAF, [0x1FA7]), (0x1FB8, [0x1FB0]), (0x1FB9, [0x1FB1]),
     (0x1FBA, [0x1F70]), (0x1FBB, [0x1F71]), (0x1FBC, [0x1FB3]), (0x1FC8, [0x1F72]),
     (0x1FC9, [0x1F73]), (0x1FCA, [0x1F74]), (0x1FCB, [0x1F75]), (0x1FCC, [0x1FC3]),
     (0x1FD8, [0x1FD0]), (0x1FD9, [0x1FD1]), (0x1FDA, [0x1F76]), (0x1FDB, [0x1F77]),
     (0x1FE8, [0x1FE0]), (0x1FE9, [0x1FE1]), (0x1FEA, [0x1F7A]), (0x1FEB, [0x1F7B]),
     (0x1FEC, [0x1FE5]), (0x1FF8, [0x1F78]), (0x1FF9, [0x1F79]), (0x1FFA, [0x1F7C]),
     (0x1FFB, [0x1F7D]), (0x1FFC, [0x1FF3]), (0x2126, [0x3C9]), (0x212A, [0x6B]),
     (0x212B, [0xE5]), (0x2132, [0x214E]), (0x2160, [0x2170]), (0x2161, [0x2171]),
     (0x2162, [0x2172]), (0x2163, [0x2173]), (0x2164, [0x2174]), (0x2165, [0x2175]),
     (0x2166, [0x2176]), (0x2167, [0x2177]), (0x2168, [0x2178]), (0x2169, [0x2179]),
     (0x216A, [0x217A]), (0x216B, [0x217B]), (0x216C, [0x217C]), (0x216D, [0x217D]),
     (0x216E, [0x217E]), (0x216F, [0x217F]), (0x2183, [0x2184]), (0x24B6, [0x24D0]),
     (0x24B7, [0x24D1]), (0x24B8, [0x24D2]), (0x24B9, [0x24D3]), (0x24BA, [0x24D4]),
     (0x24BB, [0x24D5]), (0x24BC, [0x24D6]), (0x24BD, [0x24D7]), (0x24BE, [0x24D8]),
     (0x24BF, [0x24D9]), (0x24C0, [0x24DA]), (0x24C1, [0x24DB]), (0x24C2, [0x24DC]),
     (0x24C3, [0x24DD]), (0x24C4, [0x24DE]), (0x24C5, [0x24DF]), (0x24C6, [0x24E0]),
     (0x24C7, [0x24E1]), (0x24C8, [0x24E2]), (0x24C9, [0x24E3]), (0x24CA, [0x24E4]),
     (0x24CB, [0x24E5]), (0x24CC, [0x24E6]), (0x24CD, [0x24E7]), (0x24CE, [0x24E8]),
     (0x24CF, [0x24E9]), (0x2C00, [0x2C30]), (0x2C01, [0x2C31]), (0x2C02, [0x2C32]),
     (0x2C03, [0x2C33]), (0x2C04, [0x2C34]), (0x2C05, [0x2C35]), (0x2C06, [0x2C36]),
     (0x2C07, [0x2C37]), (0x2C08, [0x2C38]), (0x2C09, [0x2C39]), (0x2C0A, [0x2C3A]),
     (0x2C0B, [0x2C3B]), (0x2C0C, [0x2C3C]), (0x2C0D, [0x2C3D]), (0x2C0E, [0x2C3E])]"

definition lowerTable8 :: "(int \<times> int list) list" where
  "lowerTable8 = [
     (0x2C0F, [0x2C3F]), (0x2C10, [0x2C40]), (0x2C11, [0x2C41]), (0x2C12, [0x2C42]),
     (0x2C13, [0x2C43]), (0x2C14, [0x2C44]), (0x2C15, [0x2C45]), (0x2C16, [0x2C46]),
     (0x2C17, [0x2C47]), (0x2C18, [0x2C48]), (0x2C19, [0x2C49]), (0x2C1A, [0x2C4A]),
     (0x2C1B, [0x2C4B]), (0x2C1C, [0x2C4C]), (0x2C1D, [0x2C4D]), (0x2C1E, [0x2C4E]),
     (0x2C1F, [0x2C4F]), (0x2C20, [0x2C50]), (0x2C21, [0x2C51]), (0x2C22, [0x2C52]),
     (0x2C23, [0x2C53]), (0x2C24, [0x2C54]), (0x2C25, [0x2C55]), (0x2C26, [0x2C56]),
     (0x2C27, [0x2C57]), (0x2C28, [0x2C58]), (0x2C29, [0x2C59]), (0x2C2A, [0x2C5A]),
     (0x2C2B, [0x2C5B]), (0x2C2C, [0x2C5C]), (0x2C2D, [0x2C5D]), (0x2C2E, [0x2C5E]),
     (0x2C2F, [0x2C5F]), (0x2C60, [0x2C61]), (0x2C62, [0x26B]), (0x2C63, [0x1D7D]),
     (0x2C64, [0x27D]), (0x2C67, [0x2C68]), (0x2C69, [0x2C6A]), (0x2C6B, [0x2C6C]),
     (0x2C6D, [0x251]), (0x2C6E, [0x271]), (0x2C6F, [0x250]), (0x2C70, [0x252]),
     (0x2C72, [0x2C73]), (0x2C75, [0x2C76]), (0x2C7E, [0x23F]), (0x2C7F, [0x240]),
     (0x2C80, [0x2C81]), (0x2C82, [0x2C83]), (0x2C84, [0x2C85]), (0x2C86, [0x2C87]),
     (0x2C88, [0x2C89]), (0x2C8A, [0x2C8B]), (0x2C8C, [0x2C8D]), (0x2C8E, [0x2C8F]),
     (0x2C90, [0x2C91]), (0x2C92, [0x2C93]), (0x2C94, [0x2C95]), (0x2C96, [0x2C97]),
     (0x2C98, [0x2C99]), (0x2C9A, [0x2C9B]), (0x2C9C, [0x2C9D]), (0x2C9E, [0x2C9F]),
     (0x2CA0, [0x2CA1]), (0x2CA2, [0x2CA3]), (0x2CA4, [0x2CA5]), (0x2CA6, [0x2CA7]),
     (0x2CA8, [0x2CA9]), (0x2CAA, [0x2CAB]), (0x2CAC, [0x2CAD]), (0x2CAE, [0x2CAF]),
     (0x2CB0, [0x2CB1]), (0x2CB2, [0x2CB3]), (0x2CB4, [0x2CB5]), (0x2CB6, [0x2CB7]),
     (0x2CB8, [0x2CB9]), (0x2CBA, [0x2CBB]), (0x2CBC, [0x2CBD]), (0x2CBE, [0x2CBF]),
     (0x2CC0, [0x2CC1]), (0x2CC2, [0x2CC3]), (0x2CC4, [0x2CC5]), (0x2CC6, [0x2CC7]),
     (0x2CC8, [0x2CC9]), (0x2CCA, [0x2CCB]), (0x2CCC, [0x2CCD]), (0x2CCE, [0x2CCF]),
     (0x2CD0, [0x2CD1]), (0x2CD2, [0x2CD3]), (0x2CD4, [0x2CD5]), (0x2CD6, [0x2CD7]),
     (0x2CD8, [0x2CD9]), (0x2CDA, [0x2CDB]), (0x2CDC, [0x2CDD]), (0x2CDE, [0x2CDF]),
     (0x2CE0, [0x2CE1]), (0x2CE2, [0x2CE3]), (0x2CEB, [0x2CEC]), (0x2CED, [0x2CEE]),
     (0x2CF2, [0x2CF3]), (0xA640, [0xA641]), (0xA642, [0xA643]), (0xA644, [0xA645]),
     (0xA646, [0xA647]), (0xA648, [0xA649]), (0xA64A, [0xA64B]), (0xA64C, [0xA64D]),
     (0xA64E, [0xA64F]), (0xA650, [0xA651]), (0xA652, [0xA653]), (0xA654, [0xA655]),
     (0xA656, [0xA657]), (0xA658, [0xA659]), (0xA65A, [0xA65B]), (0xA65C, [0xA65D]),
     (0xA65E, [0xA65F]), (0xA660, [0xA661]), (0xA662, [0xA663]), (0xA664, [0xA665]),
     (0xA666, [0xA667]), (0xA668, [0xA669]), (0xA66A, [0xA66B]), (0xA66C, [0xA66D]),
     (0xA680, [0xA681]), (0xA682, [0xA683]), (0xA684, [0xA685]), (0xA686, [0xA687])]"

definition lowerTable9 :: "(int \<times> int list) list" where
  "lowerTable9 = [
     (0xA688, [0xA689]), (0xA68A, [0xA68B]), (0xA68C, [0xA68D]), (0xA68E, [0xA68F]),
     (0xA690, [0xA691]), (0xA692, [0xA693]), (0xA694, [0xA695]), (0xA696, [0xA697]),
     (0xA698, [0xA699]), (0xA69A, [0xA69B]), (0xA722, [0xA723]), (0xA724, [0xA725]),
     (0xA726, [0xA727]), (0xA728, [0xA729]), (0xA72A, [0xA72B]), (0xA72C, [0xA72D]),
     (0xA72E, [0xA72F]), (0xA732, [0xA733]), (0xA734, [0xA735]), (0xA736, [0xA737]),
     (0xA738, [0xA739]), (0xA73A, [0xA73B]), (0xA73C, [0xA73D]), (0xA73E, [0xA73F]),
     (0xA740, [0xA741]), (0xA742, [0xA743]), (0xA744, [0xA745]), (0xA746, [0xA747]),
     (0xA748, [0xA749]), (0xA74A, [0xA74B]), (0xA74C, [0xA74D]), (0xA74E, [0xA74F]),
     (0xA750, [0xA751]), (0xA752, [0xA753]), (0xA754, [0xA755]), (0xA756, [0xA757]),
     (0xA758, [0xA759]), (0xA75A, [0xA75B]), (0xA75C, [0xA75D]), (0xA75E, [0xA75F]),
     (0xA760, [0xA761]), (0xA762, [0xA763]), (0xA764, [0xA765]), (0xA766, [0xA767]),
     (0xA768, [0xA769]), (0xA76A, [0xA76B]), (0xA76C, [0xA76D]), (0xA76E, [0xA76F]),
     (0xA779, [0xA77A]), (0xA77B, [0xA77C]), (0xA77D, [0x1D79]), (0xA77E, [0xA77F]),
     (0xA780, [0xA781]), (0xA782, [0xA783]), (0xA784, [0xA785]), (0xA786, [0xA787]),
     (0xA78B, [0xA78C]), (0xA78D, [0x265]), (0xA790, [0xA791]), (0xA792, [0xA793]),
     (0xA796, [0xA797]), (0xA798, [0xA799]), (0xA79A, [0xA79B]), (0xA79C, [0xA79D]),
     (0xA79E, [0xA79F]), (0xA7A0, [0xA7A1]), (0xA7A2, [0xA7A3]), (0xA7A4, [0xA7A5]),
     (0xA7A6, [0xA7A7]), (0xA7A8, [0xA7A9]), (0xA7AA, [0x266]), (0xA7AB, [0x25C]),
     (0xA7AC, [0x261]), (0xA7AD, [0x26C]), (0xA7AE, [0x26A]), (0xA7B0, [0x29E]),
     (0xA7B1, [0x287]), (0xA7B2, [0x29D]), (0xA7B3, [0xAB53]), (0xA7B4, [0xA7B5]),
     (0xA7B6, [0xA7B7]), (0xA7B8, [0xA7B9]), (0xA7BA, [0xA7BB]), (0xA7BC, [0xA7BD]),
     (0xA7BE, [0xA7BF]), (0xA7C0, [0xA7C1]), (0xA7C2, [0xA7C3]), (0xA7C4, [0xA794]),
     (0xA7C5, [0x282]), (0xA7C6, [0x1D8E]), (0xA7C7, [0xA7C8]), (0xA7C9, [0xA7CA]),
     (0xA7D0, [0xA7D1]), (0xA7D6, [0xA7D7]), (0xA7D8, [0xA7D9]), (0xA7F5, [0xA7F6]),
     (0xFF21, [0xFF41]), (0xFF22, [0xFF42]), (0xFF23, [0xFF43]), (0xFF24, [0xFF44]),
     (0xFF25, [0xFF45]), (0xFF26, [0xFF46]), (0xFF27, [0xFF47]), (0xFF28, [0xFF48]),
     (0xFF29, [0xFF49]), (0xFF2A, [0xFF4A]), (0xFF2B, [0xFF4B]), (0xFF2C, [0xFF4C]),
     (0xFF2D, [0xFF4D]), (0xFF2E, [0xFF4E]), (0xFF2F, [0xFF4F]), (0xFF30, [0xFF50]),
     (0xFF31, [0xFF51]), (0xFF32, [0xFF52]), (0xFF33, [0xFF53]), (0xFF34, [0xFF54]),
     (0xFF35, [0xFF55]), (0xFF36, [0xFF56]), (0xFF37, [0xFF57]), (0xFF38, [0xFF58]),
     (0xFF39, [0xFF59]), (0xFF3A, [0xFF5A]), (0x10400, [0x10428]), (0x10401, [0x10429]),
     (0x10402, [0x1042A]), (0x10403, [0x1042B]), (0x10404, [0x1042C]), (0x10405, [0x1042D])]"

definition lowerTable10 :: "(int \<times> int list) list" where
  "lowerTable10 = [
     (0x10406, [0x1042E]), (0x10407, [0x1042F]), (0x10408, [0x10430]), (0x10409, [0x10431]),
     (0x1040A, [0x10432]), (0x1040B, [0x10433]), (0x1040C, [0x10434]), (0x1040D, [0x10435]),
     (0x1040E, [0x10436]), (0x1040F, [0x10437]), (0x10410, [0x10438]), (0x10411, [0x10439]),
     (0x10412, [0x1043A]), (0x10413, [0x1043B]), (0x10414, [0x1043C]), (0x10415, [0x1043D]),
     (0x10416, [0x1043E]), (0x10417, [0x1043F]), (0x10418, [0x10440]), (0x10419, [0x10441]),
     (0x1041A, [0x10442]), (0x1041B, [0x10443]), (0x1041C, [0x10444]), (0x1041D, [0x10445]),
     (0x1041E, [0x10446]), (0x1041F, [0x10447]), (0x10420, [0x10448]), (0x10421, [0x10449]),
     (0x10422, [0x1044A]), (0x10423, [0x1044B]), (0x10424, [0x1044C]), (0x10425, [0x1044D]),
     (0x10426, [0x1044E]), (0x10427, [0x1044F]), (0x104B0, [0x104D8]), (0x104B1, [0x104D9]),
     (0x104B2, [0x104DA]), (0x104B3, [0x104DB]), (0x104B4, [0x104DC]), (0x104B5, [0x104DD]),
     (0x104B6, [0x104DE]), (0x104B7, [0x104DF]), (0x104B8, [0x104E0]), (0x104B9, [0x104E1]),
     (0x104BA, [0x104E2]), (0x104BB, [0x104E3]), (0x104BC, [0x104E4]), (0x104BD, [0x104E5]),
     (0x104BE, [0x104E6]), (0x104BF, [0x104E7]), (0x104C0, [0x104E8]), (0x104C1, [0x104E9]),
     (0x104C2, [0x104EA]), (0x104C3, [0x104EB]), (0x104C4, [0x104EC]), (0x104C5, [0x104ED]),
     (0x104C6, [0x104EE]), (0x104C7, [0x104EF]), (0x104C8, [0x104F0]), (0x104C9, [0x104F1]),
     (0x104CA, [0x104F2]), (0x104CB, [0x104F3]), (0x104CC, [0x104F4]), (0x104CD, [0x104F5]),
     (0x104CE, [0x104F6]), (0x104CF, [0x104F7]), (0x104D0, [0x104F8]), (0x104D1, [0x104F9]),
     (0x104D2, [0x104FA]), (0x104D3, [0x104FB]), (0x10570, [0x10597]), (0x10571, [0x10598]),
     (0x10572, [0x10599]), (0x10573, [0x1059A]), (0x10574, [0x1059B]), (0x10575, [0x1059C]),
     (0x10576, [0x1059D]), (0x10577, [0x1059E]), (0x10578, [0x1059F]), (0x10579, [0x105A0]),
     (0x1057A, [0x105A1]), (0x1057C, [0x105A3]), (0x1057D, [0x105A4]), (0x1057E, [0x105A5]),
     (0x1057F, [0x105A6]), (0x10580, [0x105A7]), (0x10581, [0x105A8]), (0x10582, [0x105A9]),
     (0x10583, [0x105AA]), (0x10584, [0x105AB]), (0x10585, [0x105AC]), (0x10586, [0x105AD]),
     (0x10587, [0x105AE]), (0x10588, [0x105AF]), (0x10589, [0x105B0]), (0x1058A, [0x105B1]),
     (0x1058C, [0x105B3]), (0x1058D, [0x105B4]), (0x1058E, [0x105B5]), (0x1058F, [0x105B6]),
     (0x10590, [0x105B7]), (0x10591, [0x105B8]), (0x10592, [0x105B9]), (0x10594, [0x105BB]),
     (0x10595, [0x105BC]), (0x10C80, [0x10CC0]), (0x10C81, [0x10CC1]), (0x10C82, [0x10CC2]),
     (0x10C83, [0x10CC3]), (0x10C84, [0x10CC4]), (0x10C85, [0x10CC5]), (0x10C86, [0x10CC6]),
     (0x10C87, [0x10CC7]), (0x10C88, [0x10CC8]), (0x10C89, [0x10CC9]), (0x10C8A, [0x10CCA]),
     (0x10C8B, [0x10CCB]), (0x10C8C, [0x10CCC]), (0x10C8D, [0x10CCD]), (0x10C8E, [0x10CCE]),
     (0x10C8F, [0x10CCF]), (0x10C90, [0x10CD0]), (0x10C91, [0x10CD1]), (0x10C92, [0x10CD2]),
     (0x10C93, [0x10CD3]), (0x10C94, [0x10CD4]), (0x10C95, [0x10CD5]), (0x10C96, [0x10CD6])]"

definition lowerTable11 :: "(int \<times> int list) list" where
  "lowerTable11 = [
     (0x10C97, [0x10CD7]), (0x10C98, [0x10CD8]), (0x10C99, [0x10CD9]), (0x10C9A, [0x10CDA]),
     (0x10C9B, [0x10CDB]), (0x10C9C, [0x10CDC]), (0x10C9D, [0x10CDD]), (0x10C9E, [0x10CDE]),
     (0x10C9F, [0x10CDF]), (0x10CA0, [0x10CE0]), (0x10CA1, [0x10CE1]), (0x10CA2, [0x10CE2]),
     (0x10CA3, [0x10CE3]), (0x10CA4, [0x10CE4]), (0x10CA5, [0x10CE5]), (0x10CA6, [0x10CE6]),
     (0x10CA7, [0x10CE7]), (0x10CA8, [0x10CE8]), (0x10CA9, [0x10CE9]), (0x10CAA, [0x10CEA]),
     (0x10CAB, [0x10CEB]), (0x10CAC, [0x10CEC]), (0x10CAD, [0x10CED]), (0x10CAE, [0x10CEE]),
     (0x10CAF, [0x10CEF]), (0x10CB0, [0x10CF0]), (0x10CB1, [0x10CF1]), (0x10CB2, [0x10CF2]),
     (0x118A0, [0x118C0]), (0x118A1, [0x118C1]), (0x118A2, [0x118C2]), (0x118A3, [0x118C3]),
     (0x118A4, [0x118C4]), (0x118A5, [0x118C5]), (0x118A6, [0x118C6]), (0x118A7, [0x118C7]),
     (0x118A8, [0x118C8]), (0x118A9, [0x118C9]), (0x118AA, [0x118CA]), (0x118AB, [0x118CB]),
     (0x118AC, [0x118CC]), (0x118AD, [0x118CD]), (0x118AE, [0x118CE]), (0x118AF, [0x118CF]),
     (0x118B0, [0x118D0]), (0x118B1, [0x118D1]), (0x118B2, [0x118D2]), (0x118B3, [0x118D3]),
     (0x118B4, [0x118D4]), (0x118B5, [0x118D5]), (0x118B6, [0x118D6]), (0x118B7, [0x118D7]),
     (0x118B8, [0x118D8]), (0x118B9, [0x118D9]), (0x118BA, [0x118DA]), (0x118BB, [0x118DB]),
     (0x118BC, [0x118DC]), (0x118BD, [0x118DD]), (0x118BE, [0x118DE]), (0x118BF, [0x118DF]),
     (0x16E40, [0x16E60]), (0x16E41, [0x16E61]), (0x16E42, [0x16E62]), (0x16E43, [0x16E63]),
     (0x16E44, [0x16E64]), (0x16E45, [0x16E65]), (0x16E46, [0x16E66]), (0x16E47, [0x16E67]),
     (0x16E48, [0x16E68]), (0x16E49, [0x16E69]), (0x16E4A, [0x16E6A]), (0x16E4B, [0x16E6B]),
     (0x16E4C, [0x16E6C]), (0x16E4D, [0x16E6D]), (0x16E4E, [0x16E6E]), (0x16E4F, [0x16E6F]),
     (0x16E50, [0x16E70]), (0x16E51, [0x16E71]), (0x16E52, [0x16E72]), (0x16E53, [0x16E73]),
     (0x16E54, [0x16E74]), (0x16E55, [0x16E75]), (0x16E56, [0x16E76]), (0x16E57, [0x16E77]),
     (0x16E58, [0x16E78]), (0x16E59, [0x16E79]), (0x16E5A, [0x16E7A]), (0x16E5B, [0x16E7B]),
     (0x16E5C, [0x16E7C]), (0x16E5D, [0x16E7D]), (0x16E5E, [0x16E7E]), (0x16E5F, [0x16E7F]),
     (0x1E900, [0x1E922]), (0x1E901, [0x1E923]), (0x1E902, [0x1E924]), (0x1E903, [0x1E925]),
     (0x1E904, [0x1E926]), (0x1E905, [0x1E927]), (0x1E906, [0x1E928]), (0x1E907, [0x1E929]),
     (0x1E908, [0x1E92A]), (0x1E909, [0x1E92B]), (0x1E90A, [0x1E92C]), (0x1E90B, [0x1E92D]),
     (0x1E90C, [0x1E92E]), (0x1E90D, [0x1E92F]), (0x1E90E, [0x1E930]), (0x1E90F, [0x1E931]),
     (0x1E910, [0x1E932]), (0x1E911, [0x1E933]), (0x1E912, [0x1E934]), (0x1E913, [0x1E935]),
     (0x1E914, [0x1E936]), (0x1E915, [0x1E937]), (0x1E916, [0x1E938]), (0x1E917, [0x1E939]),
     (0x1E918, [0x1E93A]), (0x1E919, [0x1E93B]), (0x1E91A, [0x1E93C]), (0x1E91B, [0x1E93D]),
     (0x1E91C, [0x1E93E]), (0x1E91D, [0x1E93F]), (0x1E91E, [0x1E940]), (0x1E91F, [0x1E941]),
     (0x1E920, [0x1E942]), (0x1E921, [0x1E943])]"

definition lowerTable :: "(int \<times> int list) list" where
  "lowerTable = lowerTable1 @ lowerTable2 @ lowerTable3 @ lowerTable4 @ lowerTable5 @ lowerTable6 @ lowerTable7 @ lowerTable8 @ lowerTable9 @ lowerTable10 @ lowerTable11"

definition caseIgnorableRanges1 :: "(int \<times> int) list" where
  "caseIgnorableRanges1 = [
     (0x27, 0x27), (0x2E, 0x2E), (0x3A, 0x3A), (0x5E, 0x5E), (0x60, 0x60), (0xA8, 0xA8),
     (0xAD, 0xAD), (0xAF, 0xAF), (0xB4, 0xB4), (0xB7, 0xB8), (0x2B0, 0x36F), (0x374, 0x375),
     (0x37A, 0x37A), (0x384, 0x385), (0x387, 0x387), (0x483, 0x489), (0x559, 0x559),
     (0x55F, 0x55F), (0x591, 0x5BD), (0x5BF, 0x5BF), (0x5C1, 0x5C2), (0x5C4, 0x5C5),
     (0x5C7, 0x5C7), (0x5F4, 0x5F4), (0x600, 0x605), (0x610, 0x61A), (0x61C, 0x61C),
     (0x640, 0x640), (0x64B, 0x65F), (0x670, 0x670), (0x6D6, 0x6DD), (0x6DF, 0x6E8),
     (0x6EA, 0x6ED), (0x70F, 0x70F), (0x711, 0x711), (0x730, 0x74A), (0x7A6, 0x7B0),
     (0x7EB, 0x7F5), (0x7FA, 0x7FA), (0x7FD, 0x7FD), (0x816, 0x82D), (0x859, 0x85B),
     (0x888, 0x888), (0x890, 0x891), (0x898, 0x89F), (0x8C9, 0x902), (0x93A, 0x93A),
     (0x93C, 0x93C), (0x941, 0x948), (0x94D, 0x94D), (0x951, 0x957), (0x962, 0x963),
     (0x971, 0x971), (0x981, 0x981), (0x9BC, 0x9BC), (0x9C1, 0x9C4), (0x9CD, 0x9CD),
     (0x9E2, 0x9E3), (0x9FE, 0x9FE), (0xA01, 0xA02), (0xA3C, 0xA3C), (0xA41, 0xA42),
     (0xA47, 0xA48), (0xA4B, 0xA4D), (0xA51, 0xA51), (0xA70, 0xA71), (0xA75, 0xA75),
     (0xA81, 0xA82), (0xABC, 0xABC), (0xAC1, 0xAC5), (0xAC7, 0xAC8), (0xACD, 0xACD),
     (0xAE2, 0xAE3), (0xAFA, 0xAFF), (0xB01, 0xB01), (0xB3C, 0xB3C), (0xB3F, 0xB3F),
     (0xB41, 0xB44), (0xB4D, 0xB4D), (0xB55, 0xB56), (0xB62, 0xB63), (0xB82, 0xB82),
     (0xBC0, 0xBC0), (0xBCD, 0xBCD), (0xC00, 0xC00), (0xC04, 0xC04), (0xC3C, 0xC3C),
     (0xC3E, 0xC40), (0xC46, 0xC48), (0xC4A, 0xC4D), (0xC55, 0xC56), (0xC62, 0xC63),
     (0xC81, 0xC81), (0xCBC, 0xCBC), (0xCBF, 0xCBF), (0xCC6, 0xCC6), (0xCCC, 0xCCD),
     (0xCE2, 0xCE3), (0xD00, 0xD01), (0xD3B, 0xD3C), (0xD41, 0xD44), (0xD4D, 0xD4D),
     (0xD62, 0xD63), (0xD81, 0xD81), (0xDCA, 0xDCA), (0xDD2, 0xDD4), (0xDD6, 0xDD6),
     (0xE31, 0xE31), (0xE34, 0xE3A), (0xE46, 0xE4E), (0xEB1, 0xEB1), (0xEB4, 0xEBC),
     (0xEC6, 0xEC6), (0xEC8, 0xECD), (0xF18, 0xF19), (0xF35, 0xF35), (0xF37, 0xF37),
     (0xF39, 0xF39), (0xF71, 0xF7E), (0xF80, 0xF84), (0xF86, 0xF87), (0xF8D, 0xF97),
     (0xF99, 0xFBC), (0xFC6, 0xFC6), (0x102D, 0x1030), (0x1032, 0x1037), (0x1039, 0x103A),
     (0x103D, 0x103E)]"

definition caseIgnorableRanges2 :: "(int \<times> int) list" where
  "caseIgnorableRanges2 = [
     (0x1058, 0x1059), (0x105E, 0x1060), (0x1071, 0x1074), (0x1082, 0x1082), (0x1085, 0x1086),
     (0x108D, 0x108D), (0x109D, 0x109D), (0x10FC, 0x10FC), (0x135D, 0x135F), (0x1712, 0x1714),
     (0x1732, 0x1733), (0x1752, 0x1753), (0x1772, 0x1773), (0x17B4, 0x17B5), (0x17B7, 0x17BD),
     (0x17C6, 0x17C6), (0x17C9, 0x17D3), (0x17D7, 0x17D7), (0x17DD, 0x17DD), (0x180B, 0x180F),
     (0x1843, 0x1843), (0x1885, 0x1886), (0x18A9, 0x18A9), (0x1920, 0x1922), (0x1927, 0x1928),
     (0x1932, 0x1932), (0x1939, 0x193B), (0x1A17, 0x1A18), (0x1A1B, 0x1A1B), (0x1A56, 0x1A56),
     (0x1A58, 0x1A5E), (0x1A60, 0x1A60), (0x1A62, 0x1A62), (0x1A65, 0x1A6C), (0x1A73, 0x1A7C),
     (0x1A7F, 0x1A7F), (0x1AA7, 0x1AA7), (0x1AB0, 0x1ACE), (0x1B00, 0x1B03), (0x1B34, 0x1B34),
     (0x1B36, 0x1B3A), (0x1B3C, 0x1B3C), (0x1B42, 0x1B42), (0x1B6B, 0x1B73), (0x1B80, 0x1B81),
     (0x1BA2, 0x1BA5), (0x1BA8, 0x1BA9), (0x1BAB, 0x1BAD), (0x1BE6, 0x1BE6), (0x1BE8, 0x1BE9),
     (0x1BED, 0x1BED), (0x1BEF, 0x1BF1), (0x1C2C, 0x1C33), (0x1C36, 0x1C37), (0x1C78, 0x1C7D),
     (0x1CD0, 0x1CD2), (0x1CD4, 0x1CE0), (0x1CE2, 0x1CE8), (0x1CED, 0x1CED), (0x1CF4, 0x1CF4),
     (0x1CF8, 0x1CF9), (0x1D2C, 0x1D6A), (0x1D78, 0x1D78), (0x1D9B, 0x1DFF), (0x1FBD, 0x1FBD),
     (0x1FBF, 0x1FC1), (0x1FCD, 0x1FCF), (0x1FDD, 0x1FDF), (0x1FED, 0x1FEF), (0x1FFD, 0x1FFE),
     (0x200B, 0x200F), (0x2018, 0x2019), (0x2024, 0x2024), (0x2027, 0x2027), (0x202A, 0x202E),
     (0x2060, 0x2064), (0x2066, 0x206F), (0x2071, 0x2071), (0x207F, 0x207F), (0x2090, 0x209C),
     (0x20D0, 0x20F0), (0x2C7C, 0x2C7D), (0x2CEF, 0x2CF1), (0x2D6F, 0x2D6F), (0x2D7F, 0x2D7F),
     (0x2DE0, 0x2DFF), (0x2E2F, 0x2E2F), (0x3005, 0x3005), (0x302A, 0x302D), (0x3031, 0x3035),
     (0x303B, 0x303B), (0x3099, 0x309E), (0x30FC, 0x30FE), (0xA015, 0xA015), (0xA4F8, 0xA4FD),
     (0xA60C, 0xA60C), (0xA66F, 0xA672), (0xA674, 0xA67D), (0xA67F, 0xA67F), (0xA69C, 0xA69F),
     (0xA6F0, 0xA6F1), (0xA700, 0xA721), (0xA770, 0xA770), (0xA788, 0xA78A), (0xA7F2, 0xA7F4),
     (0xA7F8, 0xA7F9), (0xA802, 0xA802), (0xA806, 0xA806), (0xA80B, 0xA80B), (0xA825, 0xA826),
     (0xA82C, 0xA82C), (0xA8C4, 0xA8C5), (0xA8E0, 0xA8F1), (0xA8FF, 0xA8FF), (0xA926, 0xA92D),
     (0xA947, 0xA951), (0xA980, 0xA982), (0xA9B3, 0xA9B3), (0xA9B6, 0xA9B9), (0xA9BC, 0xA9BD),
     (0xA9CF, 0xA9CF), (0xA9E5, 0xA9E6), (0xAA29, 0xAA2E), (0xAA31, 0xAA32), (0xAA35, 0xAA36),
     (0xAA43, 0xAA43), (0xAA4C, 0xAA4C), (0xAA70, 0xAA70)]"

definition caseIgnorableRanges3 :: "(int \<times> int) list" where
  "caseIgnorableRanges3 = [
     (0xAA7C, 0xAA7C), (0xAAB0, 0xAAB0), (0xAAB2, 0xAAB4), (0xAAB7, 0xAAB8), (0xAABE, 0xAABF),
     (0xAAC1, 0xAAC1), (0xAADD, 0xAADD), (0xAAEC, 0xAAED), (0xAAF3, 0xAAF4), (0xAAF6, 0xAAF6),
     (0xAB5B, 0xAB5F), (0xAB69, 0xAB6B), (0xABE5, 0xABE5), (0xABE8, 0xABE8), (0xABED, 0xABED),
     (0xFB1E, 0xFB1E), (0xFBB2, 0xFBC2), (0xFE00, 0xFE0F), (0xFE13, 0xFE13), (0xFE20, 0xFE2F),
     (0xFE52, 0xFE52), (0xFE55, 0xFE55), (0xFEFF, 0xFEFF), (0xFF07, 0xFF07), (0xFF0E, 0xFF0E),
     (0xFF1A, 0xFF1A), (0xFF3E, 0xFF3E), (0xFF40, 0xFF40), (0xFF70, 0xFF70), (0xFF9E, 0xFF9F),
     (0xFFE3, 0xFFE3), (0xFFF9, 0xFFFB), (0x101FD, 0x101FD), (0x102E0, 0x102E0),
     (0x10376, 0x1037A), (0x10780, 0x10785), (0x10787, 0x107B0), (0x107B2, 0x107BA),
     (0x10A01, 0x10A03), (0x10A05, 0x10A06), (0x10A0C, 0x10A0F), (0x10A38, 0x10A3A),
     (0x10A3F, 0x10A3F), (0x10AE5, 0x10AE6), (0x10D24, 0x10D27), (0x10EAB, 0x10EAC),
     (0x10F46, 0x10F50), (0x10F82, 0x10F85), (0x11001, 0x11001), (0x11038, 0x11046),
     (0x11070, 0x11070), (0x11073, 0x11074), (0x1107F, 0x11081), (0x110B3, 0x110B6),
     (0x110B9, 0x110BA), (0x110BD, 0x110BD), (0x110C2, 0x110C2), (0x110CD, 0x110CD),
     (0x11100, 0x11102), (0x11127, 0x1112B), (0x1112D, 0x11134), (0x11173, 0x11173),
     (0x11180, 0x11181), (0x111B6, 0x111BE), (0x111C9, 0x111CC), (0x111CF, 0x111CF),
     (0x1122F, 0x11231), (0x11234, 0x11234), (0x11236, 0x11237), (0x1123E, 0x1123E),
     (0x112DF, 0x112DF), (0x112E3, 0x112EA), (0x11300, 0x11301), (0x1133B, 0x1133C),
     (0x11340, 0x11340), (0x11366, 0x1136C), (0x11370, 0x11374), (0x11438, 0x1143F),
     (0x11442, 0x11444), (0x11446, 0x11446), (0x1145E, 0x1145E), (0x114B3, 0x114B8),
     (0x114BA, 0x114BA), (0x114BF, 0x114C0), (0x114C2, 0x114C3), (0x115B2, 0x115B5),
     (0x115BC, 0x115BD), (0x115BF, 0x115C0), (0x115DC, 0x115DD), (0x11633, 0x1163A),
     (0x1163D, 0x1163D), (0x1163F, 0x11640), (0x116AB, 0x116AB), (0x116AD, 0x116AD),
     (0x116B0, 0x116B5), (0x116B7, 0x116B7), (0x1171D, 0x1171F), (0x11722, 0x11725),
     (0x11727, 0x1172B), (0x1182F, 0x11837), (0x11839, 0x1183A), (0x1193B, 0x1193C),
     (0x1193E, 0x1193E), (0x11943, 0x11943), (0x119D4, 0x119D7), (0x119DA, 0x119DB),
     (0x119E0, 0x119E0), (0x11A01, 0x11A0A), (0x11A33, 0x11A38), (0x11A3B, 0x11A3E),
     (0x11A47, 0x11A47), (0x11A51, 0x11A56), (0x11A59, 0x11A5B), (0x11A8A, 0x11A96),
     (0x11A98, 0x11A99), (0x11C30, 0x11C36), (0x11C38, 0x11C3D), (0x11C3F, 0x11C3F),
     (0x11C92, 0x11CA7), (0x11CAA, 0x11CB0), (0x11CB2, 0x11CB3), (0x11CB5, 0x11CB6),
     (0x11D31, 0x11D36), (0x11D3A, 0x11D3A), (0x11D3C, 0x11D3D), (0x11D3F, 0x11D45),
     (0x11D47, 0x11D47), (0x11D90, 0x11D91)]"

definition caseIgnorableRanges4 :: "(int \<times> int) list" where
  "caseIgnorableRanges4 = [
     (0x11D95, 0x11D95), (0x11D97, 0x11D97), (0x11EF3, 0x11EF4), (0x13430, 0x13438),
     (0x16AF0, 0x16AF4), (0x16B30, 0x16B36), (0x16B40, 0x16B43), (0x16F4F, 0x16F4F),
     (0x16F8F, 0x16F9F), (0x16FE0, 0x16FE1), (0x16FE3, 0x16FE4), (0x1AFF0, 0x1AFF3),
     (0x1AFF5, 0x1AFFB), (0x1AFFD, 0x1AFFE), (0x1BC9D, 0x1BC9E), (0x1BCA0, 0x1BCA3),
     (0x1CF00, 0x1CF2D), (0x1CF30, 0x1CF46), (0x1D167, 0x1D169), (0x1D173, 0x1D182),
     (0x1D185, 0x1D18B), (0x1D1AA, 0x1D1AD), (0x1D242, 0x1D244), (0x1DA00, 0x1DA36),
     (0x1DA3B, 0x1DA6C), (0x1DA75, 0x1DA75), (0x1DA84, 0x1DA84), (0x1DA9B, 0x1DA9F),
     (0x1DAA1, 0x1DAAF), (0x1E000, 0x1E006), (0x1E008, 0x1E018), (0x1E01B, 0x1E021),
     (0x1E023, 0x1E024), (0x1E026, 0x1E02A), (0x1E130, 0x1E13D), (0x1E2AE, 0x1E2AE),
     (0x1E2EC, 0x1E2EF), (0x1E8D0, 0x1E8D6), (0x1E944, 0x1E94B), (0x1F3FB, 0x1F3FF),
     (0xE0001, 0xE0001), (0xE0020, 0xE007F), (0xE0100, 0xE01EF)]"

definition caseIgnorableRanges :: "(int \<times> int) list" where
  "caseIgnorableRanges = caseIgnorableRanges1 @ caseIgnorableRanges2 @ caseIgnorableRanges3 @ caseIgnorableRanges4"

definition casedRanges1 :: "(int \<times> int) list" where
  "casedRanges1 = [
     (0x41, 0x5A), (0x61, 0x7A), (0xAA, 0xAA), (0xB5, 0xB5), (0xBA, 0xBA), (0xC0, 0xD6),
     (0xD8, 0xF6), (0xF8, 0x1BA), (0x1BC, 0x1BF), (0x1C4, 0x293), (0x295, 0x2AF),
     (0x370, 0x373), (0x376, 0x377), (0x37B, 0x37D), (0x37F, 0x37F), (0x386, 0x386),
     (0x388, 0x38A), (0x38C, 0x38C), (0x38E, 0x3A1), (0x3A3, 0x3F5), (0x3F7, 0x481),
     (0x48A, 0x52F), (0x531, 0x556), (0x560, 0x588), (0x10A0, 0x10C5), (0x10C7, 0x10C7),
     (0x10CD, 0x10CD), (0x10D0, 0x10FA), (0x10FD, 0x10FF), (0x13A0, 0x13F5), (0x13F8, 0x13FD),
     (0x1C80, 0x1C88), (0x1C90, 0x1CBA), (0x1CBD, 0x1CBF), (0x1D00, 0x1D2B), (0x1D6B, 0x1D77),
     (0x1D79, 0x1D9A), (0x1E00, 0x1F15), (0x1F18, 0x1F1D), (0x1F20, 0x1F45), (0x1F48, 0x1F4D),
     (0x1F50, 0x1F57), (0x1F59, 0x1F59), (0x1F5B, 0x1F5B), (0x1F5D, 0x1F5D), (0x1F5F, 0x1F7D),
     (0x1F80, 0x1FB4), (0x1FB6, 0x1FBC), (0x1FBE, 0x1FBE), (0x1FC2, 0x1FC4), (0x1FC6, 0x1FCC),
     (0x1FD0, 0x1FD3), (0x1FD6, 0x1FDB), (0x1FE0, 0x1FEC), (0x1FF2, 0x1FF4), (0x1FF6, 0x1FFC),
     (0x2102, 0x2102), (0x2107, 0x2107), (0x210A, 0x2113), (0x2115, 0x2115), (0x2119, 0x211D),
     (0x2124, 0x2124), (0x2126, 0x2126), (0x2128, 0x2128), (0x212A, 0x212D), (0x212F, 0x2134),
     (0x2139, 0x2139), (0x213C, 0x213F), (0x2145, 0x2149), (0x214E, 0x214E), (0x2160, 0x217F),
     (0x2183, 0x2184), (0x24B6, 0x24E9), (0x2C00, 0x2C7B), (0x2C7E, 0x2CE4), (0x2CEB, 0x2CEE),
     (0x2CF2, 0x2CF3), (0x2D00, 0x2D25), (0x2D27, 0x2D27), (0x2D2D, 0x2D2D), (0xA640, 0xA66D),
     (0xA680, 0xA69B), (0xA722, 0xA76F), (0xA771, 0xA787), (0xA78B, 0xA78E), (0xA790, 0xA7CA),
     (0xA7D0, 0xA7D1), (0xA7D3, 0xA7D3), (0xA7D5, 0xA7D9), (0xA7F5, 0xA7F6), (0xA7FA, 0xA7FA),
     (0xAB30, 0xAB5A), (0xAB60, 0xAB68), (0xAB70, 0xABBF), (0xFB00, 0xFB06), (0xFB13, 0xFB17),
     (0xFF21, 0xFF3A), (0xFF41, 0xFF5A), (0x10400, 0x1044F), (0x104B0, 0x104D3),
     (0x104D8, 0x104FB), (0x10570, 0x1057A), (0x1057C, 0x1058A), (0x1058C, 0x10592),
     (0x10594, 0x10595), (0x10597, 0x105A1), (0x105A3, 0x105B1), (0x105B3, 0x105B9),
     (0x105BB, 0x105BC), (0x10C80, 0x10CB2), (0x10CC0, 0x10CF2), (0x118A0, 0x118DF),
     (0x16E40, 0x16E7F), (0x1D400, 0x1D454), (0x1D456, 0x1D49C), (0x1D49E, 0x1D49F),
     (0x1D4A2, 0x1D4A2), (0x1D4A5, 0x1D4A6), (0x1D4A9, 0x1D4AC), (0x1D4AE, 0x1D4B9),
     (0x1D4BB, 0x1D4BB), (0x1D4BD, 0x1D4C3), (0x1D4C5, 0x1D505), (0x1D507, 0x1D50A),
     (0x1D50D, 0x1D514), (0x1D516, 0x1D51C), (0x1D51E, 0x1D539), (0x1D53B, 0x1D53E)]"

definition casedRanges2 :: "(int \<times> int) list" where
  "casedRanges2 = [
     (0x1D540, 0x1D544), (0x1D546, 0x1D546), (0x1D54A, 0x1D550), (0x1D552, 0x1D6A5),
     (0x1D6A8, 0x1D6C0), (0x1D6C2, 0x1D6DA), (0x1D6DC, 0x1D6FA), (0x1D6FC, 0x1D714),
     (0x1D716, 0x1D734), (0x1D736, 0x1D74E), (0x1D750, 0x1D76E), (0x1D770, 0x1D788),
     (0x1D78A, 0x1D7A8), (0x1D7AA, 0x1D7C2), (0x1D7C4, 0x1D7CB), (0x1DF00, 0x1DF09),
     (0x1DF0B, 0x1DF1E), (0x1E900, 0x1E943), (0x1F130, 0x1F149), (0x1F150, 0x1F169),
     (0x1F170, 0x1F189)]"

definition casedRanges :: "(int \<times> int) list" where
  "casedRanges = casedRanges1 @ casedRanges2"

text \<open>
  Final_Sigma: the code points skipped on both sides (Case_Ignorable) and the code points
  that count as cased where the skipping stops, as ranges.
\<close>

definition inRanges :: "(int \<times> int) list \<Rightarrow> int \<Rightarrow> bool" where
  "inRanges rs c = list_ex (\<lambda>(lo, hi). lo \<le> c \<and> c \<le> hi) rs"

definition isHighSurrogate :: "16 word \<Rightarrow> bool" where
  "isHighSurrogate x = (0xD800 \<le> x \<and> x \<le> 0xDBFF)"

definition isLowSurrogate :: "16 word \<Rightarrow> bool" where
  "isLowSurrogate x = (0xDC00 \<le> x \<and> x \<le> 0xDFFF)"

fun codePoints :: "jstring \<Rightarrow> int list" where
  "codePoints [] = []"
| "codePoints [x] = [uint x]"
| "codePoints (x # y # r) =
     (if isHighSurrogate x \<and> isLowSurrogate y
      then (0x10000 + (uint x - 0xD800) * 0x400 + (uint y - 0xDC00)) # codePoints r
      else uint x # codePoints (y # r))"

definition codeUnitsOf :: "int \<Rightarrow> jstring" where
  "codeUnitsOf c =
     (if c < 0x10000 then [word_of_int c]
      else [word_of_int (0xD800 + (c - 0x10000) div 0x400),
            word_of_int (0xDC00 + (c - 0x10000) mod 0x400)])"

definition codeUnits :: "int list \<Rightarrow> jstring" where
  "codeUnits cs = concat (map codeUnitsOf cs)"

definition upperCP :: "int \<Rightarrow> int list" where
  "upperCP c =
     (if c < 0x80 then [if 0x61 \<le> c \<and> c \<le> 0x7A then c - 0x20 else c]
      else (case map_of upperTable c of None \<Rightarrow> [c] | Some v \<Rightarrow> v))"

definition lowerCP :: "int \<Rightarrow> int list" where
  "lowerCP c =
     (if c < 0x80 then [if 0x41 \<le> c \<and> c \<le> 0x5A then c + 0x20 else c]
      else (case map_of lowerTable c of None \<Rightarrow> [c] | Some v \<Rightarrow> v))"

text \<open>
  Whether, after the case-ignorable code points at the front of \<open>cs\<close>, a cased one
  follows. \<open>finalSigma prev rest\<close>: \<open>prev\<close> are the code points before the sigma, the
  nearest first, \<open>rest\<close> those after it.
\<close>

definition casedNext :: "int list \<Rightarrow> bool" where
  "casedNext cs =
     (case dropWhile (inRanges caseIgnorableRanges) cs of
        [] \<Rightarrow> False
      | c # r \<Rightarrow> inRanges casedRanges c)"

definition finalSigma :: "int list \<Rightarrow> int list \<Rightarrow> bool" where
  "finalSigma prev rest = (casedNext prev \<and> \<not> casedNext rest)"

fun lowerWalk :: "int list \<Rightarrow> int list \<Rightarrow> int list" where
  "lowerWalk prev [] = []"
| "lowerWalk prev (c # rest) =
     (if c = 0x3A3 then [if finalSigma prev rest then 0x3C2 else 0x3C3] else lowerCP c)
     @ lowerWalk (c # prev) rest"

definition toUpperCase :: "jstring \<Rightarrow> jstring" where
  "toUpperCase s = codeUnits (concat (map upperCP (codePoints s)))"

definition toLowerCase :: "jstring \<Rightarrow> jstring" where
  "toLowerCase s = codeUnits (lowerWalk [] (codePoints s))"

subsection \<open>Searching, slicing, splitting\<close>

definition startsWith :: "jstring \<Rightarrow> jstring \<Rightarrow> bool" where
  "startsWith s p = (take (length p) s = p)"

text \<open>\<open>s.indexOf(p)\<close>: the first index where \<open>p\<close> occurs, or -1.\<close>

fun indexOfFrom :: "jstring \<Rightarrow> jstring \<Rightarrow> nat \<Rightarrow> int" where
  "indexOfFrom [] p i = (if p = [] then int i else - 1)"
| "indexOfFrom (c # cs) p i =
     (if startsWith (c # cs) p then int i else indexOfFrom cs p (Suc i))"

definition indexOf :: "jstring \<Rightarrow> jstring \<Rightarrow> int" where
  "indexOf s p = indexOfFrom s p 0"

text \<open>\<open>s.lastIndexOf(p)\<close>: the last index where \<open>p\<close> occurs, or -1.\<close>

fun lastIndexOfFrom :: "jstring \<Rightarrow> jstring \<Rightarrow> nat \<Rightarrow> int" where
  "lastIndexOfFrom [] p i = (if p = [] then int i else - 1)"
| "lastIndexOfFrom (c # cs) p i =
     (let r = lastIndexOfFrom cs p (Suc i)
      in if r \<noteq> - 1 then r else if startsWith (c # cs) p then int i else - 1)"

definition lastIndexOf :: "jstring \<Rightarrow> jstring \<Rightarrow> int" where
  "lastIndexOf s p = lastIndexOfFrom s p 0"

definition includesStr :: "jstring \<Rightarrow> jstring \<Rightarrow> bool" where
  "includesStr s p = (indexOf s p \<noteq> - 1)"

text \<open>\<open>s.substring(a, b)\<close>: both ends clamped to the string, swapped when \<open>a > b\<close>.\<close>

definition substring :: "jstring \<Rightarrow> int \<Rightarrow> int \<Rightarrow> jstring" where
  "substring s a b =
     (let n = int (length s);
          a' = max 0 (min a n);
          b' = max 0 (min b n);
          lo = min a' b';
          hi = max a' b'
      in take (nat (hi - lo)) (drop (nat lo) s))"

definition substringFrom :: "jstring \<Rightarrow> int \<Rightarrow> jstring" where
  "substringFrom s a = substring s a (int (length s))"

text \<open>\<open>s.slice(a, b)\<close>: a negative index counts from the end; empty when \<open>b \<le> a\<close>.\<close>

definition sliceIndex :: "nat \<Rightarrow> int \<Rightarrow> nat" where
  "sliceIndex n i = (if i < 0 then nat (max 0 (int n + i)) else nat (min i (int n)))"

definition slice :: "jstring \<Rightarrow> int \<Rightarrow> int \<Rightarrow> jstring" where
  "slice s a b =
     (let lo = sliceIndex (length s) a; hi = sliceIndex (length s) b
      in take (hi - lo) (drop lo s))"

definition sliceFrom :: "jstring \<Rightarrow> int \<Rightarrow> jstring" where
  "sliceFrom s a = slice s a (int (length s))"

definition charAt :: "jstring \<Rightarrow> nat \<Rightarrow> jstring" where
  "charAt s i = (if i < length s then [s ! i] else [])"

definition padEnd :: "jstring \<Rightarrow> nat \<Rightarrow> jstring" where
  "padEnd s n = s @ replicate (n - length s) 0x20"

text \<open>
  \<open>s.split(sep)\<close> for a non-empty separator: the pieces between the occurrences of
  \<open>sep\<close>, found from the left; \<open>cur\<close> is the piece being read. An empty separator
  splits into single code units.
\<close>

function splitFrom :: "jstring \<Rightarrow> jstring \<Rightarrow> jstring \<Rightarrow> jstring list" where
  "splitFrom sep cur s =
     (if s = [] then [cur]
      else if sep \<noteq> [] \<and> startsWith s sep
        then cur # splitFrom sep [] (drop (length sep) s)
      else splitFrom sep (cur @ [hd s]) (tl s))"
  by pat_completeness auto
termination
  by (relation "measure (\<lambda>(sep, cur, s). length s)") auto

declare splitFrom.simps [simp del]

definition split :: "jstring \<Rightarrow> jstring \<Rightarrow> jstring list" where
  "split s sep = (if sep = [] then map (\<lambda>c. [c]) s else splitFrom sep [] s)"

text \<open>\<open>xs[i]\<close> on an array of strings: \<open>undefined\<close> out of range.\<close>

definition at :: "jstring list \<Rightarrow> nat \<Rightarrow> jsval" where
  "at xs i = (if i < length xs then Str (xs ! i) else Undefined)"

fun join :: "jstring \<Rightarrow> jstring list \<Rightarrow> jstring" where
  "join sep [] = []"
| "join sep [x] = x"
| "join sep (x # y # ys) = x @ sep @ join sep (y # ys)"

section \<open>Conversion to string\<close>

fun digits :: "nat \<Rightarrow> jstring" where
  "digits n = (if n < 10 then [0x30 + of_nat n] else digits (n div 10) @ [0x30 + of_nat (n mod 10)])"

declare digits.simps [simp del]

text \<open>Number::toString of a positive finite number with digits \<open>s\<close> and exponent \<open>n\<close>.\<close>

definition finiteToString :: "nat \<Rightarrow> int \<Rightarrow> jstring" where
  "finiteToString s n =
     (let ds = digits s; k = int (length ds)
      in if k \<le> n \<and> n \<le> 21 then ds @ replicate (nat (n - k)) 0x30
         else if 0 < n \<and> n \<le> 21 then take (nat n) ds @ ascii ''.'' @ drop (nat n) ds
         else if - 6 < n \<and> n \<le> 0 then ascii ''0.'' @ replicate (nat (- n)) 0x30 @ ds
         else
           (let e = n - 1;
                es = (if e < 0 then ascii ''-'' else ascii ''+'') @ digits (nat \<bar>e\<bar>)
            in if k = 1 then ds @ ascii ''e'' @ es
               else take 1 ds @ ascii ''.'' @ drop 1 ds @ ascii ''e'' @ es))"

fun numToString :: "jsnum \<Rightarrow> jstring" where
  "numToString NaN = ascii ''NaN''"
| "numToString (Infinity neg) = (if neg then ascii ''-Infinity'' else ascii ''Infinity'')"
| "numToString (Finite neg s n) =
     (if s = 0 then ascii ''0''
      else (if neg then ascii ''-'' else []) @ finiteToString s n)"

text \<open>Evaluating a list of steps from the left; the first that throws ends it.\<close>

fun sequenceE :: "(error + 'a) list \<Rightarrow> error + 'a list" where
  "sequenceE [] = Inr []"
| "sequenceE (x # xs) =
     (case x of
        Inl e \<Rightarrow> Inl e
      | Inr a \<Rightarrow> (case sequenceE xs of Inl e \<Rightarrow> Inl e | Inr as \<Rightarrow> Inr (a # as)))"

text \<open>
  \<open>String(v)\<close>, the conversion of template literals, \<open>parseInt\<close> and \<open>RegExp.test\<close>.
  An array joins its elements with a comma, \<open>undefined\<close> and \<open>null\<close> as the empty string.
  An object is converted by its \<open>toString\<close> method: the inherited one gives
  \<open>[object Object]\<close>; an own property \<open>toString\<close> hides it, and as no value here is a
  function, neither that property nor \<open>valueOf\<close> yields a primitive and the conversion
  throws a type error.
\<close>

fun toString :: "jsval \<Rightarrow> error + jstring" where
  "toString Undefined = Inr (ascii ''undefined'')"
| "toString Null = Inr (ascii ''null'')"
| "toString (Bool b) = Inr (if b then ascii ''true'' else ascii ''false'')"
| "toString (Num x) = Inr (numToString x)"
| "toString (Str s) = Inr s"
| "toString (Arr xs) =
     (case sequenceE (map (\<lambda>x. if x = Undefined \<or> x = Null then Inr [] else toString x) xs) of
        Inl e \<Rightarrow> Inl e
      | Inr ss \<Rightarrow> Inr (join (ascii '','') ss))"
| "toString (Obj fs) =
     (if map_of fs (ascii ''toString'') \<noteq> None then Inl TypeError
      else Inr (ascii ''[object Object]''))"

text \<open>
  A template literal: the parts from the left, every substitution converted as soon as it
  is evaluated.
\<close>

definition template :: "(error + jstring) list \<Rightarrow> error + jstring" where
  "template parts = (case sequenceE parts of Inl e \<Rightarrow> Inl e | Inr ss \<Rightarrow> Inr (concat ss))"

text \<open>The string of a value whose \<open>typeof\<close> has been tested to be string.\<close>

fun strOf :: "jsval \<Rightarrow> jstring" where
  "strOf (Str s) = s"
| "strOf v = []"

text \<open>\<open>Array.isArray\<close> and the elements of an array value.\<close>

fun isArray :: "jsval \<Rightarrow> bool" where
  "isArray (Arr xs) = True"
| "isArray v = False"

fun elems :: "jsval \<Rightarrow> jsval list" where
  "elems (Arr xs) = xs"
| "elems v = []"

definition nl :: jstring where
  "nl = [0xA]"

section \<open>Regular expressions of the source\<close>

text \<open>
  Without the multiline flag \<open>^\<close> and \<open>$\<close> match only at the two ends of the input, and
  \<open>\d\<close> is 0-9. \<open>RegExp.test\<close> converts its argument to a string first.
\<close>

definition re_digits10 :: "jstring \<Rightarrow> bool" where
  \<comment> \<open>\<open>/^\d{10}$/\<close>\<close>
  "re_digits10 s = (length s = 10 \<and> list_all isDigit s)"

definition re_digits :: "jstring \<Rightarrow> bool" where
  \<comment> \<open>\<open>/^\d+$/\<close>\<close>
  "re_digits s = (s \<noteq> [] \<and> list_all isDigit s)"

definition re_first6to9 :: "jstring \<Rightarrow> bool" where
  \<comment> \<open>\<open>/^[6-9]/\<close>\<close>
  "re_first6to9 s = (case s of [] \<Rightarrow> False | c # cs \<Rightarrow> 0x36 \<le> c \<and> c \<le> 0x39)"

definition test :: "(jstring \<Rightarrow> bool) \<Rightarrow> jsval \<Rightarrow> error + bool" where
  "test re v = (case toString v of Inl e \<Rightarrow> Inl e | Inr s \<Rightarrow> Inr (re s))"

section \<open>parseInt\<close>

definition digitValue :: "16 word \<Rightarrow> nat option" where
  "digitValue c =
     (if 0x30 \<le> c \<and> c \<le> 0x39 then Some (unat c - 0x30)
      else if 0x61 \<le> c \<and> c \<le> 0x7A then Some (unat c - 0x61 + 10)
      else if 0x41 \<le> c \<and> c \<le> 0x5A then Some (unat c - 0x41 + 10)
      else None)"

definition isRadixDigit :: "nat \<Rightarrow> 16 word \<Rightarrow> bool" where
  "isRadixDigit r c = (case digitValue c of None \<Rightarrow> False | Some d \<Rightarrow> d < r)"

definition radixValue :: "nat \<Rightarrow> jstring \<Rightarrow> nat" where
  "radixValue r ds = foldl (\<lambda>a c. a * r + the (digitValue c)) 0 ds"

text \<open>
  \<open>parseInt\<close> with no radix argument, on the string of its argument: leading white space
  dropped, a sign, the prefix 0x or 0X choosing radix 16, then the longest run of digits.
  \<open>None\<close> is NaN. The result is the mathematical integer; the source only compares it
  with 16 and 100, where rounding to a double (or to an infinity) changes nothing.
\<close>

definition parseIntString :: "jstring \<Rightarrow> int option" where
  "parseIntString inputString =
     (let s = dropWhile isWhiteSpace inputString;
          neg = startsWith s (ascii ''-'');
          s1 = (if s \<noteq> [] \<and> (startsWith s (ascii ''+'') \<or> startsWith s (ascii ''-''))
                then tl s else s);
          hex = (startsWith s1 (ascii ''0x'') \<or> startsWith s1 (ascii ''0X''));
          r = (if hex then 16 else 10);
          s2 = (if hex then drop 2 s1 else s1);
          z = takeWhile (isRadixDigit r) s2
      in if z = [] then None
         else Some ((if neg then - 1 else 1) * int (radixValue r z)))"

text \<open>\<open>parseInt(v)\<close>: the argument is converted to a string first, which can throw.\<close>

definition parseInt :: "jsval \<Rightarrow> error + int option" where
  "parseInt v = (case toString v of Inl e \<Rightarrow> Inl e | Inr s \<Rightarrow> Inr (parseIntString s))"

section \<open>WhatsApp message parser (06-whatsapp-parser.js)\<close>

record parsedMessage =
  date :: jsval
  time :: jsval
  sender :: jstring
  text_msg :: jstring
  wordCount :: nat
  sentiment :: jstring

definition laughEmoji :: jstring where
  \<comment> \<open>U+1F602, a surrogate pair\<close>
  "laughEmoji = [0xD83D, 0xDE02]"

definition heart :: jstring where
  \<comment> \<open>U+2764\<close>
  "heart = [0x2764]"

definition parseWhatsAppMessage :: "jsval \<Rightarrow> parsedMessage option" where
  "parseWhatsAppMessage message =
     (if typeof message \<noteq> TString then None
      else
       (let m = strOf message;
            dateTimeEndIndex = indexOf m (ascii '' - '')
        in if dateTimeEndIndex = - 1 then None
           else
            (let dateTimePart = substring m 0 dateTimeEndIndex;
                 senderMessagePart = substringFrom m (dateTimeEndIndex + 3);
                 senderEndIndex = indexOf senderMessagePart (ascii '': '')
             in if senderEndIndex = - 1 then None
                else
                 (let sender = substring senderMessagePart 0 senderEndIndex;
                      text_msg = trim (substringFrom senderMessagePart (senderEndIndex + 2));
                      wordCount = length (filter (\<lambda>word. trim word \<noteq> [])
                                                 (split text_msg (ascii '' '')));
                      textLower = toLowerCase text_msg;
                      sentiment =
                        (if includesStr text_msg laughEmoji \<or> includesStr text_msg (ascii '':)'')
                            \<or> includesStr textLower (ascii ''haha'')
                         then ascii ''funny''
                         else if includesStr text_msg heart \<or> includesStr textLower (ascii ''love'')
                            \<or> includesStr textLower (ascii ''pyaar'')
                         then ascii ''love''
                         else ascii ''neutral'')
                  in Some \<lparr> date = at (split dateTimePart (ascii '', '')) 0,
                            time = at (split dateTimePart (ascii '', '')) 1,
                            sender = sender,
                            text_msg = text_msg,
                            wordCount = wordCount,
                            sentiment = sentiment \<rparr>))))"

section \<open>Mumbai local pass generator (05-mumbai-local-pass.js)\<close>

definition generateLocalPass :: "jsval \<Rightarrow> jstring" where
  "generateLocalPass passenger =
     (if typeof passenger \<noteq> TObject \<or> passenger = Null then ascii ''INVALID PASS''
      else
       (let name = field passenger (ascii ''name'');
            from' = field passenger (ascii ''from'');
            to' = field passenger (ascii ''to'');
            classType = field passenger (ascii ''classType'')
        in if typeof name \<noteq> TString \<or> trim (strOf name) = [] \<or>
              typeof from' \<noteq> TString \<or> trim (strOf from') = [] \<or>
              typeof to' \<noteq> TString \<or> trim (strOf to') = [] \<or>
              typeof classType \<noteq> TString \<or> trim (strOf classType) = []
           then ascii ''INVALID PASS''
           else
            (let classTypeLower = toLowerCase (strOf classType)
             in if classTypeLower \<noteq> ascii ''first'' \<and> classTypeLower \<noteq> ascii ''second''
                then ascii ''INVALID PASS''
                else
                 (let passId = toUpperCase (charAt classTypeLower 0)
                                 @ slice (toUpperCase (strOf from')) 0 3
                                 @ slice (toUpperCase (strOf to')) 0 3;
                      nameUpper = toUpperCase (strOf name);
                      fromTitleCase = toUpperCase (charAt (strOf from') 0)
                                        @ toLowerCase (sliceFrom (strOf from') 1);
                      toTitleCase = toUpperCase (charAt (strOf to') 0)
                                      @ toLowerCase (sliceFrom (strOf to') 1)
                  in ascii ''MUMBAI LOCAL PASS'' @ nl @ ascii ''---'' @ nl
                     @ ascii ''Name: '' @ nameUpper @ nl
                     @ ascii ''From: '' @ fromTitleCase @ nl
                     @ ascii ''To: '' @ toTitleCase @ nl
                     @ ascii ''Class: '' @ toUpperCase classTypeLower @ nl
                     @ ascii ''Pass ID: '' @ passId))))"

section \<open>Railway PNR status (12-railway-pnr-system.js)\<close>

record processedPassenger =
  formattedName :: jstring
  bookingStatus :: jsval
  currentStatus :: jstring
  statusLabel :: jstring
  isConfirmed :: bool

record pnrSummary =
  totalPassengers :: nat
  confirmed :: nat
  waiting :: nat
  cancelled :: nat
  rac :: nat
  allConfirmed :: bool
  anyWaiting :: bool

record pnrReport =
  pnrFormatted :: jstring
  trainInfo :: jstring
  passengers :: "processedPassenger list"
  summary :: pnrSummary
  chartPrepared :: bool

definition rightArrow :: jstring where
  \<comment> \<open>U+2192\<close>
  "rightArrow = [0x2192]"

text \<open>
  The callback of \<open>passengers.map\<close>. Destructuring \<open>undefined\<close> or \<open>null\<close> throws;
  \<open>current.startsWith\<close> and \<open>name.padEnd\<close> throw unless the receiver is a string; the
  template literal throws when \<open>age\<close> or \<open>gender\<close> cannot be converted to a string.
\<close>

definition processPassenger :: "jsval \<Rightarrow> error + processedPassenger" where
  "processPassenger p =
     (if p = Undefined \<or> p = Null then Inl TypeError
      else
       (let name = field p (ascii ''name'');
            age = field p (ascii ''age'');
            gender = field p (ascii ''gender'');
            booking = field p (ascii ''booking'');
            current = field p (ascii ''current'')
        in if typeof current \<noteq> TString then Inl TypeError
           else
            (let statusLabel =
                   (if startsWith (strOf current) (ascii ''B'')
                       \<or> startsWith (strOf current) (ascii ''S'') then ascii ''CONFIRMED''
                    else if startsWith (strOf current) (ascii ''WL'') then ascii ''WAITING''
                    else if strOf current = ascii ''CAN'' then ascii ''CANCELLED''
                    else if startsWith (strOf current) (ascii ''RAC'') then ascii ''RAC''
                    else [])
             in if typeof name \<noteq> TString then Inl TypeError
                else
                 (case template [Inr (padEnd (strOf name) 20), Inr (ascii ''(''), toString age,
                                 Inr (ascii ''/''), toString gender, Inr (ascii '')'')] of
                    Inl e \<Rightarrow> Inl e
                  | Inr formatted \<Rightarrow>
                     Inr \<lparr> formattedName = formatted,
                           bookingStatus = booking,
                           currentStatus = strOf current,
                           statusLabel = statusLabel,
                           isConfirmed = (statusLabel = ascii ''CONFIRMED'') \<rparr>))))"

text \<open>\<open>passengers.map\<close>, left to right; the first callback that throws ends the call.\<close>

fun mapPassengers :: "jsval list \<Rightarrow> error + processedPassenger list" where
  "mapPassengers [] = Inr []"
| "mapPassengers (p # ps) =
     (case processPassenger p of
        Inl e \<Rightarrow> Inl e
      | Inr q \<Rightarrow> (case mapPassengers ps of Inl e \<Rightarrow> Inl e | Inr qs \<Rightarrow> Inr (q # qs)))"

text \<open>
  The result is \<open>Inr None\<close> for \<open>null\<close>, \<open>Inl TypeError\<close> for a thrown type error. The
  regular expression is tested on \<open>pnr\<close> only once \<open>pnr\<close> is known to be a string.
\<close>

definition processRailwayPNR :: "jsval \<Rightarrow> error + pnrReport option" where
  "processRailwayPNR pnrData =
     (if \<not> truthy pnrData \<or> typeof pnrData \<noteq> TObject then Inr None
      else
       (let pnr = field pnrData (ascii ''pnr'');
            train = field pnrData (ascii ''train'');
            classBooked = field pnrData (ascii ''classBooked'');
            passengers = field pnrData (ascii ''passengers'')
        in if typeof pnr \<noteq> TString \<or> \<not> re_digits10 (strOf pnr) then Inr None
           else if \<not> truthy train \<or> typeof train \<noteq> TObject then Inr None
           else if \<not> isArray passengers \<or> length (elems passengers) = 0 then Inr None
           else
            (let pnrFormatted = slice (strOf pnr) 0 3 @ ascii ''-'' @ slice (strOf pnr) 3 6
                                  @ ascii ''-'' @ sliceFrom (strOf pnr) 6
             in case template [Inr (ascii ''Train: ''), toString (field train (ascii ''number'')),
                               Inr (ascii '' - ''), toString (field train (ascii ''name'')),
                               Inr (ascii '' | ''), toString (field train (ascii ''from'')),
                               Inr (ascii '' '' @ rightArrow @ ascii '' ''),
                               toString (field train (ascii ''to'')),
                               Inr (ascii '' | Class: ''), toString classBooked] of
                  Inl e \<Rightarrow> Inl e
                | Inr info \<Rightarrow>
                   (case mapPassengers (elems passengers) of
                      Inl e \<Rightarrow> Inl e
                    | Inr processedPassengers \<Rightarrow>
                       (let totalPassengers = length processedPassengers;
                            confirmed = length (filter (\<lambda>p. statusLabel p = ascii ''CONFIRMED'')
                                                  processedPassengers);
                            waiting = length (filter (\<lambda>p. statusLabel p = ascii ''WAITING'')
                                                processedPassengers);
                            cancelled = length (filter (\<lambda>p. statusLabel p = ascii ''CANCELLED'')
                                                  processedPassengers);
                            rac = length (filter (\<lambda>p. statusLabel p = ascii ''RAC'')
                                            processedPassengers);
                            allConfirmed = list_all (\<lambda>p. statusLabel p = ascii ''CONFIRMED''
                                                        \<or> statusLabel p = ascii ''CANCELLED'')
                                             processedPassengers;
                            anyWaiting = list_ex (\<lambda>p. statusLabel p = ascii ''WAITING'')
                                           processedPassengers;
                            chartPrepared = list_all (\<lambda>p. statusLabel p = ascii ''CONFIRMED''
                                                         \<or> statusLabel p = ascii ''CANCELLED'')
                                              processedPassengers
                        in Inr (Some \<lparr> pnrFormatted = pnrFormatted,
                                        trainInfo = info,
                                        passengers = processedPassengers,
                                        summary = \<lparr> totalPassengers = totalPassengers,
                                                    confirmed = confirmed,
                                                    waiting = waiting,
                                                    cancelled = cancelled,
                                                    rac = rac,
                                                    allConfirmed = allConfirmed,
                                                    anyWaiting = anyWaiting \<rparr>,
                                        chartPrepared = chartPrepared \<rparr>))))))"

section \<open>Form validator (validateForm)\<close>

record validationResult =
  isValid :: bool
  errors :: "(jstring \<times> jstring) list"

text \<open>
  The errors object is the list of its properties in the order they are first set.
  Reading \<open>formData.name\<close>, the first property read, throws on \<open>undefined\<close> and
  \<open>null\<close>; \<open>parseInt(formData.age)\<close> throws when the age cannot be converted to a
  string, after the checks of name, email and phone. The regular expressions are tested on
  phone and pincode only once these are known to be strings. \<open>Number.isInteger\<close> of the
  result of \<open>parseInt\<close> is false only for NaN and the infinities, which the neighbouring
  tests already reject.
\<close>

definition numberIsInteger :: "int option \<Rightarrow> bool" where
  "numberIsInteger r = (r \<noteq> None)"

text \<open>\<open>errors.k = v\<close>: a new key goes last, an old one keeps its place.\<close>

fun setProp :: "(jstring \<times> 'a) list \<Rightarrow> jstring \<Rightarrow> 'a \<Rightarrow> (jstring \<times> 'a) list" where
  "setProp [] k v = [(k, v)]"
| "setProp (p # ps) k v = (if fst p = k then (k, v) # ps else p # setProp ps k v)"

definition validateForm :: "jsval \<Rightarrow> error + validationResult" where
  "validateForm formData =
     (case getProp formData (ascii ''name'') of
        Inl e \<Rightarrow> Inl e
      | Inr name \<Rightarrow>
         (let errors0 = [];
              errors1 =
                (if typeof name \<noteq> TString \<or> length (trim (strOf name)) < 2
                    \<or> length (trim (strOf name)) > 50
                 then setProp errors0 (ascii ''name'') (ascii ''Name must be 2-50 characters'')
                 else errors0);
              email = field formData (ascii ''email'');
              errors2 =
                (if typeof email \<noteq> TString \<or> indexOf (strOf email) (ascii ''@'') = - 1
                    \<or> indexOf (strOf email) (ascii ''@'') \<noteq> lastIndexOf (strOf email) (ascii ''@'')
                    \<or> indexOf (strOf email) (ascii ''.'') \<le> indexOf (strOf email) (ascii ''@'')
                 then setProp errors1 (ascii ''email'') (ascii ''Invalid email format'')
                 else errors1);
              phone = field formData (ascii ''phone'');
              errors3 =
                (if typeof phone \<noteq> TString \<or> length (strOf phone) \<noteq> 10
                    \<or> \<not> re_first6to9 (strOf phone) \<or> \<not> re_digits (strOf phone)
                 then setProp errors2 (ascii ''phone'') (ascii ''Invalid Indian phone number'')
                 else errors2)
          in case parseInt (field formData (ascii ''age'')) of
               Inl e \<Rightarrow> Inl e
             | Inr age \<Rightarrow>
                (case (if age = None then Inr True
                       else (case test re_digits (field formData (ascii ''age'')) of
                               Inl e \<Rightarrow> Inl e
                             | Inr digitsOnly \<Rightarrow>
                                Inr (\<not> digitsOnly \<or> \<not> numberIsInteger age
                                     \<or> the age < 16 \<or> the age > 100))) of
                   Inl e \<Rightarrow> Inl e
                 | Inr ageFails \<Rightarrow>
                    (let errors4 =
                           (if ageFails
                            then setProp errors3 (ascii ''age'')
                                   (ascii ''Age must be an integer between 16 and 100'')
                            else errors3);
                         pincode = field formData (ascii ''pincode'');
                         errors5 =
                           (if typeof pincode \<noteq> TString \<or> length (strOf pincode) \<noteq> 6
                               \<or> startsWith (strOf pincode) (ascii ''0'')
                               \<or> \<not> re_digits (strOf pincode)
                            then setProp errors4 (ascii ''pincode'') (ascii ''Invalid Indian pincode'')
                            else errors4);
                         state = (if field formData (ascii ''state'') = Undefined
                                     \<or> field formData (ascii ''state'') = Null
                                  then Str [] else field formData (ascii ''state''));
                         errors6 =
                           (if typeof state \<noteq> TString \<or> trim (strOf state) = []
                            then setProp errors5 (ascii ''state'') (ascii ''State is required'')
                            else errors5);
                         errors7 =
                           (if \<not> truthy (field formData (ascii ''agreeTerms''))
                            then setProp errors6 (ascii ''agreeTerms'') (ascii ''Must agree to terms'')
                            else errors6)
                     in Inr \<lparr> isValid = (length (map fst errors7) = 0), errors = errors7 \<rparr>))))"

section \<open>Specification-level notions and example inputs\<close>

subsection \<open>Railway PNR status\<close>

text \<open>The status rules of the spec, in their order of precedence.\<close>

definition specStatusLabel :: "jstring \<Rightarrow> jstring" where
  "specStatusLabel c =
     (if prefix (ascii ''B'') c \<or> prefix (ascii ''S'') c then ascii ''CONFIRMED''
      else if prefix (ascii ''WL'') c then ascii ''WAITING''
      else if c = ascii ''CAN'' then ascii ''CANCELLED''
      else if prefix (ascii ''RAC'') c then ascii ''RAC''
      else [])"

definition currentOf :: "jsval \<Rightarrow> jstring" where
  "currentOf x = strOf (field x (ascii ''current''))"

text \<open>
  The inputs \<open>processRailwayPNR\<close> accepts, condition by condition. A value is convertible
  when its conversion to a string does not throw. A well-formed passenger is a record whose
  \<open>name\<close> and \<open>current\<close> are text and whose \<open>age\<close> and \<open>gender\<close> are convertible.
\<close>

definition isObjectValue :: "jsval \<Rightarrow> bool" where
  "isObjectValue v = (case v of Obj fs \<Rightarrow> True | Arr xs \<Rightarrow> True | _ \<Rightarrow> False)"

definition isTenDigits :: "jsval \<Rightarrow> bool" where
  "isTenDigits v =
     (case v of
        Str s \<Rightarrow> length s = 10 \<and> (\<forall>c \<in> set s. c \<in> set (ascii ''0123456789''))
      | _ \<Rightarrow> False)"

definition isNonEmptyArray :: "jsval \<Rightarrow> bool" where
  "isNonEmptyArray v = (case v of Arr xs \<Rightarrow> xs \<noteq> [] | _ \<Rightarrow> False)"

definition convertible :: "jsval \<Rightarrow> bool" where
  "convertible v = (case toString v of Inl e \<Rightarrow> False | Inr s \<Rightarrow> True)"

definition wellFormedPassenger :: "jsval \<Rightarrow> bool" where
  "wellFormedPassenger x =
     (case x of
        Obj fs \<Rightarrow> typeof (field x (ascii ''name'')) = TString
                 \<and> typeof (field x (ascii ''current'')) = TString
                 \<and> convertible (field x (ascii ''age''))
                 \<and> convertible (field x (ascii ''gender''))
      | _ \<Rightarrow> False)"

text \<open>The five values the train line embeds are convertible.\<close>

definition trainInfoConvertible :: "jsval \<Rightarrow> bool" where
  "trainInfoConvertible d =
     (convertible (field (field d (ascii ''train'')) (ascii ''number''))
      \<and> convertible (field (field d (ascii ''train'')) (ascii ''name''))
      \<and> convertible (field (field d (ascii ''train'')) (ascii ''from''))
      \<and> convertible (field (field d (ascii ''train'')) (ascii ''to''))
      \<and> convertible (field d (ascii ''classBooked'')))"

definition structurallyValid :: "jsval \<Rightarrow> bool" where
  "structurallyValid d =
     (isObjectValue d \<and> isTenDigits (field d (ascii ''pnr''))
      \<and> isObjectValue (field d (ascii ''train''))
      \<and> isNonEmptyArray (field d (ascii ''passengers'')))"

definition examplePassenger :: "string \<Rightarrow> string \<Rightarrow> string \<Rightarrow> jsval" where
  "examplePassenger n b c =
     Obj [(ascii ''name'', Str (ascii n)), (ascii ''age'', Num (Finite False 28 2)),
          (ascii ''gender'', Str (ascii ''M'')), (ascii ''booking'', Str (ascii b)),
          (ascii ''current'', Str (ascii c))]"

definition exampleTrain :: jsval where
  "exampleTrain =
     Obj [(ascii ''number'', Str (ascii ''12301'')), (ascii ''name'', Str (ascii ''Rajdhani Express'')),
          (ascii ''from'', Str (ascii ''NDLS'')), (ascii ''to'', Str (ascii ''HWH''))]"

definition examplePNR :: "jsval \<Rightarrow> jsval \<Rightarrow> jsval \<Rightarrow> jsval" where
  "examplePNR p t ps =
     Obj [(ascii ''pnr'', p), (ascii ''train'', t), (ascii ''classBooked'', Str (ascii ''3A'')),
          (ascii ''passengers'', ps)]"

definition pnrConfirmedCancelled :: jsval where
  "pnrConfirmedCancelled =
     examplePNR (Str (ascii ''1234567890'')) exampleTrain
       (Arr [examplePassenger ''Rahul'' ''B1'' ''B1'', examplePassenger ''Priya'' ''WL5'' ''CAN''])"

definition pnrUnknownStatus :: jsval where
  "pnrUnknownStatus =
     examplePNR (Str (ascii ''1234567890'')) exampleTrain
       (Arr [examplePassenger ''Rahul'' ''B1'' ''B1'', examplePassenger ''Priya'' ''WL5'' ''XYZ''])"

definition pnrMissingCurrent :: jsval where
  "pnrMissingCurrent =
     examplePNR (Str (ascii ''1234567890'')) exampleTrain
       (Arr [Obj [(ascii ''name'', Str (ascii ''Rahul'')), (ascii ''age'', Num (Finite False 28 2))]])"

text \<open>
  The documented example with \<open>classBooked: {toString: null}\<close>, and with a passenger
  whose \<open>age\<close> is such an object.
\<close>

definition pnrClassObject :: jsval where
  "pnrClassObject =
     Obj [(ascii ''pnr'', Str (ascii ''1234567890'')), (ascii ''train'', exampleTrain),
          (ascii ''classBooked'', Obj [(ascii ''toString'', Null)]),
          (ascii ''passengers'', Arr [examplePassenger ''Rahul'' ''B1'' ''B1''])]"

subsection \<open>Form validator\<close>

text \<open>
  The email rule as the spec words it: text with exactly one \<open>@\<close> (0x40) and at least
  one \<open>.\<close> (0x2E) after the position of the \<open>@\<close>.
\<close>

definition specEmailValid :: "jsval \<Rightarrow> bool" where
  "specEmailValid v =
     (case v of
        Str e \<Rightarrow> count_list e 0x40 = 1 \<and> 0x2E \<in> set (dropWhile (\<lambda>c. c \<noteq> 0x40) e)
      | _ \<Rightarrow> False)"

definition formDotBeforeAt :: jsval where
  "formDotBeforeAt =
     Obj [(ascii ''name'', Str (ascii ''Rahul Sharma'')), (ascii ''email'', Str (ascii ''rahul.sharma@gmail.com'')),
          (ascii ''phone'', Str (ascii ''9876543210'')), (ascii ''age'', Num (Finite False 2 2)),
          (ascii ''pincode'', Str (ascii ''400001'')), (ascii ''state'', Str (ascii ''Maharashtra'')),
          (ascii ''agreeTerms'', Bool True)]"

text \<open>The seven field names, in the order the source checks them.\<close>

definition formFields :: "jstring list" where
  "formFields = [ascii ''name'', ascii ''email'', ascii ''phone'', ascii ''age'', ascii ''pincode'',
                 ascii ''state'', ascii ''agreeTerms'']"


text \<open>
  The rule of every field as the source applies it, in the words of the spec: the value of
  a string of decimal digits, and the seven rules. The email rule is the spec's together
  with the absence of a \<open>.\<close> before the \<open>@\<close>; the age rule reads the string the age
  converts to.
\<close>

definition decimalDigits :: "jstring \<Rightarrow> bool" where
  "decimalDigits s = (\<forall>c \<in> set s. c \<in> set (ascii ''0123456789''))"

definition decimalValue :: "jstring \<Rightarrow> nat" where
  "decimalValue s = foldl (\<lambda>a c. 10 * a + (unat c - 48)) 0 s"

definition nameOk :: "jsval \<Rightarrow> bool" where
  "nameOk v = (case v of Str s \<Rightarrow> 2 \<le> length (trim s) \<and> length (trim s) \<le> 50 | _ \<Rightarrow> False)"

definition emailOk :: "jsval \<Rightarrow> bool" where
  "emailOk v = (specEmailValid v \<and> 0x2E \<notin> set (takeWhile (\<lambda>c. c \<noteq> 0x40) (strOf v)))"

definition phoneOk :: "jsval \<Rightarrow> bool" where
  "phoneOk v =
     (case v of
        Str s \<Rightarrow> length s = 10 \<and> decimalDigits s \<and> hd s \<in> set (ascii ''6789'')
      | _ \<Rightarrow> False)"

definition ageOk :: "jsval \<Rightarrow> bool" where
  "ageOk v =
     (case toString v of
        Inl e \<Rightarrow> False
      | Inr s \<Rightarrow> s \<noteq> [] \<and> decimalDigits s \<and> 16 \<le> decimalValue s \<and> decimalValue s \<le> 100)"

definition pincodeOk :: "jsval \<Rightarrow> bool" where
  "pincodeOk v =
     (case v of
        Str s \<Rightarrow> length s = 6 \<and> decimalDigits s \<and> hd s \<noteq> 0x30
      | _ \<Rightarrow> False)"

definition stateOk :: "jsval \<Rightarrow> bool" where
  "stateOk v = (case v of Str s \<Rightarrow> \<exists>c \<in> set s. \<not> isWhiteSpace c | _ \<Rightarrow> False)"

definition fieldOk :: "jsval \<Rightarrow> jstring \<Rightarrow> bool" where
  "fieldOk formData k =
     (if k = ascii ''name'' then nameOk (field formData k)
      else if k = ascii ''email'' then emailOk (field formData k)
      else if k = ascii ''phone'' then phoneOk (field formData k)
      else if k = ascii ''age'' then ageOk (field formData k)
      else if k = ascii ''pincode'' then pincodeOk (field formData k)
      else if k = ascii ''state'' then stateOk (field formData k)
      else truthy (field formData k))"

definition fieldMessage :: "jstring \<Rightarrow> jstring" where
  "fieldMessage k =
     (if k = ascii ''name'' then ascii ''Name must be 2-50 characters''
      else if k = ascii ''email'' then ascii ''Invalid email format''
      else if k = ascii ''phone'' then ascii ''Invalid Indian phone number''
      else if k = ascii ''age'' then ascii ''Age must be an integer between 16 and 100''
      else if k = ascii ''pincode'' then ascii ''Invalid Indian pincode''
      else if k = ascii ''state'' then ascii ''State is required''
      else ascii ''Must agree to terms'')"

text \<open>The errors object with one message for every failing field, in the order of the fields.\<close>

definition specErrors :: "jsval \<Rightarrow> (jstring \<times> jstring) list" where
  "specErrors formData =
     map (\<lambda>k. (k, fieldMessage k)) (filter (\<lambda>k. \<not> fieldOk formData k) formFields)"



subsection \<open>WhatsApp message parser\<close>

text \<open>
  The pattern \<open>p\<close> occurs in \<open>s\<close> at index \<open>k\<close>; \<open>firstAt\<close>: and at no smaller
  index.
\<close>

definition occursAt :: "jstring \<Rightarrow> jstring \<Rightarrow> nat \<Rightarrow> bool" where
  "occursAt p s k = (take (length p) (drop k s) = p)"

definition firstAt :: "jstring \<Rightarrow> jstring \<Rightarrow> nat \<Rightarrow> bool" where
  "firstAt p s k = (occursAt p s k \<and> (\<forall>j<k. \<not> occursAt p s j))"

text \<open>The pieces of a list between its delimiters, the elements that satisfy \<open>d\<close>.\<close>

fun splitWhen :: "('a \<Rightarrow> bool) \<Rightarrow> 'a list \<Rightarrow> 'a list list" where
  "splitWhen d [] = [[]]"
| "splitWhen d (x # xs) =
     (if d x then [] # splitWhen d xs
      else (x # hd (splitWhen d xs)) # tl (splitWhen d xs))"

definition msgNoComma :: jstring where
  "msgNoComma = ascii ''25/01/2025 14:30 - Rahul: hello''"

text \<open>
  Letter case of the letters A-Z and a-z, and: some substring of the body is \<open>p\<close> up to
  that letter case.
\<close>

definition asciiLower :: "16 word \<Rightarrow> 16 word" where
  "asciiLower c = (if 0x41 \<le> c \<and> c \<le> 0x5A then c + 0x20 else c)"

definition asciiUpper :: "16 word \<Rightarrow> 16 word" where
  "asciiUpper c = (if 0x61 \<le> c \<and> c \<le> 0x7A then c - 0x20 else c)"

definition containsCI :: "jstring \<Rightarrow> jstring \<Rightarrow> bool" where
  "containsCI body p = list_ex (\<lambda>w. map asciiLower w = p) (sublists body)"

definition funnyMarker :: "jstring \<Rightarrow> bool" where
  "funnyMarker body =
     (sublist laughEmoji body \<or> sublist (ascii '':)'') body \<or> containsCI body (ascii ''haha''))"

definition loveMarker :: "jstring \<Rightarrow> bool" where
  "loveMarker body =
     (sublist heart body \<or> containsCI body (ascii ''love'') \<or> containsCI body (ascii ''pyaar''))"

text \<open>The sentiment rule of the spec: funny before love before neutral.\<close>

definition specSentiment :: "jstring \<Rightarrow> jstring" where
  "specSentiment body =
     (if funnyMarker body then ascii ''funny''
      else if loveMarker body then ascii ''love''
      else ascii ''neutral'')"

text \<open>The number of non-empty whitespace-delimited tokens of a body, as the spec words it.\<close>

definition specWordCount :: "jstring \<Rightarrow> nat" where
  "specWordCount body = length (filter (\<lambda>t. t \<noteq> []) (splitWhen isWhiteSpace body))"

definition msgBoth :: jstring where
  "msgBoth = ascii ''01/12/2024, 09:15 - Priya: HaHa I LOVE it''"

definition msgTab :: jstring where
  "msgTab = ascii ''01/12/2024, 09:15 - Priya: a'' @ [0x9] @ ascii ''b''"

definition msgSpaces :: jstring where
  "msgSpaces = ascii ''01/12/2024, 09:15 - Priya: I  love   it''"

subsection \<open>Mumbai local pass\<close>

text \<open>
  The records \<open>generateLocalPass\<close> accepts, with the class type compared after lowercasing.
  The pass identifier in two readings: \<open>passIdOfPrefixes\<close> uppercases the first three
  characters of \<open>from\<close> and of \<open>to\<close>; \<open>passId\<close> takes the first three characters of
  the uppercased \<open>from\<close> and \<open>to\<close>. Then the seven lines.
\<close>

definition nonBlankText :: "jsval \<Rightarrow> bool" where
  "nonBlankText v = (case v of Str s \<Rightarrow> \<exists>c \<in> set s. \<not> isWhiteSpace c | _ \<Rightarrow> False)"


definition passAccepted :: "jsval \<Rightarrow> bool" where
  "passAccepted p =
     (case p of
        Obj fs \<Rightarrow>
          nonBlankText (field p (ascii ''name'')) \<and> nonBlankText (field p (ascii ''from''))
          \<and> nonBlankText (field p (ascii ''to'')) \<and> nonBlankText (field p (ascii ''classType''))
          \<and> (toLowerCase (strOf (field p (ascii ''classType''))) = ascii ''first''
               \<or> toLowerCase (strOf (field p (ascii ''classType''))) = ascii ''second'')
      | _ \<Rightarrow> False)"

definition passIdOfPrefixes :: "jsval \<Rightarrow> jstring" where
  "passIdOfPrefixes p =
     toUpperCase (take 1 (toLowerCase (strOf (field p (ascii ''classType'')))))
     @ toUpperCase (take 3 (strOf (field p (ascii ''from''))))
     @ toUpperCase (take 3 (strOf (field p (ascii ''to''))))"

definition passId :: "jsval \<Rightarrow> jstring" where
  "passId p =
     toUpperCase (take 1 (toLowerCase (strOf (field p (ascii ''classType'')))))
     @ take 3 (toUpperCase (strOf (field p (ascii ''from''))))
     @ take 3 (toUpperCase (strOf (field p (ascii ''to''))))"

definition titleCase :: "jstring \<Rightarrow> jstring" where
  "titleCase s = toUpperCase (take 1 s) @ toLowerCase (drop 1 s)"

definition passLines :: "jsval \<Rightarrow> jstring list" where
  "passLines p =
     [ascii ''MUMBAI LOCAL PASS'',
      ascii ''---'',
      ascii ''Name: '' @ toUpperCase (strOf (field p (ascii ''name''))),
      ascii ''From: '' @ titleCase (strOf (field p (ascii ''from''))),
      ascii ''To: '' @ titleCase (strOf (field p (ascii ''to''))),
      ascii ''Class: '' @ toUpperCase (toLowerCase (strOf (field p (ascii ''classType'')))),
      ascii ''Pass ID: '' @ passId p]"

definition examplePass :: "jstring \<Rightarrow> jsval" where
  "examplePass n =
     Obj [(ascii ''name'', Str n), (ascii ''from'', Str (ascii ''dadar'')),
          (ascii ''to'', Str (ascii ''andheri'')), (ascii ''classType'', Str (ascii ''first''))]"

definition passNewlineName :: jsval where
  "passNewlineName = examplePass (ascii ''a'' @ nl @ ascii ''b'')"


text \<open>The documented example with \<open>from\<close> the sharp s (U+00DF) followed by \<open>ab\<close>.\<close>

definition passSharpS :: jsval where
  "passSharpS =
     Obj [(ascii ''name'', Str (ascii ''rahul sharma'')), (ascii ''from'', Str (0xDF # ascii ''ab'')),
          (ascii ''to'', Str (ascii ''andheri'')), (ascii ''classType'', Str (ascii ''first''))]"

subsection \<open>Case conversion\<close>

text \<open>
  A walk over code points that writes some code units for each, given the code points before
  and after it: the shape of both case conversions. Two strings have the same skeleton
  for a set \<open>g\<close> of code units when they agree except for non-empty blocks free of
  \<open>g\<close>. Plain units are the ASCII code units no lower-case mapping of a non-ASCII code
  point produces.
\<close>

fun walk :: "(int list \<Rightarrow> int \<Rightarrow> int list \<Rightarrow> jstring) \<Rightarrow> int list \<Rightarrow> int list \<Rightarrow> jstring" where
  "walk out prev [] = []"
| "walk out prev (c # rest) = out prev c rest @ walk out (c # prev) rest"

inductive skel :: "(16 word \<Rightarrow> bool) \<Rightarrow> jstring \<Rightarrow> jstring \<Rightarrow> bool" for g where
  skel_Nil: "skel g [] []"
| skel_Unit: "skel g s t \<Longrightarrow> skel g (c # s) (c # t)"
| skel_Block: "skel g s t \<Longrightarrow> a \<noteq> [] \<Longrightarrow> b \<noteq> [] \<Longrightarrow> \<forall>x \<in> set a. \<not> g x \<Longrightarrow> \<forall>x \<in> set b. \<not> g x
               \<Longrightarrow> skel g (a @ s) (b @ t)"

definition plainUnit :: "16 word \<Rightarrow> bool" where
  "plainUnit u = (u < 0x80 \<and> u \<noteq> 0x69 \<and> u \<noteq> 0x6B)"

section \<open>Properties\<close>

subsection \<open>Case conversion\<close>

lemmas upperTable_defs = upperTable_def upperTable1_def upperTable2_def upperTable3_def upperTable4_def upperTable5_def upperTable6_def upperTable7_def upperTable8_def upperTable9_def upperTable10_def upperTable11_def upperTable12_def

lemmas lowerTable_defs = lowerTable_def lowerTable1_def lowerTable2_def lowerTable3_def lowerTable4_def lowerTable5_def lowerTable6_def lowerTable7_def lowerTable8_def lowerTable9_def lowerTable10_def lowerTable11_def

lemma upperTable_fact:
  "list_all (\<lambda>(k, v). v \<noteq> [] \<and> list_all (\<lambda>c. 0x41 \<le> c \<and> c \<le> 0x10FFFF) v) upperTable"
  by (simp add: upperTable_defs)

lemma lowerTable_fact:
  "list_all (\<lambda>(k, v). v \<noteq> []
      \<and> list_all (\<lambda>c. (0x80 \<le> c \<or> c = 0x69 \<or> c = 0x6B) \<and> c \<le> 0x10FFFF) v) lowerTable"
  by (simp add: lowerTable_defs)

lemma upperCP_fact:
  assumes "0x80 \<le> c" "c \<le> 0x10FFFF"
  shows "upperCP c \<noteq> [] \<and> (\<forall>d \<in> set (upperCP c). 0x41 \<le> d \<and> d \<le> 0x10FFFF)"
proof (cases "map_of upperTable c")
  case None
  with assms show ?thesis by (simp add: upperCP_def)
next
  case (Some v)
  then have "(c, v) \<in> set upperTable" by (rule map_of_SomeD)
  with upperTable_fact have "v \<noteq> [] \<and> list_all (\<lambda>c. 0x41 \<le> c \<and> c \<le> 0x10FFFF) v"
    unfolding list_all_iff by fastforce
  with Some assms show ?thesis by (simp add: upperCP_def list_all_iff)
qed

lemma lowerCP_fact:
  assumes "0x80 \<le> c" "c \<le> 0x10FFFF"
  shows "lowerCP c \<noteq> []
    \<and> (\<forall>d \<in> set (lowerCP c). (0x80 \<le> d \<or> d = 0x69 \<or> d = 0x6B) \<and> d \<le> 0x10FFFF)"
proof (cases "map_of lowerTable c")
  case None
  with assms show ?thesis by (simp add: lowerCP_def)
next
  case (Some v)
  then have "(c, v) \<in> set lowerTable" by (rule map_of_SomeD)
  with lowerTable_fact
  have "v \<noteq> [] \<and> list_all (\<lambda>c. (0x80 \<le> c \<or> c = 0x69 \<or> c = 0x6B) \<and> c \<le> 0x10FFFF) v"
    unfolding list_all_iff by fastforce
  with Some assms show ?thesis by (simp add: lowerCP_def list_all_iff)
qed

lemma skel_prefix:
  "skel g s t \<Longrightarrow> \<forall>x \<in> set q. g x \<Longrightarrow> prefix q s = prefix q t"
proof (induction arbitrary: q rule: skel.induct)
  case skel_Nil
  show ?case by simp
next
  case (skel_Unit s t c)
  show ?case
  proof (cases q)
    case Nil
    then show ?thesis by simp
  next
    case (Cons x q')
    with skel_Unit.prems have "\<forall>x \<in> set q'. g x" by simp
    from skel_Unit.IH [OF this] Cons show ?thesis by simp
  qed
next
  case (skel_Block s t a b)
  show ?case
  proof (cases q)
    case Nil
    then show ?thesis by simp
  next
    case (Cons x q')
    with skel_Block.prems have gx: "g x" by simp
    from skel_Block.hyps obtain y a' z b' where ab: "a = y # a'" "b = z # b'"
      by (cases a; cases b) auto
    with skel_Block.hyps have "\<not> g y" "\<not> g z" by auto
    with gx have "x \<noteq> y" "x \<noteq> z" by auto
    with Cons ab show ?thesis by simp
  qed
qed

lemma sublist_skip_block:
  assumes "\<forall>x \<in> set a. \<not> g x" and "\<forall>x \<in> set q. g x" and "q \<noteq> []"
  shows "sublist q (a @ s) = sublist q s"
  using assms(1)
proof (induction a)
  case Nil
  show ?case by simp
next
  case (Cons y a')
  from assms(3) obtain x q' where q: "q = x # q'" by (cases q) auto
  with assms(2) have "g x" by simp
  with Cons.prems have "x \<noteq> y" by auto
  with q have "\<not> prefix q (y # a' @ s)" by simp
  with Cons show ?case by (simp add: sublist_Cons_right)
qed

lemma skel_sublist:
  "skel g s t \<Longrightarrow> \<forall>x \<in> set q. g x \<Longrightarrow> q \<noteq> [] \<Longrightarrow> sublist q s = sublist q t"
proof (induction rule: skel.induct)
  case skel_Nil
  show ?case by simp
next
  case (skel_Unit s t c)
  have "skel g (c # s) (c # t)"
    using skel_Unit.hyps by (rule skel.skel_Unit)
  from skel_prefix [OF this skel_Unit.prems(1)] skel_Unit.IH [OF skel_Unit.prems]
  show ?case by (simp add: sublist_Cons_right)
next
  case (skel_Block s t a b)
  from sublist_skip_block [OF skel_Block.hyps(4) skel_Block.prems]
       sublist_skip_block [OF skel_Block.hyps(5) skel_Block.prems]
       skel_Block.IH [OF skel_Block.prems]
  show ?case by simp
qed

lemma skel_member:
  assumes "skel g s t" and "g u"
  shows "(u \<in> set s) = (u \<in> set t)"
proof -
  have m: "\<And>xs. (u \<in> set xs) = sublist [u] xs"
  proof -
    fix xs :: jstring
    show "(u \<in> set xs) = sublist [u] xs"
      by (induction xs) (simp_all add: sublist_Cons_right)
  qed
  from skel_sublist [OF assms(1), of "[u]"] assms(2) show ?thesis
    by (simp add: m)
qed

lemma codeUnits_append: "codeUnits (a @ b) = codeUnits a @ codeUnits b"
  by (simp add: codeUnits_def)

lemma upper_walk:
  "codeUnits (concat (map upperCP cs)) = walk (\<lambda>prev c rest. codeUnits (upperCP c)) prev cs"
  by (induction cs arbitrary: prev) (simp_all add: codeUnits_append, simp add: codeUnits_def)

lemma lower_walk:
  "codeUnits (lowerWalk prev cs)
   = walk (\<lambda>prev c rest. codeUnits
        (if c = 0x3A3 then [if finalSigma prev rest then 0x3C2 else 0x3C3] else lowerCP c)) prev cs"
  by (induction cs arbitrary: prev) (simp_all add: codeUnits_append, simp add: codeUnits_def)

lemma uint_range: "0 \<le> uint (x :: 16 word) \<and> uint x \<le> 0xFFFF"
  using uint_lt2p [of x] by simp

lemma pair_range:
  assumes "isHighSurrogate x" "isLowSurrogate y"
  shows "0x10000 \<le> 0x10000 + (uint x - 0xD800) * 0x400 + (uint y - 0xDC00)
     \<and> 0x10000 + (uint x - 0xD800) * 0x400 + (uint y - 0xDC00) \<le> 0x10FFFF"
  using assms by (simp add: isHighSurrogate_def isLowSurrogate_def word_le_def)

lemma surrogate_high: "isHighSurrogate x \<Longrightarrow> 0x80 \<le> x"
  by (simp add: isHighSurrogate_def word_le_def)

lemma surrogate_low: "isLowSurrogate x \<Longrightarrow> 0x80 \<le> x"
  by (simp add: isLowSurrogate_def word_le_def)

lemma skel_walk:
  assumes A: "\<And>prev rest x. x < 0x80 \<Longrightarrow> out prev (uint x) rest = [f x]"
    and B: "\<And>prev rest c. 0x80 \<le> c \<Longrightarrow> c \<le> 0x10FFFF \<Longrightarrow>
              out prev c rest \<noteq> [] \<and> (\<forall>u \<in> set (out prev c rest). \<not> g u)"
    and F: "\<And>x. 0x80 \<le> x \<Longrightarrow> f x = x"
    and G: "\<And>x. 0x80 \<le> x \<Longrightarrow> \<not> g x"
  shows "skel g (walk out prev (codePoints s)) (map f s)"
proof (induction s arbitrary: prev rule: codePoints.induct)
  case 1
  show ?case by (simp add: skel_Nil)
next
  case (2 x)
  show ?case
  proof (cases "x < 0x80")
    case True
    from A [OF True] show ?thesis
      by (simp add: skel_Nil skel_Unit)
  next
    case False
    then have x: "0x80 \<le> x" by simp
    then have c: "0x80 \<le> uint x" "uint x \<le> 0x10FFFF"
      using uint_range [of x] by (simp_all add: word_le_def)
    from B [OF c, of prev "[]"] G [OF x] F [OF x]
    have "skel g (out prev (uint x) [] @ []) ([x] @ [])"
      by (intro skel_Block skel_Nil) simp_all
    with F [OF x] show ?thesis by simp
  qed
next
  case (3 x y r)
  show ?case
  proof (cases "isHighSurrogate x \<and> isLowSurrogate y")
    case True
    let ?c = "0x10000 + (uint x - 0xD800) * 0x400 + (uint y - 0xDC00)"
    from True have xs: "0x80 \<le> x" "0x80 \<le> y"
      by (simp_all add: surrogate_high surrogate_low)
    from pair_range [of x y] True have c: "0x80 \<le> ?c" "?c \<le> 0x10FFFF" by linarith+
    from 3(1) [OF True, of "?c # prev"]
    have ih: "skel g (walk out (?c # prev) (codePoints r)) (map f r)" .
    from B [OF c, of prev "codePoints r"] G [OF xs(1)] G [OF xs(2)]
    have "skel g (out prev ?c (codePoints r) @ walk out (?c # prev) (codePoints r))
                 ([x, y] @ map f r)"
      by (intro skel_Block ih) simp_all
    with True F [OF xs(1)] F [OF xs(2)] show ?thesis by simp
  next
    case False
    from 3(2) [OF False, of "uint x # prev"]
    have ih: "skel g (walk out (uint x # prev) (codePoints (y # r))) (map f (y # r))" .
    have cp: "codePoints (x # y # r) = uint x # codePoints (y # r)"
      by (subst codePoints.simps(3)) (simp only: False if_False)
    show ?thesis
    proof (cases "x < 0x80")
      case True
      have "skel g (f x # walk out (uint x # prev) (codePoints (y # r))) (f x # map f (y # r))"
        using ih by (rule skel_Unit)
      then show ?thesis
        unfolding cp walk.simps A [OF True, of prev "codePoints (y # r)"] list.map
        by (simp del: codePoints.simps)
    next
      case nx: False
      then have x: "0x80 \<le> x" by simp
      then have c: "0x80 \<le> uint x" "uint x \<le> 0x10FFFF"
        using uint_range [of x] by (simp_all add: word_le_def)
      from B [OF c, of prev "codePoints (y # r)"] G [OF x]
      have "skel g (out prev (uint x) (codePoints (y # r))
                      @ walk out (uint x # prev) (codePoints (y # r)))
                   ([x] @ map f (y # r))"
        by (intro skel_Block ih) simp_all
      then show ?thesis
        unfolding cp walk.simps list.map F [OF x]
        by (simp del: codePoints.simps)
    qed
  qed
qed

lemma uint_word16:
  assumes "0 \<le> k" "k < 0x10000"
  shows "uint (word_of_int k :: 16 word) = k"
  using assms by (simp only: uint_word_of_int) simp

lemma codeUnitsOf_high:
  assumes "0x80 \<le> d" "d \<le> 0x10FFFF"
  shows "codeUnitsOf d \<noteq> [] \<and> (\<forall>u \<in> set (codeUnitsOf d). 0x80 \<le> u)"
proof (cases "d < 0x10000")
  case True
  with assms have "uint (word_of_int d :: 16 word) = d"
    by (intro uint_word16) simp_all
  with assms True show ?thesis
    by (simp add: codeUnitsOf_def word_le_def)
next
  case False
  define h where "h = 0xD800 + (d - 0x10000) div 0x400"
  define l where "l = 0xDC00 + (d - 0x10000) mod 0x400"
  from False assms have h: "0xD800 \<le> h" "h \<le> 0xDBFF" by (simp_all add: h_def)
  have l: "0xDC00 \<le> l" "l \<le> 0xDFFF" by (simp_all add: l_def)
  from h have uh: "uint (word_of_int h :: 16 word) = h"
    by (intro uint_word16) simp_all
  from l have ul: "uint (word_of_int l :: 16 word) = l"
    by (intro uint_word16) simp_all
  from False have "codeUnitsOf d = [word_of_int h, word_of_int l]"
    by (simp only: codeUnitsOf_def h_def l_def if_False)
  with uh ul h l show ?thesis
    by (simp add: word_le_def)
qed

lemma codeUnitsOf_small:
  assumes "0 \<le> d" "d < 0x10000"
  shows "codeUnitsOf d = [word_of_int d] \<and> uint (word_of_int d :: 16 word) = d"
  using assms by (simp add: codeUnitsOf_def uint_word_of_int)

lemma codeUnits_fact:
  assumes "ds \<noteq> []" and "\<forall>d \<in> set ds. P d"
    and "\<And>d. P d \<Longrightarrow> codeUnitsOf d \<noteq> [] \<and> (\<forall>u \<in> set (codeUnitsOf d). \<not> g u)"
  shows "codeUnits ds \<noteq> [] \<and> (\<forall>u \<in> set (codeUnits ds). \<not> g u)"
proof -
  from assms(1) obtain d ds' where "ds = d # ds'" by (cases ds) auto
  with assms(2,3) have "codeUnits ds \<noteq> []" by (simp add: codeUnits_def)
  moreover from assms(2,3) have "\<forall>u \<in> set (codeUnits ds). \<not> g u"
    by (auto simp: codeUnits_def)
  ultimately show ?thesis by simp
qed

lemma lower_unit_fact:
  assumes "(0x80 \<le> d \<or> d = 0x69 \<or> d = 0x6B) \<and> d \<le> 0x10FFFF"
  shows "codeUnitsOf d \<noteq> [] \<and> (\<forall>u \<in> set (codeUnitsOf d). \<not> plainUnit u)"
proof (cases "0x80 \<le> d")
  case True
  with assms codeUnitsOf_high [of d] show ?thesis
    by (auto simp: plainUnit_def)
next
  case False
  with assms have "d = 0x69 \<or> d = 0x6B" by simp
  then show ?thesis
    by (auto simp: codeUnitsOf_def plainUnit_def)
qed

lemma upper_unit_fact:
  assumes "0x41 \<le> d \<and> d \<le> 0x10FFFF"
  shows "codeUnitsOf d \<noteq> [] \<and> (\<forall>u \<in> set (codeUnitsOf d). \<not> u < 0x41)"
proof (cases "0x80 \<le> d")
  case True
  with assms codeUnitsOf_high [of d] show ?thesis
    by (auto simp: word_le_def word_less_def)
next
  case False
  with assms codeUnitsOf_small [of d] show ?thesis
    by (simp add: word_less_def)
qed

lemma asciiLower_low:
  assumes "x < 0x80"
  shows "codeUnits (lowerCP (uint x)) = [asciiLower x]"
proof -
  from assms have u: "uint x < 0x80" by (simp add: word_less_def)
  have r: "0 \<le> uint x" by simp
  show ?thesis
  proof (cases "0x41 \<le> x \<and> x \<le> 0x5A")
    case True
    then have ux: "0x41 \<le> uint x" "uint x \<le> 0x5A" by (simp_all add: word_le_def)
    then have "word_of_int (uint x + 0x20) = x + 0x20" by simp
    with True ux u show ?thesis
      by (simp add: codeUnits_def codeUnitsOf_def lowerCP_def asciiLower_def)
  next
    case False
    then have "\<not> (0x41 \<le> uint x \<and> uint x \<le> 0x5A)" by (simp add: word_le_def)
    with False u show ?thesis
      by (simp add: codeUnits_def codeUnitsOf_def lowerCP_def asciiLower_def)
  qed
qed

lemma asciiUpper_low:
  assumes "x < 0x80"
  shows "codeUnits (upperCP (uint x)) = [asciiUpper x]"
proof -
  from assms have u: "uint x < 0x80" by (simp add: word_less_def)
  show ?thesis
  proof (cases "0x61 \<le> x \<and> x \<le> 0x7A")
    case True
    then have ux: "0x61 \<le> uint x" "uint x \<le> 0x7A" by (simp_all add: word_le_def)
    then have "word_of_int (uint x - 0x20) = x - 0x20" by simp
    with True ux u show ?thesis
      by (simp add: codeUnits_def codeUnitsOf_def upperCP_def asciiUpper_def)
  next
    case False
    then have "\<not> (0x61 \<le> uint x \<and> uint x \<le> 0x7A)" by (simp add: word_le_def)
    with False u show ?thesis
      by (simp add: codeUnits_def codeUnitsOf_def upperCP_def asciiUpper_def)
  qed
qed

lemma asciiLower_high: "0x80 \<le> x \<Longrightarrow> asciiLower x = x"
  by (auto simp: asciiLower_def word_le_def)

lemma asciiUpper_high: "0x80 \<le> x \<Longrightarrow> asciiUpper x = x"
  by (auto simp: asciiUpper_def word_le_def)

lemma toLowerCase_skel: "skel plainUnit (toLowerCase s) (map asciiLower s)"
  unfolding toLowerCase_def lower_walk
proof (rule skel_walk)
  fix prev rest :: "int list" and x :: "16 word"
  assume x: "x < 0x80"
  then have "uint x \<noteq> 0x3A3" by (simp add: word_less_def)
  with asciiLower_low [OF x]
  show "codeUnits (if uint x = 0x3A3 then [if finalSigma prev rest then 0x3C2 else 0x3C3]
                   else lowerCP (uint x)) = [asciiLower x]"
    by simp
next
  fix prev rest :: "int list" and c :: int
  assume c: "0x80 \<le> c" "c \<le> 0x10FFFF"
  let ?ds = "if c = 0x3A3 then [if finalSigma prev rest then 0x3C2 else 0x3C3] else lowerCP c"
  have "?ds \<noteq> [] \<and> (\<forall>d \<in> set ?ds. (0x80 \<le> d \<or> d = 0x69 \<or> d = 0x6B) \<and> d \<le> 0x10FFFF)"
    using lowerCP_fact [OF c] by simp
  then show "codeUnits ?ds \<noteq> [] \<and> (\<forall>u \<in> set (codeUnits ?ds). \<not> plainUnit u)"
    using lower_unit_fact by (intro codeUnits_fact [where P = "\<lambda>d. (0x80 \<le> d \<or> d = 0x69 \<or> d = 0x6B) \<and> d \<le> 0x10FFFF"]) blast+
next
  fix x :: "16 word"
  assume "0x80 \<le> x"
  then show "asciiLower x = x" by (rule asciiLower_high)
next
  fix x :: "16 word"
  assume "0x80 \<le> x"
  then show "\<not> plainUnit x" by (auto simp: plainUnit_def word_le_def word_less_def)
qed

lemma toUpperCase_skel: "skel (\<lambda>u. u < 0x41) (toUpperCase s) (map asciiUpper s)"
  unfolding toUpperCase_def upper_walk [of _ "[]"]
proof (rule skel_walk)
  fix prev rest :: "int list" and x :: "16 word"
  assume x: "x < 0x80"
  then show "codeUnits (upperCP (uint x)) = [asciiUpper x]" by (rule asciiUpper_low)
next
  fix prev rest :: "int list" and c :: int
  assume c: "0x80 \<le> c" "c \<le> 0x10FFFF"
  from upperCP_fact [OF c]
  show "codeUnits (upperCP c) \<noteq> [] \<and> (\<forall>u \<in> set (codeUnits (upperCP c)). \<not> u < 0x41)"
    using upper_unit_fact by (intro codeUnits_fact [where P = "\<lambda>d. 0x41 \<le> d \<and> d \<le> 0x10FFFF"]) blast+
next
  fix x :: "16 word"
  assume "0x80 \<le> x"
  then show "asciiUpper x = x" by (rule asciiUpper_high)
next
  fix x :: "16 word"
  assume "0x80 \<le> x"
  then show "\<not> x < 0x41" by (simp add: word_le_def word_less_def)
qed

lemma toLowerCase_sublist:
  assumes "\<forall>x \<in> set p. plainUnit x" and "p \<noteq> []"
  shows "sublist p (toLowerCase s) = sublist p (map asciiLower s)"
  using skel_sublist [OF toLowerCase_skel assms] .

lemma asciiUpper_nl: "(asciiUpper c = 0xA) = (c = 0xA)"
  by (auto simp: asciiUpper_def word_le_nat_alt unat_sub word_unat_eq_iff)

lemma asciiLower_nl: "(asciiLower c = 0xA) = (c = 0xA)"
  by (auto simp: asciiLower_def word_le_nat_alt unat_word_ariths word_unat_eq_iff)

lemma toUpperCase_nl: "(0xA \<in> set (toUpperCase s)) = (0xA \<in> set s)"
proof -
  have "(0xA \<in> set (toUpperCase s)) = (0xA \<in> set (map asciiUpper s))"
    by (rule skel_member [OF toUpperCase_skel]) simp
  also have "\<dots> = (0xA \<in> set s)"
    using asciiUpper_nl by (auto simp: image_iff)
  finally show ?thesis .
qed

lemma toLowerCase_nl: "(0xA \<in> set (toLowerCase s)) = (0xA \<in> set s)"
proof -
  have "(0xA \<in> set (toLowerCase s)) = (0xA \<in> set (map asciiLower s))"
    by (rule skel_member [OF toLowerCase_skel]) (simp add: plainUnit_def)
  also have "\<dots> = (0xA \<in> set s)"
    using asciiLower_nl by (auto simp: image_iff)
  finally show ?thesis .
qed

subsection \<open>Railway PNR status\<close>

lemma startsWith_prefix: "startsWith s p = prefix p s"
  by (auto simp: startsWith_def prefix_def) (metis append_eq_conv_conj)

lemma isDigit_unat: "isDigit c \<longleftrightarrow> 48 \<le> unat c \<and> unat c \<le> 57"
  unfolding isDigit_def word_le_nat_alt by simp

lemma digit_literal_unat:
  "(c \<in> set (ascii ''0123456789'')) \<longleftrightarrow> unat c \<in> {48,49,50,51,52,53,54,55,56,57}"
  unfolding ascii_def by (simp add: word_unat_eq_iff)

lemma isDigit_set: "isDigit c = (c \<in> set (ascii ''0123456789''))"
  unfolding isDigit_unat digit_literal_unat by simp arith


lemma error_eq: "(e :: error) = TypeError"
  by (cases e) simp

lemma sequenceE_cases:
  "sequenceE xs = (if list_all (\<lambda>x. \<not> isl x) xs then Inr (map projr xs) else Inl TypeError)"
proof (induction xs)
  case Nil
  show ?case by simp
next
  case (Cons x xs)
  show ?case
  proof (cases x)
    case (Inl e)
    then show ?thesis by (simp add: error_eq [of e])
  next
    case (Inr a)
    with Cons show ?thesis by simp
  qed
qed

lemma template_cases:
  "template xs = (if list_all (\<lambda>x. \<not> isl x) xs then Inr (concat (map projr xs)) else Inl TypeError)"
  by (simp add: template_def sequenceE_cases)

lemma isr_toString: "(\<not> isl (toString v)) = convertible v"
  by (cases "toString v") (simp_all add: convertible_def)

lemma toString_cases:
  "toString v = (if convertible v then Inr (projr (toString v)) else Inl TypeError)"
proof (cases "toString v")
  case (Inl e)
  then show ?thesis by (simp add: convertible_def error_eq [of e])
next
  case (Inr s)
  then show ?thesis by (simp add: convertible_def)
qed

lemma isObjectValue_code: "isObjectValue v = (truthy v \<and> typeof v = TObject)"
  by (cases v) (auto simp: isObjectValue_def)

lemma isTenDigits_code: "isTenDigits v = (typeof v = TString \<and> re_digits10 (strOf v))"
  by (cases v) (auto simp: isTenDigits_def re_digits10_def list_all_iff isDigit_set)

lemma isNonEmptyArray_code: "isNonEmptyArray v = (isArray v \<and> length (elems v) \<noteq> 0)"
  by (cases v) (auto simp: isNonEmptyArray_def)

lemma processPassenger_cases:
  "processPassenger p =
     (if wellFormedPassenger p
      then Inr \<lparr> formattedName = padEnd (strOf (field p (ascii ''name''))) 20 @ ascii ''(''
                    @ projr (toString (field p (ascii ''age''))) @ ascii ''/''
                    @ projr (toString (field p (ascii ''gender''))) @ ascii '')'',
                 bookingStatus = field p (ascii ''booking''),
                 currentStatus = currentOf p,
                 statusLabel = specStatusLabel (currentOf p),
                 isConfirmed = (specStatusLabel (currentOf p) = ascii ''CONFIRMED'') \<rparr>
      else Inl TypeError)"
proof (cases p)
  case (Obj fs)
  show ?thesis
    unfolding processPassenger_def Let_def template_cases
    by (simp add: Obj wellFormedPassenger_def isr_toString specStatusLabel_def currentOf_def
        startsWith_prefix)
qed (simp_all add: processPassenger_def wellFormedPassenger_def)

lemma processPassenger_label:
  "processPassenger p = Inr q \<Longrightarrow> statusLabel q = specStatusLabel (currentOf p)"
  unfolding processPassenger_cases by (cases "wellFormedPassenger p") auto

lemma processPassenger_isConfirmed:
  "processPassenger p = Inr q \<Longrightarrow> isConfirmed q = (statusLabel q = ascii ''CONFIRMED'')"
  unfolding processPassenger_cases by (cases "wellFormedPassenger p") auto

lemma processPassenger_current:
  "typeof (field p (ascii ''current'')) \<noteq> TString \<Longrightarrow> processPassenger p = Inl TypeError"
  by (auto simp: processPassenger_def Let_def)

lemma mapPassengers_Inr:
  "mapPassengers ps = Inr qs \<Longrightarrow> list_all2 (\<lambda>p q. processPassenger p = Inr q) ps qs"
  by (induction ps arbitrary: qs) (auto split: sum.splits)

lemma mapPassengers_throws:
  "\<exists>p \<in> set ps. processPassenger p = Inl TypeError \<Longrightarrow> mapPassengers ps = Inl TypeError"
proof (induction ps)
  case Nil
  then show ?case by simp
next
  case (Cons p ps)
  show ?case
  proof (cases "processPassenger p")
    case (Inl e)
    then show ?thesis by (cases e) simp
  next
    case (Inr q)
    with Cons have "mapPassengers ps = Inl TypeError" by auto
    with Inr show ?thesis by simp
  qed
qed


lemma mapPassengers_cases:
  "mapPassengers ps =
     (if list_all wellFormedPassenger ps then Inr (map (\<lambda>p. projr (processPassenger p)) ps)
      else Inl TypeError)"
proof (induction ps)
  case Nil
  show ?case by simp
next
  case (Cons p ps)
  then show ?case
    by (cases "wellFormedPassenger p") (simp_all add: processPassenger_cases)
qed

lemma processRailwayPNR_invalid:
  "\<not> structurallyValid d \<Longrightarrow> processRailwayPNR d = Inr None"
  by (auto simp: processRailwayPNR_def structurallyValid_def Let_def isObjectValue_code isTenDigits_code isNonEmptyArray_code)

lemma trainInfo_cases:
  "list_all (\<lambda>x. \<not> isl x) [Inr a, toString (field (field d (ascii ''train'')) (ascii ''number'')),
                 Inr b, toString (field (field d (ascii ''train'')) (ascii ''name'')),
                 Inr c, toString (field (field d (ascii ''train'')) (ascii ''from'')),
                 Inr e, toString (field (field d (ascii ''train'')) (ascii ''to'')),
                 Inr f, toString (field d (ascii ''classBooked''))]
   = trainInfoConvertible d"
  by (simp add: trainInfoConvertible_def isr_toString)

lemma structurallyValid_checks:
  assumes "structurallyValid d"
  shows "\<not> (\<not> truthy d \<or> typeof d \<noteq> TObject)"
     "\<not> (typeof (field d (ascii ''pnr'')) \<noteq> TString \<or> \<not> re_digits10 (strOf (field d (ascii ''pnr''))))"
     "\<not> (\<not> truthy (field d (ascii ''train'')) \<or> typeof (field d (ascii ''train'')) \<noteq> TObject)"
     "\<not> (\<not> isArray (field d (ascii ''passengers'')) \<or> length (elems (field d (ascii ''passengers''))) = 0)"
  using assms
  by (simp_all add: structurallyValid_def isObjectValue_code isTenDigits_code isNonEmptyArray_code)

lemma processRailwayPNR_valid:
  assumes "structurallyValid d"
  shows "processRailwayPNR d =
     (if trainInfoConvertible d then
        (case mapPassengers (elems (field d (ascii ''passengers''))) of
           Inl e \<Rightarrow> Inl e
         | Inr qs \<Rightarrow>
            Inr (Some \<lparr> pnrFormatted = slice (strOf (field d (ascii ''pnr''))) 0 3 @ ascii ''-''
                            @ slice (strOf (field d (ascii ''pnr''))) 3 6 @ ascii ''-''
                            @ sliceFrom (strOf (field d (ascii ''pnr''))) 6,
                         trainInfo = concat (map projr
                           [Inr (ascii ''Train: ''),
                            toString (field (field d (ascii ''train'')) (ascii ''number'')),
                            Inr (ascii '' - ''),
                            toString (field (field d (ascii ''train'')) (ascii ''name'')),
                            Inr (ascii '' | ''),
                            toString (field (field d (ascii ''train'')) (ascii ''from'')),
                            Inr (ascii '' '' @ rightArrow @ ascii '' ''),
                            toString (field (field d (ascii ''train'')) (ascii ''to'')),
                            Inr (ascii '' | Class: ''),
                            toString (field d (ascii ''classBooked''))]),
                         passengers = qs,
                         summary = \<lparr> totalPassengers = length qs,
                            confirmed = length (filter (\<lambda>p. statusLabel p = ascii ''CONFIRMED'') qs),
                            waiting = length (filter (\<lambda>p. statusLabel p = ascii ''WAITING'') qs),
                            cancelled = length (filter (\<lambda>p. statusLabel p = ascii ''CANCELLED'') qs),
                            rac = length (filter (\<lambda>p. statusLabel p = ascii ''RAC'') qs),
                            allConfirmed = list_all (\<lambda>p. statusLabel p = ascii ''CONFIRMED''
                                                     \<or> statusLabel p = ascii ''CANCELLED'') qs,
                            anyWaiting = list_ex (\<lambda>p. statusLabel p = ascii ''WAITING'') qs \<rparr>,
                         chartPrepared = list_all (\<lambda>p. statusLabel p = ascii ''CONFIRMED''
                                                     \<or> statusLabel p = ascii ''CANCELLED'') qs \<rparr>))
      else Inl TypeError)"
  unfolding processRailwayPNR_def Let_def if_not_P [OF structurallyValid_checks(1) [OF assms]]
    if_not_P [OF structurallyValid_checks(2) [OF assms]]
    if_not_P [OF structurallyValid_checks(3) [OF assms]]
    if_not_P [OF structurallyValid_checks(4) [OF assms]]
    template_cases trainInfo_cases
  by (cases "trainInfoConvertible d") (simp_all only: if_True if_False sum.case)

lemma processRailwayPNR_throws:
  assumes "structurallyValid d"
    and "mapPassengers (elems (field d (ascii ''passengers''))) = Inl TypeError"
  shows "processRailwayPNR d = Inl TypeError"
  unfolding processRailwayPNR_valid [OF assms(1)] assms(2) by simp

lemma processRailwayPNR_report:
  assumes "processRailwayPNR d = Inr (Some r)"
  shows "structurallyValid d"
    and "mapPassengers (elems (field d (ascii ''passengers''))) = Inr (passengers r)"
    and "totalPassengers (summary r) = length (passengers r)"
    and "confirmed (summary r) = length (filter (\<lambda>p. statusLabel p = ascii ''CONFIRMED'') (passengers r))"
    and "waiting (summary r) = length (filter (\<lambda>p. statusLabel p = ascii ''WAITING'') (passengers r))"
    and "cancelled (summary r) = length (filter (\<lambda>p. statusLabel p = ascii ''CANCELLED'') (passengers r))"
    and "rac (summary r) = length (filter (\<lambda>p. statusLabel p = ascii ''RAC'') (passengers r))"
    and "allConfirmed (summary r) = list_all (\<lambda>p. statusLabel p = ascii ''CONFIRMED'' \<or> statusLabel p = ascii ''CANCELLED'') (passengers r)"
    and "anyWaiting (summary r) = list_ex (\<lambda>p. statusLabel p = ascii ''WAITING'') (passengers r)"
    and "chartPrepared r = list_all (\<lambda>p. statusLabel p = ascii ''CONFIRMED'' \<or> statusLabel p = ascii ''CANCELLED'') (passengers r)"
proof -
  show sv: "structurallyValid d"
  proof (rule ccontr)
    assume "\<not> structurallyValid d"
    from processRailwayPNR_invalid [OF this] assms show False by simp
  qed
  note v = assms [unfolded processRailwayPNR_valid [OF sv]]
  have tc: "trainInfoConvertible d"
  proof (rule ccontr)
    assume "\<not> trainInfoConvertible d"
    with v show False by simp
  qed
  obtain qs where qs: "mapPassengers (elems (field d (ascii ''passengers''))) = Inr qs"
  proof (cases "mapPassengers (elems (field d (ascii ''passengers'')))")
    case (Inl e)
    with v tc show ?thesis by simp
  next
    case (Inr qs)
    with that show ?thesis .
  qed
  note r = v [unfolded if_P [OF tc] qs sum.case]
  from r show "mapPassengers (elems (field d (ascii ''passengers''))) = Inr (passengers r)"
    using qs by auto
  from r show "totalPassengers (summary r) = length (passengers r)" by auto
  from r show "confirmed (summary r) = length (filter (\<lambda>p. statusLabel p = ascii ''CONFIRMED'') (passengers r))" by auto
  from r show "waiting (summary r) = length (filter (\<lambda>p. statusLabel p = ascii ''WAITING'') (passengers r))" by auto
  from r show "cancelled (summary r) = length (filter (\<lambda>p. statusLabel p = ascii ''CANCELLED'') (passengers r))" by auto
  from r show "rac (summary r) = length (filter (\<lambda>p. statusLabel p = ascii ''RAC'') (passengers r))" by auto
  from r show "allConfirmed (summary r) = list_all (\<lambda>p. statusLabel p = ascii ''CONFIRMED'' \<or> statusLabel p = ascii ''CANCELLED'') (passengers r)" by auto
  from r show "anyWaiting (summary r) = list_ex (\<lambda>p. statusLabel p = ascii ''WAITING'') (passengers r)" by auto
  from r show "chartPrepared r = list_all (\<lambda>p. statusLabel p = ascii ''CONFIRMED'' \<or> statusLabel p = ascii ''CANCELLED'') (passengers r)" by auto
qed

lemma processRailwayPNR_outcome:
  assumes "structurallyValid d"
  shows "if trainInfoConvertible d
            \<and> list_all wellFormedPassenger (elems (field d (ascii ''passengers'')))
         then \<exists>r. processRailwayPNR d = Inr (Some r)
         else processRailwayPNR d = Inl TypeError"
  unfolding processRailwayPNR_valid [OF assms] mapPassengers_cases
  by (simp del: split_paired_Ex)

lemma processRailwayPNR_report_exists:
  assumes "structurallyValid d"
    and "trainInfoConvertible d"
    and "\<forall>p \<in> set (elems (field d (ascii ''passengers''))). wellFormedPassenger p"
  shows "\<exists>r. processRailwayPNR d = Inr (Some r)"
  using processRailwayPNR_outcome [OF assms(1)] assms(2,3) by (simp add: list_all_iff)

lemma map_statusLabel:
  "mapPassengers ps = Inr qs \<Longrightarrow> map statusLabel qs = map (\<lambda>p. specStatusLabel (currentOf p)) ps"
  by (induction ps arbitrary: qs) (auto split: sum.splits simp: processPassenger_label)


lemma valid_confirmedCancelled:
  "structurallyValid pnrConfirmedCancelled \<and> trainInfoConvertible pnrConfirmedCancelled \<and>
   (\<forall>p \<in> set (elems (field pnrConfirmedCancelled (ascii ''passengers''))). wellFormedPassenger p)"
  by code_simp

lemma label_distinct:
  "ascii ''CONFIRMED'' \<noteq> ascii ''WAITING''" "ascii ''CONFIRMED'' \<noteq> ascii ''CANCELLED''"
  "ascii ''CONFIRMED'' \<noteq> ascii ''RAC''" "ascii ''WAITING'' \<noteq> ascii ''CANCELLED''"
  "ascii ''WAITING'' \<noteq> ascii ''RAC''" "ascii ''CANCELLED'' \<noteq> ascii ''RAC''"
  "ascii ''CONFIRMED'' \<noteq> []" "ascii ''WAITING'' \<noteq> []" "ascii ''CANCELLED'' \<noteq> []"
  "ascii ''RAC'' \<noteq> []"
  by (simp_all add: ascii_def)

text \<open>
  Claim C3. Whenever \<open>processRailwayPNR\<close> returns a report, \<open>summary.allConfirmed\<close> and
  \<open>chartPrepared\<close> are the same value, true exactly when the label of every processed
  passenger is CONFIRMED or CANCELLED (so a list of only CONFIRMED and CANCELLED passengers
  gives \<open>allConfirmed = true\<close>), and \<open>summary.anyWaiting\<close> is true exactly when some
  processed passenger has the label WAITING. The labels are those the status rules give
  to the \<open>current\<close> fields of the input passengers, in order.
\<close>

theorem pnr_allConfirmed_chartPrepared_anyWaiting:
  assumes "processRailwayPNR pnrData = Inr (Some r)"
  shows "allConfirmed (summary r) = chartPrepared r
    \<and> chartPrepared r = (\<forall>p \<in> set (passengers r).
          statusLabel p = ascii ''CONFIRMED'' \<or> statusLabel p = ascii ''CANCELLED'')
    \<and> anyWaiting (summary r) = (\<exists>p \<in> set (passengers r). statusLabel p = ascii ''WAITING'')
    \<and> map statusLabel (passengers r)
        = map (\<lambda>x. specStatusLabel (currentOf x)) (elems (field pnrData (ascii ''passengers'')))
    \<and> ((\<forall>p \<in> set (passengers r).
           statusLabel p = ascii ''CONFIRMED'' \<or> statusLabel p = ascii ''CANCELLED'')
         \<longrightarrow> allConfirmed (summary r))"
proof -
  note rep = processRailwayPNR_report [OF assms]
  have 1: "allConfirmed (summary r) = chartPrepared r"
    using rep(8) rep(10) by simp
  have 2: "chartPrepared r = (\<forall>p \<in> set (passengers r).
          statusLabel p = ascii ''CONFIRMED'' \<or> statusLabel p = ascii ''CANCELLED'')"
    using rep(10) by (simp add: list_all_iff)
  have 3: "anyWaiting (summary r) = (\<exists>p \<in> set (passengers r). statusLabel p = ascii ''WAITING'')"
    using rep(9) by (simp add: list_ex_iff)
  have 4: "map statusLabel (passengers r)
        = map (\<lambda>x. specStatusLabel (currentOf x)) (elems (field pnrData (ascii ''passengers'')))"
    using map_statusLabel [OF rep(2)] .
  from 1 2 3 4 show ?thesis by simp
qed

theorem pnr_allConfirmed_chartPrepared_anyWaiting_witness:
  "\<exists>r. processRailwayPNR pnrConfirmedCancelled = Inr (Some r)
     \<and> map statusLabel (passengers r) = [ascii ''CONFIRMED'', ascii ''CANCELLED'']
     \<and> allConfirmed (summary r) \<and> chartPrepared r \<and> \<not> anyWaiting (summary r)"
proof -
  obtain r where r: "processRailwayPNR pnrConfirmedCancelled = Inr (Some r)"
    using processRailwayPNR_report_exists [OF conjunct1 [OF valid_confirmedCancelled]
        conjunct1 [OF conjunct2 [OF valid_confirmedCancelled]]
        conjunct2 [OF conjunct2 [OF valid_confirmedCancelled]]] ..
  have ps: "map (\<lambda>x. specStatusLabel (currentOf x))
              (elems (field pnrConfirmedCancelled (ascii ''passengers'')))
            = [ascii ''CONFIRMED'', ascii ''CANCELLED'']"
    by code_simp
  note t = pnr_allConfirmed_chartPrepared_anyWaiting [OF r, unfolded ps]
  from t have l: "map statusLabel (passengers r) = [ascii ''CONFIRMED'', ascii ''CANCELLED'']"
    by (rule conjunct1 [OF conjunct2 [OF conjunct2 [OF conjunct2]]])
  have m: "\<And>p. p \<in> set (passengers r) \<Longrightarrow>
             statusLabel p = ascii ''CONFIRMED'' \<or> statusLabel p = ascii ''CANCELLED''"
  proof -
    fix p assume "p \<in> set (passengers r)"
    then have "statusLabel p \<in> set (map statusLabel (passengers r))" by simp
    then show "statusLabel p = ascii ''CONFIRMED'' \<or> statusLabel p = ascii ''CANCELLED''"
      unfolding l by simp
  qed
  have a: "\<forall>p \<in> set (passengers r).
          statusLabel p = ascii ''CONFIRMED'' \<or> statusLabel p = ascii ''CANCELLED''"
    using m by (rule ballI)
  have w: "\<not> (\<exists>p \<in> set (passengers r). statusLabel p = ascii ''WAITING'')"
  proof
    assume "\<exists>p \<in> set (passengers r). statusLabel p = ascii ''WAITING''"
    then obtain p where "p \<in> set (passengers r)" "statusLabel p = ascii ''WAITING''" ..
    with m [of p] label_distinct(1,4) show False by simp
  qed
  from t a w have "allConfirmed (summary r) \<and> chartPrepared r \<and> \<not> anyWaiting (summary r)"
    by simp
  with l r show ?thesis by (intro exI [of _ r]) simp
qed

lemma filter_remove_nth:
  "i < length qs \<Longrightarrow> \<not> P (qs ! i) \<Longrightarrow> filter P qs = filter P (take i qs @ drop (Suc i) qs)"
proof -
  assume a: "i < length qs" "\<not> P (qs ! i)"
  have "filter P qs = filter P (take i qs @ qs ! i # drop (Suc i) qs)"
    using a(1) by (simp add: id_take_nth_drop [symmetric])
  also have "\<dots> = filter P (take i qs @ drop (Suc i) qs)"
    using a(2) by simp
  finally show ?thesis .
qed

lemma four_buckets_le:
  assumes "\<And>x. \<not> (A x \<and> B x)" "\<And>x. \<not> (A x \<and> C x)" "\<And>x. \<not> (A x \<and> D x)"
    "\<And>x. \<not> (B x \<and> C x)" "\<And>x. \<not> (B x \<and> D x)" "\<And>x. \<not> (C x \<and> D x)"
  shows "length (filter A xs) + length (filter B xs) + length (filter C xs) + length (filter D xs)
         \<le> length xs"
proof (induction xs)
  case Nil
  show ?case by simp
next
  case (Cons x xs)
  from assms [of x] Cons show ?case by auto
qed

lemma specStatusLabel_none:
  assumes "\<not> prefix (ascii ''B'') c" "\<not> prefix (ascii ''S'') c" "\<not> prefix (ascii ''WL'') c"
    "\<not> prefix (ascii ''RAC'') c" "c \<noteq> ascii ''CAN''"
  shows "specStatusLabel c = []"
  using assms by (simp add: specStatusLabel_def)

text \<open>
  Claim C4. In a report, a passenger whose \<open>current\<close> starts with none of B, S, WL, RAC
  and is not CAN has the empty status label and is not confirmed; each of the four counts
  confirmed, waiting, cancelled and rac is the count over the other passengers, so the four
  together stay below \<open>totalPassengers\<close>; and \<open>allConfirmed\<close> and \<open>chartPrepared\<close> are
  both false.
\<close>

theorem pnr_unmatched_current:
  assumes "processRailwayPNR pnrData = Inr (Some r)"
    and "i < length (elems (field pnrData (ascii ''passengers'')))"
    and "c = currentOf (elems (field pnrData (ascii ''passengers'')) ! i)"
    and "\<not> prefix (ascii ''B'') c" and "\<not> prefix (ascii ''S'') c"
    and "\<not> prefix (ascii ''WL'') c" and "\<not> prefix (ascii ''RAC'') c"
    and "c \<noteq> ascii ''CAN''"
  shows "statusLabel (passengers r ! i) = []
    \<and> \<not> isConfirmed (passengers r ! i)
    \<and> confirmed (summary r)
        = length (filter (\<lambda>p. statusLabel p = ascii ''CONFIRMED'')
                    (take i (passengers r) @ drop (Suc i) (passengers r)))
    \<and> waiting (summary r)
        = length (filter (\<lambda>p. statusLabel p = ascii ''WAITING'')
                    (take i (passengers r) @ drop (Suc i) (passengers r)))
    \<and> cancelled (summary r)
        = length (filter (\<lambda>p. statusLabel p = ascii ''CANCELLED'')
                    (take i (passengers r) @ drop (Suc i) (passengers r)))
    \<and> rac (summary r)
        = length (filter (\<lambda>p. statusLabel p = ascii ''RAC'')
                    (take i (passengers r) @ drop (Suc i) (passengers r)))
    \<and> confirmed (summary r) + waiting (summary r) + cancelled (summary r) + rac (summary r)
        < totalPassengers (summary r)
    \<and> \<not> allConfirmed (summary r)
    \<and> \<not> chartPrepared r"
proof -
  let ?ps = "elems (field pnrData (ascii ''passengers''))"
  let ?qs = "passengers r"
  let ?rest = "take i ?qs @ drop (Suc i) ?qs"
  note rep = processRailwayPNR_report [OF assms(1)]
  have all2: "list_all2 (\<lambda>p q. processPassenger p = Inr q) ?ps ?qs"
    using mapPassengers_Inr [OF rep(2)] .
  then have len: "length ?qs = length ?ps"
    by (simp add: list_all2_lengthD)
  with assms(2) have i: "i < length ?qs" by simp
  have pq: "processPassenger (?ps ! i) = Inr (?qs ! i)"
    using list_all2_nthD [OF all2 assms(2)] .
  have lab: "statusLabel (?qs ! i) = []"
    using processPassenger_label [OF pq] assms(3-8) specStatusLabel_none by simp
  have conf: "\<not> isConfirmed (?qs ! i)"
    using processPassenger_isConfirmed [OF pq] lab label_distinct by simp
  have not_in:
    "\<not> statusLabel (?qs ! i) = ascii ''CONFIRMED''" "\<not> statusLabel (?qs ! i) = ascii ''WAITING''"
    "\<not> statusLabel (?qs ! i) = ascii ''CANCELLED''" "\<not> statusLabel (?qs ! i) = ascii ''RAC''"
    using lab label_distinct by simp_all
  have c1: "confirmed (summary r) = length (filter (\<lambda>p. statusLabel p = ascii ''CONFIRMED'') ?rest)"
    using rep(4) filter_remove_nth [of i "passengers r" "\<lambda>p. statusLabel p = ascii ''CONFIRMED''"] i not_in(1) by simp
  have c2: "waiting (summary r) = length (filter (\<lambda>p. statusLabel p = ascii ''WAITING'') ?rest)"
    using rep(5) filter_remove_nth [of i "passengers r" "\<lambda>p. statusLabel p = ascii ''WAITING''"] i not_in(2) by simp
  have c3: "cancelled (summary r) = length (filter (\<lambda>p. statusLabel p = ascii ''CANCELLED'') ?rest)"
    using rep(6) filter_remove_nth [of i "passengers r" "\<lambda>p. statusLabel p = ascii ''CANCELLED''"] i not_in(3) by simp
  have c4: "rac (summary r) = length (filter (\<lambda>p. statusLabel p = ascii ''RAC'') ?rest)"
    using rep(7) filter_remove_nth [of i "passengers r" "\<lambda>p. statusLabel p = ascii ''RAC''"] i not_in(4) by simp
  have "length (filter (\<lambda>p. statusLabel p = ascii ''CONFIRMED'') ?rest)
        + length (filter (\<lambda>p. statusLabel p = ascii ''WAITING'') ?rest)
        + length (filter (\<lambda>p. statusLabel p = ascii ''CANCELLED'') ?rest)
        + length (filter (\<lambda>p. statusLabel p = ascii ''RAC'') ?rest) \<le> length ?rest"
    by (rule four_buckets_le) (use label_distinct in auto)
  moreover have "length ?rest < length ?qs"
    using i by simp
  ultimately have lt: "confirmed (summary r) + waiting (summary r) + cancelled (summary r)
        + rac (summary r) < totalPassengers (summary r)"
    using c1 c2 c3 c4 rep(3) by simp
  have mem: "?qs ! i \<in> set ?qs"
    using i by simp
  have nall: "\<not> list_all (\<lambda>p. statusLabel p = ascii ''CONFIRMED'' \<or> statusLabel p = ascii ''CANCELLED'') ?qs"
    using mem not_in by (auto simp: list_all_iff)
  have a: "\<not> allConfirmed (summary r)" using rep(8) nall by simp
  have b: "\<not> chartPrepared r" using rep(10) nall by simp
  from lab conf c1 c2 c3 c4 lt a b show ?thesis by simp
qed


lemma valid_unknownStatus:
  "structurallyValid pnrUnknownStatus \<and> trainInfoConvertible pnrUnknownStatus \<and>
   (\<forall>p \<in> set (elems (field pnrUnknownStatus (ascii ''passengers''))). wellFormedPassenger p)"
  by code_simp

theorem pnr_unmatched_current_witness:
  "\<exists>r. processRailwayPNR pnrUnknownStatus = Inr (Some r)
     \<and> currentOf (elems (field pnrUnknownStatus (ascii ''passengers'')) ! 1) = ascii ''XYZ''
     \<and> statusLabel (passengers r ! 1) = []
     \<and> \<not> isConfirmed (passengers r ! 1)
     \<and> confirmed (summary r) + waiting (summary r) + cancelled (summary r) + rac (summary r)
        < totalPassengers (summary r)
     \<and> \<not> allConfirmed (summary r) \<and> \<not> chartPrepared r"
proof -
  obtain r where r: "processRailwayPNR pnrUnknownStatus = Inr (Some r)"
    using processRailwayPNR_report_exists [OF conjunct1 [OF valid_unknownStatus]
        conjunct1 [OF conjunct2 [OF valid_unknownStatus]]
        conjunct2 [OF conjunct2 [OF valid_unknownStatus]]] ..
  have i: "1 < length (elems (field pnrUnknownStatus (ascii ''passengers'')))"
    by code_simp
  have c: "ascii ''XYZ'' = currentOf (elems (field pnrUnknownStatus (ascii ''passengers'')) ! 1)"
    by code_simp
  have n: "\<not> prefix (ascii ''B'') (ascii ''XYZ'')" "\<not> prefix (ascii ''S'') (ascii ''XYZ'')"
    "\<not> prefix (ascii ''WL'') (ascii ''XYZ'')" "\<not> prefix (ascii ''RAC'') (ascii ''XYZ'')"
    "ascii ''XYZ'' \<noteq> ascii ''CAN''"
    by (simp_all add: ascii_def)
  from pnr_unmatched_current [OF r i c n] c r show ?thesis
    by (intro exI [of _ r]) simp
qed


text \<open>
  Claim C5. \<open>processRailwayPNR\<close> returns \<open>null\<close> when the input is not an object, when
  \<open>pnr\<close> is not a string of exactly ten decimal digits, when \<open>train\<close> is not an object,
  or when \<open>passengers\<close> is not a non-empty array, each condition on its own. When all four
  conditions are met, it returns a report exactly when the four fields of \<open>train\<close> and
  \<open>classBooked\<close> can be converted to strings and every passenger is a record whose
  \<open>name\<close> and \<open>current\<close> are strings and whose \<open>age\<close> and \<open>gender\<close> can be converted
  to strings; otherwise it throws a type error.
\<close>

theorem processRailwayPNR_null_or_report:
  "(\<not> isObjectValue pnrData \<longrightarrow> processRailwayPNR pnrData = Inr None)
   \<and> (\<not> isTenDigits (field pnrData (ascii ''pnr'')) \<longrightarrow> processRailwayPNR pnrData = Inr None)
   \<and> (\<not> isObjectValue (field pnrData (ascii ''train'')) \<longrightarrow> processRailwayPNR pnrData = Inr None)
   \<and> (\<not> isNonEmptyArray (field pnrData (ascii ''passengers''))
        \<longrightarrow> processRailwayPNR pnrData = Inr None)
   \<and> (isObjectValue pnrData \<and> isTenDigits (field pnrData (ascii ''pnr''))
        \<and> isObjectValue (field pnrData (ascii ''train''))
        \<and> isNonEmptyArray (field pnrData (ascii ''passengers''))
        \<longrightarrow> (if trainInfoConvertible pnrData
                  \<and> (\<forall>p \<in> set (elems (field pnrData (ascii ''passengers''))). wellFormedPassenger p)
               then \<exists>r. processRailwayPNR pnrData = Inr (Some r)
               else processRailwayPNR pnrData = Inl TypeError))"
proof -
  have inv: "\<not> structurallyValid pnrData \<Longrightarrow> processRailwayPNR pnrData = Inr None"
    by (rule processRailwayPNR_invalid)
  have 1: "\<not> isObjectValue pnrData \<longrightarrow> processRailwayPNR pnrData = Inr None"
    using inv by (simp add: structurallyValid_def)
  have 2: "\<not> isTenDigits (field pnrData (ascii ''pnr'')) \<longrightarrow> processRailwayPNR pnrData = Inr None"
    using inv by (simp add: structurallyValid_def)
  have 3: "\<not> isObjectValue (field pnrData (ascii ''train'')) \<longrightarrow> processRailwayPNR pnrData = Inr None"
    using inv by (simp add: structurallyValid_def)
  have 4: "\<not> isNonEmptyArray (field pnrData (ascii ''passengers''))
        \<longrightarrow> processRailwayPNR pnrData = Inr None"
    using inv by (simp add: structurallyValid_def)
  have 5: "isObjectValue pnrData \<and> isTenDigits (field pnrData (ascii ''pnr''))
        \<and> isObjectValue (field pnrData (ascii ''train''))
        \<and> isNonEmptyArray (field pnrData (ascii ''passengers''))
        \<longrightarrow> (if trainInfoConvertible pnrData
                  \<and> (\<forall>p \<in> set (elems (field pnrData (ascii ''passengers''))). wellFormedPassenger p)
               then \<exists>r. processRailwayPNR pnrData = Inr (Some r)
               else processRailwayPNR pnrData = Inl TypeError)"
  proof
    assume "isObjectValue pnrData \<and> isTenDigits (field pnrData (ascii ''pnr''))
        \<and> isObjectValue (field pnrData (ascii ''train''))
        \<and> isNonEmptyArray (field pnrData (ascii ''passengers''))"
    then have "structurallyValid pnrData"
      by (simp add: structurallyValid_def)
    from processRailwayPNR_outcome [OF this]
    show "if trainInfoConvertible pnrData
                  \<and> (\<forall>p \<in> set (elems (field pnrData (ascii ''passengers''))). wellFormedPassenger p)
               then \<exists>r. processRailwayPNR pnrData = Inr (Some r)
               else processRailwayPNR pnrData = Inl TypeError"
      by (simp only: list_all_iff)
  qed
  from 1 2 3 4 5 show ?thesis by (intro conjI)
qed

theorem processRailwayPNR_null_or_report_witness:
  "processRailwayPNR Null = Inr None
   \<and> processRailwayPNR (examplePNR (Str (ascii ''12345'')) exampleTrain
        (Arr [examplePassenger ''Rahul'' ''B1'' ''B1''])) = Inr None
   \<and> processRailwayPNR (examplePNR (Str (ascii ''1234567890'')) Undefined
        (Arr [examplePassenger ''Rahul'' ''B1'' ''B1''])) = Inr None
   \<and> processRailwayPNR (examplePNR (Str (ascii ''1234567890'')) exampleTrain (Arr [])) = Inr None
   \<and> (\<exists>r. processRailwayPNR pnrConfirmedCancelled = Inr (Some r))
   \<and> processRailwayPNR pnrMissingCurrent = Inl TypeError"
proof -
  note t = processRailwayPNR_null_or_report
  have 1: "\<not> isObjectValue Null"
    by code_simp
  have 2: "\<not> isTenDigits (field (examplePNR (Str (ascii ''12345'')) exampleTrain
        (Arr [examplePassenger ''Rahul'' ''B1'' ''B1''])) (ascii ''pnr''))"
    by code_simp
  have 3: "\<not> isObjectValue (field (examplePNR (Str (ascii ''1234567890'')) Undefined
        (Arr [examplePassenger ''Rahul'' ''B1'' ''B1''])) (ascii ''train''))"
    by code_simp
  have 4: "\<not> isNonEmptyArray (field (examplePNR (Str (ascii ''1234567890'')) exampleTrain (Arr []))
        (ascii ''passengers''))"
    by code_simp
  have 5: "isObjectValue pnrConfirmedCancelled \<and> isTenDigits (field pnrConfirmedCancelled (ascii ''pnr''))
        \<and> isObjectValue (field pnrConfirmedCancelled (ascii ''train''))
        \<and> isNonEmptyArray (field pnrConfirmedCancelled (ascii ''passengers''))"
    by code_simp
  have 6: "trainInfoConvertible pnrConfirmedCancelled
        \<and> (\<forall>p \<in> set (elems (field pnrConfirmedCancelled (ascii ''passengers''))). wellFormedPassenger p)"
    by code_simp
  have 7: "isObjectValue pnrMissingCurrent \<and> isTenDigits (field pnrMissingCurrent (ascii ''pnr''))
        \<and> isObjectValue (field pnrMissingCurrent (ascii ''train''))
        \<and> isNonEmptyArray (field pnrMissingCurrent (ascii ''passengers''))"
    by code_simp
  have 8: "\<not> (trainInfoConvertible pnrMissingCurrent
        \<and> (\<forall>p \<in> set (elems (field pnrMissingCurrent (ascii ''passengers''))). wellFormedPassenger p))"
    by code_simp
  note a = mp [OF conjunct1 [OF t] 1]
  note b = mp [OF conjunct1 [OF conjunct2 [OF t]] 2]
  note c = mp [OF conjunct1 [OF conjunct2 [OF conjunct2 [OF t]]] 3]
  note d = mp [OF conjunct1 [OF conjunct2 [OF conjunct2 [OF conjunct2 [OF t]]]] 4]
  note e = mp [OF conjunct2 [OF conjunct2 [OF conjunct2 [OF conjunct2 [OF t]]]] 5,
               unfolded if_P [OF 6]]
  note f = mp [OF conjunct2 [OF conjunct2 [OF conjunct2 [OF conjunct2 [OF t]]]] 7,
               unfolded if_not_P [OF 8]]
  from a b c d e f show ?thesis by (intro conjI)
qed

text \<open>
  The input that refutes claim C5 as the spec words it: the documented example with
  \<open>classBooked: {toString: null}\<close> meets the four conditions and its one passenger is the
  documented one, yet the call throws a type error where the train line is built.
\<close>

theorem processRailwayPNR_class_object_counterexample:
  "isObjectValue pnrClassObject \<and> isTenDigits (field pnrClassObject (ascii ''pnr''))
   \<and> isObjectValue (field pnrClassObject (ascii ''train''))
   \<and> isNonEmptyArray (field pnrClassObject (ascii ''passengers''))
   \<and> list_all wellFormedPassenger (elems (field pnrClassObject (ascii ''passengers'')))
   \<and> processRailwayPNR pnrClassObject = Inl TypeError"
  by code_simp

text \<open>
  Claim C8. The fields of the passengers are not validated: on an input that passes the
  checks of \<open>pnr\<close>, \<open>train\<close> and \<open>passengers\<close> and has a passenger whose \<open>current\<close>
  is not a string (missing, for example), the call throws a type error; it returns neither
  \<open>null\<close> nor a report.
\<close>

theorem processRailwayPNR_passenger_type_error:
  assumes "structurallyValid pnrData"
    and "x \<in> set (elems (field pnrData (ascii ''passengers'')))"
    and "typeof (field x (ascii ''current'')) \<noteq> TString"
  shows "processRailwayPNR pnrData = Inl TypeError"
proof -
  have "processPassenger x = Inl TypeError"
    using assms(3) by (rule processPassenger_current)
  with assms(2) have "mapPassengers (elems (field pnrData (ascii ''passengers''))) = Inl TypeError"
    using mapPassengers_throws by blast
  with assms(1) show ?thesis
    by (rule processRailwayPNR_throws)
qed

theorem processRailwayPNR_passenger_type_error_witness:
  "structurallyValid pnrMissingCurrent
   \<and> field (hd (elems (field pnrMissingCurrent (ascii ''passengers'')))) (ascii ''current'') = Undefined
   \<and> processRailwayPNR pnrMissingCurrent = Inl TypeError"
proof -
  have 1: "structurallyValid pnrMissingCurrent"
    by code_simp
  have 2: "hd (elems (field pnrMissingCurrent (ascii ''passengers'')))
             \<in> set (elems (field pnrMissingCurrent (ascii ''passengers'')))"
    by code_simp
  have 3: "field (hd (elems (field pnrMissingCurrent (ascii ''passengers'')))) (ascii ''current'') = Undefined"
    by code_simp
  then have 4: "typeof (field (hd (elems (field pnrMissingCurrent (ascii ''passengers'')))) (ascii ''current'')) \<noteq> TString"
    by simp
  from processRailwayPNR_passenger_type_error [OF 1 2 4] 1 3 show ?thesis by simp
qed

subsection \<open>Form validator\<close>

lemma getProp_field: "v \<noteq> Undefined \<Longrightarrow> v \<noteq> Null \<Longrightarrow> getProp v k = Inr (field v k)"
  by (cases v) simp_all

lemma if_Inr: "(if b then Inr x else Inr y) = Inr (if b then x else y)"
  by simp

text \<open>The seven checks of the source as a list, for an age that converts to the string \<open>s\<close>.\<close>

lemma validateForm_checks:
  fixes v :: jsval and s :: jstring
  defines "checks \<equiv> [(typeof (field v (ascii ''name'')) \<noteq> TString
          \<or> length (trim (strOf (field v (ascii ''name'')))) < 2
          \<or> length (trim (strOf (field v (ascii ''name'')))) > 50,
        ascii ''name'', ascii ''Name must be 2-50 characters''),
       (typeof (field v (ascii ''email'')) \<noteq> TString
          \<or> indexOf (strOf (field v (ascii ''email''))) (ascii ''@'') = - 1
          \<or> indexOf (strOf (field v (ascii ''email''))) (ascii ''@'')
               \<noteq> lastIndexOf (strOf (field v (ascii ''email''))) (ascii ''@'')
          \<or> indexOf (strOf (field v (ascii ''email''))) (ascii ''.'')
               \<le> indexOf (strOf (field v (ascii ''email''))) (ascii ''@''),
        ascii ''email'', ascii ''Invalid email format''),
       (typeof (field v (ascii ''phone'')) \<noteq> TString
          \<or> length (strOf (field v (ascii ''phone''))) \<noteq> 10
          \<or> \<not> re_first6to9 (strOf (field v (ascii ''phone'')))
          \<or> \<not> re_digits (strOf (field v (ascii ''phone''))),
        ascii ''phone'', ascii ''Invalid Indian phone number''),
       (if parseIntString s = None then True
        else (\<not> re_digits s \<or> \<not> numberIsInteger (parseIntString s)
              \<or> the (parseIntString s) < 16 \<or> the (parseIntString s) > 100),
        ascii ''age'', ascii ''Age must be an integer between 16 and 100''),
       (typeof (field v (ascii ''pincode'')) \<noteq> TString
          \<or> length (strOf (field v (ascii ''pincode''))) \<noteq> 6
          \<or> startsWith (strOf (field v (ascii ''pincode''))) (ascii ''0'')
          \<or> \<not> re_digits (strOf (field v (ascii ''pincode''))),
        ascii ''pincode'', ascii ''Invalid Indian pincode''),
       (typeof (if field v (ascii ''state'') = Undefined \<or> field v (ascii ''state'') = Null
                then Str [] else field v (ascii ''state'')) \<noteq> TString
          \<or> trim (strOf (if field v (ascii ''state'') = Undefined \<or> field v (ascii ''state'') = Null
                then Str [] else field v (ascii ''state''))) = [],
        ascii ''state'', ascii ''State is required''),
       (\<not> truthy (field v (ascii ''agreeTerms'')),
        ascii ''agreeTerms'', ascii ''Must agree to terms'')]"
  assumes "v \<noteq> Undefined" "v \<noteq> Null" "toString (field v (ascii ''age'')) = Inr s"
  shows "validateForm v =
    Inr \<lparr> isValid = (length (map fst
             (foldl (\<lambda>es (c, k, m). if c then setProp es k m else es) [] checks)) = 0),
           errors = foldl (\<lambda>es (c, k, m). if c then setProp es k m else es) [] checks \<rparr>"
  unfolding checks_def validateForm_def getProp_field [OF assms(2,3)] parseInt_def test_def assms(4)
    sum.case if_Inr Let_def foldl.simps prod.case
  by (rule refl)

lemma validateForm_throws:
  assumes "v \<noteq> Undefined" "v \<noteq> Null" "\<not> convertible (field v (ascii ''age''))"
  shows "validateForm v = Inl TypeError"
proof -
  from assms(3) have "toString (field v (ascii ''age'')) = Inl TypeError"
    using toString_cases [of "field v (ascii ''age'')"] by simp
  then show ?thesis
    unfolding validateForm_def getProp_field [OF assms(1,2)] parseInt_def Let_def
    by (simp only: sum.case)
qed

lemma setProp_fresh: "k \<notin> set (map fst es) \<Longrightarrow> setProp es k m = es @ [(k, m)]"
  by (induction es) auto

lemma foldl_setProp:
  assumes "distinct (map (\<lambda>x. fst (snd x)) xs)"
    and "set (map (\<lambda>x. fst (snd x)) xs) \<inter> set (map fst es) = {}"
  shows "foldl (\<lambda>es (c, k, m). if c then setProp es k m else es) es xs
         = es @ map snd (filter fst xs)"
  using assms
proof (induction xs arbitrary: es)
  case Nil
  show ?case by simp
next
  case (Cons x xs)
  obtain c k m where x: "x = (c, k, m)" by (cases x) auto
  show ?case
  proof (cases c)
    case True
    from Cons.prems x have fresh: "k \<notin> set (map fst es)" by auto
    have "foldl (\<lambda>es (c, k, m). if c then setProp es k m else es) (es @ [(k, m)]) xs
          = (es @ [(k, m)]) @ map snd (filter fst xs)"
      using Cons.prems x by (intro Cons.IH) auto
    with True x fresh show ?thesis by (simp add: setProp_fresh)
  next
    case False
    have "foldl (\<lambda>es (c, k, m). if c then setProp es k m else es) es xs
          = es @ map snd (filter fst xs)"
      using Cons.prems by (intro Cons.IH) auto
    with False x show ?thesis by simp
  qed
qed

lemma map_snd_filter_fst:
  "map snd (filter fst (map (\<lambda>k. (\<not> P k, k, f k)) ks)) = map (\<lambda>k. (k, f k)) (filter (\<lambda>k. \<not> P k) ks)"
  by (induction ks) auto

lemma key_distinct:
  "ascii ''name'' \<noteq> ascii ''email''" "ascii ''name'' \<noteq> ascii ''phone''"
  "ascii ''name'' \<noteq> ascii ''age''" "ascii ''name'' \<noteq> ascii ''pincode''"
  "ascii ''name'' \<noteq> ascii ''state''" "ascii ''name'' \<noteq> ascii ''agreeTerms''"
  "ascii ''email'' \<noteq> ascii ''phone''"
  "ascii ''email'' \<noteq> ascii ''age''" "ascii ''email'' \<noteq> ascii ''pincode''"
  "ascii ''email'' \<noteq> ascii ''state''" "ascii ''email'' \<noteq> ascii ''agreeTerms''"
  "ascii ''phone'' \<noteq> ascii ''age''" "ascii ''phone'' \<noteq> ascii ''pincode''"
  "ascii ''phone'' \<noteq> ascii ''state''" "ascii ''phone'' \<noteq> ascii ''agreeTerms''"
  "ascii ''age'' \<noteq> ascii ''pincode''"
  "ascii ''age'' \<noteq> ascii ''state''" "ascii ''age'' \<noteq> ascii ''agreeTerms''"
  "ascii ''pincode'' \<noteq> ascii ''state''" "ascii ''pincode'' \<noteq> ascii ''agreeTerms''"
  "ascii ''state'' \<noteq> ascii ''agreeTerms''"
  by (simp_all add: ascii_def)


lemma set_6789: "(c \<in> set (ascii ''6789'')) = (0x36 \<le> c \<and> c \<le> (0x39 :: 16 word))"
proof -
  have "(c \<in> set (ascii ''6789'')) = (unat c \<in> {54, 55, 56, 57})"
    unfolding ascii_def by (simp add: word_unat_eq_iff)
  also have "\<dots> = (0x36 \<le> c \<and> c \<le> (0x39 :: 16 word))"
    unfolding word_le_nat_alt by simp arith
  finally show ?thesis .
qed

lemma decimalDigits_code: "decimalDigits s = list_all isDigit s"
  by (simp add: decimalDigits_def list_all_iff isDigit_set)

lemma name_check:
  "(typeof x \<noteq> TString \<or> length (trim (strOf x)) < 2 \<or> length (trim (strOf x)) > 50)
   = (\<not> nameOk x)"
  by (cases x) (auto simp: nameOk_def)

lemma phone_check:
  "(typeof x \<noteq> TString \<or> length (strOf x) \<noteq> 10 \<or> \<not> re_first6to9 (strOf x)
      \<or> \<not> re_digits (strOf x))
   = (\<not> phoneOk x)"
proof (cases x)
  case (Str s)
  show ?thesis
  proof (cases s)
    case Nil
    with Str show ?thesis by (simp add: phoneOk_def)
  next
    case (Cons c cs)
    with Str show ?thesis
      by (auto simp: phoneOk_def re_first6to9_def re_digits_def decimalDigits_code set_6789)
  qed
qed (simp_all add: phoneOk_def)

lemma pincode_check:
  "(typeof x \<noteq> TString \<or> length (strOf x) \<noteq> 6 \<or> startsWith (strOf x) (ascii ''0'')
      \<or> \<not> re_digits (strOf x))
   = (\<not> pincodeOk x)"
proof (cases x)
  case (Str s)
  have z: "ascii ''0'' = [0x30]" by (simp add: ascii_def)
  show ?thesis
  proof (cases s)
    case Nil
    with Str show ?thesis by (simp add: pincodeOk_def)
  next
    case (Cons c cs)
    with Str show ?thesis
      by (auto simp: pincodeOk_def re_digits_def decimalDigits_code z startsWith_def)
  qed
qed (simp_all add: pincodeOk_def)

lemma dropWhile_empty_iff: "(dropWhile P xs = []) = (\<forall>x \<in> set xs. P x)"
  by (induction xs) auto

lemma trim_nonempty_iff: "(trim w \<noteq> []) = (\<exists>c \<in> set w. \<not> isWhiteSpace c)"
proof -
  have "(trim w = []) = (\<forall>x \<in> set (dropWhile isWhiteSpace w). isWhiteSpace x)"
    by (simp add: trim_def dropWhile_empty_iff)
  also have "\<dots> = (dropWhile isWhiteSpace w = [])"
  proof
    assume a: "\<forall>x \<in> set (dropWhile isWhiteSpace w). isWhiteSpace x"
    show "dropWhile isWhiteSpace w = []"
    proof (rule ccontr)
      assume "dropWhile isWhiteSpace w \<noteq> []"
      then have "\<not> isWhiteSpace (hd (dropWhile isWhiteSpace w))"
        by (rule hd_dropWhile)
      moreover have "hd (dropWhile isWhiteSpace w) \<in> set (dropWhile isWhiteSpace w)"
        using \<open>dropWhile isWhiteSpace w \<noteq> []\<close> by simp
      ultimately show False using a by blast
    qed
  qed (auto dest: set_dropWhileD)
  also have "\<dots> = (\<forall>x \<in> set w. isWhiteSpace x)"
    by (rule dropWhile_empty_iff)
  finally show ?thesis by blast
qed


lemma state_check:
  "(typeof (if x = Undefined \<or> x = Null then Str [] else x) \<noteq> TString
      \<or> trim (strOf (if x = Undefined \<or> x = Null then Str [] else x)) = [])
   = (\<not> stateOk x)"
proof (cases x)
  case (Str s)
  from trim_nonempty_iff [of s] show ?thesis
    by (auto simp: Str stateOk_def)
qed (simp_all add: stateOk_def trim_def)

lemma digit_not_space: "isDigit c \<Longrightarrow> \<not> isWhiteSpace c"
  unfolding isDigit_def isWhiteSpace_def word_le_nat_alt
  by (auto simp: word_unat_eq_iff)

lemma digit_value: "isDigit c \<Longrightarrow> digitValue c = Some (unat c - 48)"
  by (simp add: isDigit_def digitValue_def)

lemma digit_radix: "isDigit c \<Longrightarrow> isRadixDigit 10 c"
  unfolding isRadixDigit_def
  by (simp add: digit_value) (simp add: isDigit_def word_le_nat_alt, arith)

lemma radixValue_decimal:
  "list_all isDigit s \<Longrightarrow>
   foldl (\<lambda>a c. a * 10 + the (digitValue c)) n s = foldl (\<lambda>a c. 10 * a + (unat c - 48)) n s"
  by (induction s arbitrary: n) (simp_all add: digit_value mult.commute)

lemma parseIntString_digits:
  assumes "re_digits s"
  shows "parseIntString s = Some (int (decimalValue s))"
proof -
  from assms obtain c cs where s: "s = c # cs" and c: "isDigit c" and all: "list_all isDigit s"
    by (cases s) (auto simp: re_digits_def)
  have lit: "ascii ''-'' = [0x2D]" "ascii ''+'' = [0x2B]" "ascii ''0x'' = [0x30, 0x78]"
    "ascii ''0X'' = [0x30, 0x58]"
    by (simp_all add: ascii_def)
  have d1: "dropWhile isWhiteSpace s = s"
    using s digit_not_space [OF c] by simp
  have sign: "c \<noteq> 0x2D" "c \<noteq> 0x2B"
    using c by (auto simp: isDigit_def)
  have nohex: "\<not> startsWith s (ascii ''0x'')" "\<not> startsWith s (ascii ''0X'')"
  proof -
    have x: "\<not> isDigit 0x78" "\<not> isDigit 0x58"
      by (simp_all add: isDigit_def)
    show "\<not> startsWith s (ascii ''0x'')"
    proof
      assume "startsWith s (ascii ''0x'')"
      then have "prefix [0x30, 0x78] s" by (simp add: startsWith_prefix lit)
      then have "0x78 \<in> set s" by (auto simp: prefix_def)
      with all x show False by (auto simp: list_all_iff)
    qed
    show "\<not> startsWith s (ascii ''0X'')"
    proof
      assume "startsWith s (ascii ''0X'')"
      then have "prefix [0x30, 0x58] s" by (simp add: startsWith_prefix lit)
      then have "0x58 \<in> set s" by (auto simp: prefix_def)
      with all x show False by (auto simp: list_all_iff)
    qed
  qed
  have signs: "\<not> startsWith s (ascii ''-'')" "\<not> startsWith s (ascii ''+'')"
    using s sign by (simp_all add: startsWith_def lit)
  have tw: "takeWhile (isRadixDigit 10) s = s"
    using all digit_radix by (auto simp: list_all_iff)
  have rv: "radixValue 10 s = decimalValue s"
    unfolding radixValue_def decimalValue_def using radixValue_decimal [OF all] .
  have ne: "s \<noteq> []" using s by simp
  show ?thesis
    unfolding parseIntString_def d1 Let_def
    by (simp add: signs nohex tw rv ne)
qed

lemma age_check:
  assumes "toString x = Inr s"
  shows "(if parseIntString s = None then True
          else (\<not> re_digits s \<or> \<not> numberIsInteger (parseIntString s)
                \<or> the (parseIntString s) < 16 \<or> the (parseIntString s) > 100))
         = (\<not> ageOk x)"
proof (cases "re_digits s")
  case True
  from True have ok: "ageOk x = (16 \<le> decimalValue s \<and> decimalValue s \<le> 100)"
    by (auto simp: ageOk_def assms re_digits_def decimalDigits_code)
  show ?thesis
    unfolding parseIntString_digits [OF True] ok using True
    by (auto simp: numberIsInteger_def)
next
  case False
  then have "\<not> ageOk x"
    by (auto simp: ageOk_def assms re_digits_def decimalDigits_code)
  with False show ?thesis by simp
qed

lemma startsWith_single: "startsWith (x # xs) [c] = (x = c)"
  by (simp add: startsWith_def)

lemma indexOfFrom_single:
  "indexOfFrom e [c] i = (if c \<in> set e then int (i + length (takeWhile (\<lambda>x. x \<noteq> c) e)) else - 1)"
  by (induction e arbitrary: i) (auto simp: startsWith_single)

lemma lastIndexOfFrom_single_none:
  "(lastIndexOfFrom e [c] i = - 1) = (c \<notin> set e)"
  by (induction e arbitrary: i) (auto simp: startsWith_single Let_def)

lemma lastIndexOfFrom_single_ge:
  "c \<in> set e \<Longrightarrow> int i \<le> lastIndexOfFrom e [c] i"
proof (induction e arbitrary: i)
  case Nil
  then show ?case by simp
next
  case (Cons x xs)
  show ?case
  proof (cases "c \<in> set xs")
    case True
    from Cons.IH [OF True, of "Suc i"] True show ?thesis
      by (simp add: Let_def lastIndexOfFrom_single_none)
  next
    case False
    with Cons.prems show ?thesis
      by (simp add: Let_def lastIndexOfFrom_single_none startsWith_single)
  qed
qed

lemma first_eq_last_single:
  "c \<in> set e \<Longrightarrow> (indexOfFrom e [c] i = lastIndexOfFrom e [c] i) = (count_list e c = 1)"
proof (induction e arbitrary: i)
  case Nil
  then show ?case by simp
next
  case (Cons x xs)
  show ?case
  proof (cases "x = c")
    case True
    show ?thesis
    proof (cases "c \<in> set xs")
      case in_rest: True
      then have "int (Suc i) \<le> lastIndexOfFrom xs [c] (Suc i)"
        by (rule lastIndexOfFrom_single_ge)
      moreover have "count_list xs c \<noteq> 0"
        using in_rest by (simp add: count_list_0_iff)
      ultimately show ?thesis
        using True in_rest by (simp add: Let_def lastIndexOfFrom_single_none startsWith_single)
    next
      case False
      then have "count_list xs c = 0"
        by (simp add: count_list_0_iff)
      with True False show ?thesis
        by (simp add: Let_def lastIndexOfFrom_single_none startsWith_single)
    qed
  next
    case False
    with Cons.prems have "c \<in> set xs" by simp
    from Cons.IH [OF this, of "Suc i"] False show ?thesis
      by (simp add: Let_def startsWith_single lastIndexOfFrom_single_none \<open>c \<in> set xs\<close>)
  qed
qed

lemma takeWhile_length_less:
  fixes a b :: "'a"
  assumes "a \<in> set e" "b \<in> set e" "a \<noteq> b"
  shows "(length (takeWhile (\<lambda>x. x \<noteq> a) e) < length (takeWhile (\<lambda>x. x \<noteq> b) e))
         = (b \<notin> set (takeWhile (\<lambda>x. x \<noteq> a) e))"
  using assms by (induction e) auto

lemma emailAccepted_iff:
  "(\<not> (indexOf e (ascii ''@'') = - 1 \<or> indexOf e (ascii ''@'') \<noteq> lastIndexOf e (ascii ''@'')
        \<or> indexOf e (ascii ''.'') \<le> indexOf e (ascii ''@'')))
   = (count_list e 0x40 = 1 \<and> 0x2E \<in> set (dropWhile (\<lambda>c. c \<noteq> 0x40) e)
        \<and> 0x2E \<notin> set (takeWhile (\<lambda>c. c \<noteq> 0x40) e))"
proof -
  have lit: "ascii ''@'' = [0x40]" "ascii ''.'' = [0x2E]"
    by (simp_all add: ascii_def)
  show ?thesis
  proof (cases "(0x40 :: 16 word) \<in> set e")
    case False
    then have "count_list e 0x40 = 0" by (simp add: count_list_0_iff)
    with False show ?thesis
      by (simp add: lit indexOf_def indexOfFrom_single)
  next
    case at: True
    have one: "(indexOf e [0x40] = lastIndexOf e [0x40]) = (count_list e 0x40 = 1)"
      unfolding indexOf_def lastIndexOf_def using first_eq_last_single [OF at] .
    show ?thesis
    proof (cases "(0x2E :: 16 word) \<in> set e")
      case False
      then have "0x2E \<notin> set (dropWhile (\<lambda>c. c \<noteq> 0x40) e)"
        using set_dropWhileD by fastforce
      with False at show ?thesis
        by (simp add: lit indexOf_def indexOfFrom_single)
    next
      case dot: True
      have ne: "(0x40 :: 16 word) \<noteq> 0x2E" by simp
      have lt: "(length (takeWhile (\<lambda>x. x \<noteq> 0x40) e) < length (takeWhile (\<lambda>x. x \<noteq> 0x2E) e))
         = (0x2E \<notin> set (takeWhile (\<lambda>x. x \<noteq> 0x40) e))"
        using takeWhile_length_less [OF at dot ne] .
      have split: "set e = set (takeWhile (\<lambda>c. c \<noteq> 0x40) e) \<union> set (dropWhile (\<lambda>c. c \<noteq> 0x40) e)"
        by (metis set_append takeWhile_dropWhile_id)
      have "(0x2E \<notin> set (takeWhile (\<lambda>x. x \<noteq> 0x40) e))
            = (0x2E \<in> set (dropWhile (\<lambda>c. c \<noteq> 0x40) e) \<and> 0x2E \<notin> set (takeWhile (\<lambda>c. c \<noteq> 0x40) e))"
        using dot split by auto
      with lt one at dot show ?thesis
        by (simp add: lit indexOf_def indexOfFrom_single not_le)
    qed
  qed
qed


lemma email_check:
  "(typeof x \<noteq> TString \<or> indexOf (strOf x) (ascii ''@'') = - 1
      \<or> indexOf (strOf x) (ascii ''@'') \<noteq> lastIndexOf (strOf x) (ascii ''@'')
      \<or> indexOf (strOf x) (ascii ''.'') \<le> indexOf (strOf x) (ascii ''@''))
   = (\<not> emailOk x)"
proof (cases x)
  case (Str e)
  have "(indexOf e (ascii ''@'') = - 1 \<or> indexOf e (ascii ''@'') \<noteq> lastIndexOf e (ascii ''@'')
          \<or> indexOf e (ascii ''.'') \<le> indexOf e (ascii ''@''))
        = (\<not> \<not> (indexOf e (ascii ''@'') = - 1
                  \<or> indexOf e (ascii ''@'') \<noteq> lastIndexOf e (ascii ''@'')
                  \<or> indexOf e (ascii ''.'') \<le> indexOf e (ascii ''@'')))"
    by (simp only: not_not)
  also have "\<dots> = (\<not> (count_list e 0x40 = 1 \<and> 0x2E \<in> set (dropWhile (\<lambda>c. c \<noteq> 0x40) e)
        \<and> 0x2E \<notin> set (takeWhile (\<lambda>c. c \<noteq> 0x40) e)))"
    by (simp only: emailAccepted_iff)
  also have "\<dots> = (\<not> emailOk (Str e))"
    by (simp add: emailOk_def specEmailValid_def)
  finally show ?thesis
    unfolding Str by simp
qed (simp_all add: emailOk_def specEmailValid_def)

lemma distinct_formFields: "distinct formFields"
  unfolding formFields_def by (simp add: key_distinct)

lemma validateForm_spec:
  assumes "v \<noteq> Undefined" "v \<noteq> Null" "convertible (field v (ascii ''age''))"
  shows "validateForm v = Inr \<lparr> isValid = (specErrors v = []), errors = specErrors v \<rparr>"
proof -
  from assms(3) obtain s where s: "toString (field v (ascii ''age'')) = Inr s"
    using toString_cases [of "field v (ascii ''age'')"] by simp
  have fo: "fieldOk v (ascii ''name'') = nameOk (field v (ascii ''name''))"
    "fieldOk v (ascii ''email'') = emailOk (field v (ascii ''email''))"
    "fieldOk v (ascii ''phone'') = phoneOk (field v (ascii ''phone''))"
    "fieldOk v (ascii ''age'') = ageOk (field v (ascii ''age''))"
    "fieldOk v (ascii ''pincode'') = pincodeOk (field v (ascii ''pincode''))"
    "fieldOk v (ascii ''state'') = stateOk (field v (ascii ''state''))"
    "fieldOk v (ascii ''agreeTerms'') = truthy (field v (ascii ''agreeTerms''))"
    unfolding fieldOk_def by (simp_all add: key_distinct key_distinct [symmetric])
  have fm: "fieldMessage (ascii ''name'') = ascii ''Name must be 2-50 characters''"
    "fieldMessage (ascii ''email'') = ascii ''Invalid email format''"
    "fieldMessage (ascii ''phone'') = ascii ''Invalid Indian phone number''"
    "fieldMessage (ascii ''age'') = ascii ''Age must be an integer between 16 and 100''"
    "fieldMessage (ascii ''pincode'') = ascii ''Invalid Indian pincode''"
    "fieldMessage (ascii ''state'') = ascii ''State is required''"
    "fieldMessage (ascii ''agreeTerms'') = ascii ''Must agree to terms''"
    unfolding fieldMessage_def by (simp_all add: key_distinct key_distinct [symmetric])
  let ?checks = "map (\<lambda>k. (\<not> fieldOk v k, k, fieldMessage k)) formFields"
  have d: "distinct (map (\<lambda>x. fst (snd x)) ?checks)"
    using distinct_formFields by (simp add: o_def)
  have "foldl (\<lambda>es (c, k, m). if c then setProp es k m else es) [] ?checks
        = [] @ map snd (filter fst ?checks)"
    using d by (intro foldl_setProp) simp_all
  also have "\<dots> = specErrors v"
    unfolding specErrors_def map_snd_filter_fst by simp
  finally have E: "foldl (\<lambda>es (c, k, m). if c then setProp es k m else es) [] ?checks = specErrors v" .
  have "validateForm v =
    Inr \<lparr> isValid = (length (map fst
             (foldl (\<lambda>es (c, k, m). if c then setProp es k m else es) [] ?checks)) = 0),
           errors = foldl (\<lambda>es (c, k, m). if c then setProp es k m else es) [] ?checks \<rparr>"
    unfolding formFields_def list.map fo fm
    using validateForm_checks [OF assms(1,2) s]
    unfolding name_check email_check phone_check age_check [OF s] pincode_check state_check .
  then show ?thesis
    unfolding E by simp
qed

lemma map_of_specErrors:
  "map_of (specErrors v) k
   = (if k \<in> set formFields \<and> \<not> fieldOk v k then Some (fieldMessage k) else None)"
proof -
  have "\<And>ks. map_of (map (\<lambda>k. (k, fieldMessage k)) (filter (\<lambda>k. \<not> fieldOk v k) ks)) k
        = (if k \<in> set ks \<and> \<not> fieldOk v k then Some (fieldMessage k) else None)"
  proof -
    fix ks
    show "map_of (map (\<lambda>k. (k, fieldMessage k)) (filter (\<lambda>k. \<not> fieldOk v k) ks)) k
        = (if k \<in> set ks \<and> \<not> fieldOk v k then Some (fieldMessage k) else None)"
      by (induction ks) auto
  qed
  then show ?thesis
    unfolding specErrors_def .
qed

lemma validateForm_Inr:
  assumes "v \<noteq> Undefined" "v \<noteq> Null" "validateForm v = Inr r"
  shows "errors r = specErrors v" and "isValid r = (specErrors v = [])"
proof -
  have c: "convertible (field v (ascii ''age''))"
  proof (rule ccontr)
    assume "\<not> convertible (field v (ascii ''age''))"
    from validateForm_throws [OF assms(1,2) this] assms(3) show False by simp
  qed
  from validateForm_spec [OF assms(1,2) c] assms(3)
  have "r = \<lparr> isValid = (specErrors v = []), errors = specErrors v \<rparr>" by simp
  then show "errors r = specErrors v" and "isValid r = (specErrors v = [])"
    by simp_all
qed

text \<open>
  Claim C1. \<open>validateForm\<close> records no email error exactly when the email is a string
  with exactly one \<open>@\<close>, a \<open>.\<close> after the \<open>@\<close>, and no \<open>.\<close> before the \<open>@\<close>: the
  source compares the first \<open>.\<close> of the whole string with the \<open>@\<close>. So every email that
  violates the spec's rule gets an error, and so does an email that meets the rule but has a
  \<open>.\<close> in its local part, such as \<open>rahul.sharma@gmail.com\<close>.
\<close>


theorem validateForm_email_rule:
  assumes "formData \<noteq> Undefined" and "formData \<noteq> Null"
    and "validateForm formData = Inr r"
  shows "(map_of (errors r) (ascii ''email'') = None)
     = (specEmailValid (field formData (ascii ''email''))
        \<and> 0x2E \<notin> set (takeWhile (\<lambda>c. c \<noteq> 0x40) (strOf (field formData (ascii ''email'')))))"
proof -
  have m: "ascii ''email'' \<in> set formFields"
    by (simp add: formFields_def)
  have f: "fieldOk formData (ascii ''email'') = emailOk (field formData (ascii ''email''))"
    unfolding fieldOk_def by (simp add: key_distinct key_distinct [symmetric])
  show ?thesis
    unfolding validateForm_Inr(1) [OF assms] map_of_specErrors
    using m by (simp add: f emailOk_def)
qed

theorem validateForm_email_rule_witness:
  "specEmailValid (field formDotBeforeAt (ascii ''email''))
   \<and> (\<exists>r. validateForm formDotBeforeAt = Inr r
        \<and> errors r = [(ascii ''email'', ascii ''Invalid email format'')] \<and> \<not> isValid r)"
proof -
  have 1: "formDotBeforeAt \<noteq> Undefined" "formDotBeforeAt \<noteq> Null"
    by (simp_all add: formDotBeforeAt_def)
  have 2: "validateForm formDotBeforeAt
      = Inr \<lparr> isValid = False, errors = [(ascii ''email'', ascii ''Invalid email format'')] \<rparr>"
    by code_simp
  have 3: "specEmailValid (field formDotBeforeAt (ascii ''email''))"
    by code_simp
  have 4: "0x2E \<in> set (takeWhile (\<lambda>c. c \<noteq> 0x40) (strOf (field formDotBeforeAt (ascii ''email''))))"
    by code_simp
  from validateForm_email_rule [OF 1 2] 3 4
  have "map_of (errors \<lparr> isValid = False, errors = [(ascii ''email'', ascii ''Invalid email format'')] \<rparr>)
          (ascii ''email'') \<noteq> None"
    by simp
  with 2 3 show ?thesis by simp
qed





subsection \<open>WhatsApp message parser\<close>

lemma indexOfFrom_none: "(indexOfFrom s p i = - 1) = (\<not> sublist p s)"
  by (induction s arbitrary: i) (auto simp: startsWith_prefix sublist_Cons_right)

lemma includesStr_sublist: "includesStr s p = sublist p s"
  by (simp add: includesStr_def indexOf_def indexOfFrom_none)

lemma occursAt_0: "occursAt p s 0 = startsWith s p"
  by (simp add: occursAt_def startsWith_def)

lemma occursAt_Suc: "occursAt p (x # xs) (Suc k) = occursAt p xs k"
  by (simp add: occursAt_def)

lemma firstAt_Suc:
  assumes "firstAt p s (Suc k)"
  shows "\<exists>x xs. s = x # xs \<and> \<not> startsWith s p \<and> firstAt p xs k"
proof (cases s)
  case Nil
  with assms have "p = []" by (simp add: firstAt_def occursAt_def)
  with assms have False by (auto simp: firstAt_def occursAt_def)
  then show ?thesis ..
next
  case (Cons x xs)
  from assms have n0: "\<not> occursAt p s 0" by (simp add: firstAt_def)
  have "firstAt p xs k"
    unfolding firstAt_def
  proof (intro conjI allI impI)
    show "occursAt p xs k"
      using assms Cons by (simp add: firstAt_def occursAt_Suc)
    fix j assume "j < k"
    then have "\<not> occursAt p s (Suc j)"
      using assms by (simp add: firstAt_def)
    then show "\<not> occursAt p xs j"
      using Cons by (simp add: occursAt_Suc)
  qed
  with Cons n0 show ?thesis
    by (simp add: occursAt_0)
qed

lemma indexOfFrom_firstAt: "firstAt p s k \<Longrightarrow> indexOfFrom s p i = int (i + k)"
proof (induction k arbitrary: s i)
  case 0
  then have "startsWith s p" by (simp add: firstAt_def occursAt_0)
  then show ?case by (cases s) (simp_all add: startsWith_def)
next
  case (Suc k)
  from firstAt_Suc [OF Suc.prems] obtain x xs
    where s: "s = x # xs" "\<not> startsWith s p" "firstAt p xs k" by blast
  from Suc.IH [OF s(3), of "Suc i"] s(1,2) show ?case by simp
qed

lemma indexOf_firstAt: "firstAt p s k \<Longrightarrow> indexOf s p = int k"
  by (simp add: indexOf_def indexOfFrom_firstAt)

lemma occursAt_sublist: "occursAt p s k \<Longrightarrow> sublist p s"
proof -
  assume "occursAt p s k"
  then have "p = take (length p) (drop k s)" by (simp add: occursAt_def)
  moreover have "sublist (take (length p) (drop k s)) (drop k s)" by (rule sublist_take)
  moreover have "sublist (drop k s) s" by (rule sublist_drop)
  ultimately show ?thesis
    using sublist_order.order.trans by metis
qed

lemma occursAt_length: "occursAt p s k \<Longrightarrow> p \<noteq> [] \<Longrightarrow> k + length p \<le> length s"
proof -
  assume a: "occursAt p s k" "p \<noteq> []"
  from a(1) have "length (take (length p) (drop k s)) = length p"
    by (simp add: occursAt_def)
  then have "min (length p) (length s - k) = length p" by simp
  moreover from a(2) have "0 < length p" by simp
  ultimately show ?thesis by arith
qed

lemma splitFrom_no_sep:
  "\<not> sublist sep s \<Longrightarrow> splitFrom sep cur s = [cur @ s]"
proof (induction s arbitrary: cur)
  case Nil
  show ?case by (simp add: splitFrom.simps)
next
  case (Cons x xs)
  from Cons.prems have ns: "\<not> startsWith (x # xs) sep" and nx: "\<not> sublist sep xs"
    by (simp_all add: sublist_Cons_right startsWith_prefix)
  from Cons.IH [OF nx, of "cur @ [x]"] ns show ?case
    by (subst splitFrom.simps) simp
qed

lemma split_no_sep: "sep \<noteq> [] \<Longrightarrow> \<not> sublist sep s \<Longrightarrow> split s sep = [s]"
  by (simp add: split_def splitFrom_no_sep)

lemma splitWhen_nonempty: "splitWhen d s \<noteq> []"
  by (cases s) simp_all

lemma splitFrom_single:
  "splitFrom [c] cur s
   = (cur @ hd (splitWhen (\<lambda>x. x = c) s)) # tl (splitWhen (\<lambda>x. x = c) s)"
proof (induction s arbitrary: cur)
  case Nil
  show ?case by (simp add: splitFrom.simps)
next
  case (Cons x xs)
  show ?case
    by (subst splitFrom.simps) (simp add: startsWith_def Cons.IH splitWhen_nonempty)
qed

lemma split_single: "split s [c] = splitWhen (\<lambda>x. x = c) s"
  by (simp add: split_def splitFrom_single splitWhen_nonempty)

lemma substring_take: "k \<le> length s \<Longrightarrow> substring s 0 (int k) = take k s"
  by (simp add: substring_def Let_def min_def max_def)

lemma substringFrom_drop: "k \<le> length s \<Longrightarrow> substringFrom s (int k) = drop k s"
  by (simp add: substringFrom_def substring_def Let_def min_def max_def)

lemma occursAt_nth: "occursAt p s k \<Longrightarrow> n < length p \<Longrightarrow> s ! (k + n) = p ! n"
proof -
  assume a: "occursAt p s k" "n < length p"
  then have "p ! n = take (length p) (drop k s) ! n" by (simp add: occursAt_def)
  also have "\<dots> = drop k s ! n" using a(2) by simp
  also have "\<dots> = s ! (k + n)"
  proof -
    from a(2) have "p \<noteq> []" by auto
    from occursAt_length [OF a(1) this] have "k \<le> length s" by simp
    then show ?thesis by (rule nth_drop)
  qed
  finally show ?thesis by simp
qed

lemma occursAt_drop: "d \<le> j \<Longrightarrow> occursAt p s j \<Longrightarrow> occursAt p (drop d s) (j - d)"
  by (simp add: occursAt_def)

lemma colon_after_dash:
  assumes "occursAt (ascii '' - '') m i" and "occursAt (ascii '': '') m j" and "i < j"
  shows "i + 3 \<le> j"
proof -
  have d: "m ! (i + 1) = 0x2D" "m ! (i + 2) = 0x20"
    using occursAt_nth [OF assms(1), of 1] occursAt_nth [OF assms(1), of 2]
    by (simp_all add: ascii_def)
  have c: "m ! j = 0x3A"
    using occursAt_nth [OF assms(2), of 0] by (simp add: ascii_def)
  have "j \<noteq> i + 1" using c d(1) by auto
  moreover have "j \<noteq> i + 2" using c d(2) by auto
  ultimately show ?thesis using assms(3) by arith
qed

text \<open>
  Claim C10. The divider \<open>", "\<close> is not required. Let a string have \<open>" - "\<close> at some
  index and \<open>": "\<close> at a later one, let \<open>k\<close> be the index of its first \<open>" - "\<close>, and let
  the segment before \<open>k\<close> hold no \<open>", "\<close>. Then \<open>parseWhatsAppMessage\<close> returns a result
  whose \<open>date\<close> is the whole segment and whose \<open>time\<close> is \<open>undefined\<close>.
\<close>

theorem parse_without_comma_divider:
  assumes "occursAt (ascii '' - '') m i" and "occursAt (ascii '': '') m j" and "i < j"
    and "firstAt (ascii '' - '') m k"
    and "\<not> sublist (ascii '', '') (take k m)"
  shows "\<exists>r. parseWhatsAppMessage (Str m) = Some r \<and> date r = Str (take k m) \<and> time r = Undefined"
proof -
  have ki: "k \<le> i"
    using assms(1,4) by (auto simp: firstAt_def not_less [symmetric])
  have ij: "i + 3 \<le> j"
    using colon_after_dash [OF assms(1-3)] .
  have ok: "occursAt (ascii '' - '') m k"
    using assms(4) by (simp add: firstAt_def)
  have len: "k + 3 \<le> length m"
    using occursAt_length [OF ok] by (simp add: ascii_def)
  have idx: "indexOf m (ascii '' - '') = int k"
    using assms(4) by (rule indexOf_firstAt)
  have dt: "substring m 0 (int k) = take k m"
    using len by (simp add: substring_take)
  have sm: "substringFrom m (int k + 3) = drop (k + 3) m"
    using substringFrom_drop [OF len] by (simp add: add.commute)
  have "occursAt (ascii '': '') (drop (k + 3) m) (j - (k + 3))"
    using ki ij assms(2) by (intro occursAt_drop) simp_all
  then have "sublist (ascii '': '') (drop (k + 3) m)"
    by (rule occursAt_sublist)
  then have se: "indexOf (drop (k + 3) m) (ascii '': '') \<noteq> - 1"
    by (simp add: indexOf_def indexOfFrom_none)
  have ne: "ascii '', '' \<noteq> []"
    by (simp add: ascii_def)
  have sp: "split (take k m) (ascii '', '') = [take k m]"
    using split_no_sep [OF ne assms(5)] .
  have k1: "int k \<noteq> - 1" by simp
  show ?thesis
    unfolding parseWhatsAppMessage_def Let_def typeof.simps strOf.simps idx dt sm sp
    using se k1 by (simp add: at_def)
qed

lemma msgNoComma_facts:
  "occursAt (ascii '' - '') msgNoComma 16" "occursAt (ascii '': '') msgNoComma 24"
  "firstAt (ascii '' - '') msgNoComma 16" "\<not> sublist (ascii '', '') (take 16 msgNoComma)"
  "take 16 msgNoComma = ascii ''25/01/2025 14:30''"
  by code_simp+

theorem parse_without_comma_divider_witness:
  "\<exists>r. parseWhatsAppMessage (Str msgNoComma) = Some r
      \<and> date r = Str (ascii ''25/01/2025 14:30'') \<and> time r = Undefined"
  using parse_without_comma_divider [OF msgNoComma_facts(1,2) _ msgNoComma_facts(3,4)]
  unfolding msgNoComma_facts(5) by simp


lemma parse_result:
  assumes "firstAt (ascii '' - '') m k" and "firstAt (ascii '': '') (drop (k + 3) m) j"
  shows "parseWhatsAppMessage (Str m) =
     Some \<lparr> date = at (split (take k m) (ascii '', '')) 0,
            time = at (split (take k m) (ascii '', '')) 1,
            sender = take j (drop (k + 3) m),
            text_msg = trim (drop (k + j + 5) m),
            wordCount = length (filter (\<lambda>word. trim word \<noteq> [])
                                  (split (trim (drop (k + j + 5) m)) (ascii '' ''))),
            sentiment = (if includesStr (trim (drop (k + j + 5) m)) laughEmoji \<or> includesStr (trim (drop (k + j + 5) m)) (ascii '':)'')
                        \<or> includesStr (toLowerCase (trim (drop (k + j + 5) m))) (ascii ''haha'')
                     then ascii ''funny''
                     else if includesStr (trim (drop (k + j + 5) m)) heart
                        \<or> includesStr (toLowerCase (trim (drop (k + j + 5) m))) (ascii ''love'')
                        \<or> includesStr (toLowerCase (trim (drop (k + j + 5) m))) (ascii ''pyaar'')
                     then ascii ''love''
                     else ascii ''neutral'') \<rparr>"
proof -
  have ok: "occursAt (ascii '' - '') m k"
    using assms(1) by (simp add: firstAt_def)
  have len: "k + 3 \<le> length m"
    using occursAt_length [OF ok] by (simp add: ascii_def)
  have idx: "indexOf m (ascii '' - '') = int k"
    using assms(1) by (rule indexOf_firstAt)
  have dt: "substring m 0 (int k) = take k m"
    using len by (simp add: substring_take)
  have sm: "substringFrom m (int k + 3) = drop (k + 3) m"
    using substringFrom_drop [OF len] by (simp add: add.commute)
  have ok2: "occursAt (ascii '': '') (drop (k + 3) m) j"
    using assms(2) by (simp add: firstAt_def)
  have len2: "j + 2 \<le> length (drop (k + 3) m)"
    using occursAt_length [OF ok2] by (simp add: ascii_def)
  have idx2: "indexOf (drop (k + 3) m) (ascii '': '') = int j"
    using assms(2) by (rule indexOf_firstAt)
  have sd: "substring (drop (k + 3) m) 0 (int j) = take j (drop (k + 3) m)"
    using len2 by (intro substring_take) simp
  have "substringFrom (drop (k + 3) m) (int (j + 2)) = drop (j + 2) (drop (k + 3) m)"
    using len2 by (rule substringFrom_drop)
  moreover have "j + 2 + (k + 3) = k + j + 5" "int (j + 2) = int j + 2"
    by simp_all
  ultimately have tx: "substringFrom (drop (k + 3) m) (int j + 2) = drop (k + j + 5) m"
    by (simp only: drop_drop)
  have k1: "\<not> int k = - 1" "\<not> int j = - 1" by simp_all
  show ?thesis
    unfolding parseWhatsAppMessage_def Let_def typeof.simps strOf.simps idx dt sm idx2 sd tx
      if_not_P [OF k1(1)] if_not_P [OF k1(2)]
    by simp
qed

lemma containsCI_lower: "containsCI body p = sublist p (map asciiLower body)"
proof
  assume "containsCI body p"
  then obtain w where "sublist w body" "map asciiLower w = p"
    by (auto simp: containsCI_def list_ex_iff)
  then show "sublist p (map asciiLower body)"
    using map_mono_sublist by blast
next
  assume "sublist p (map asciiLower body)"
  then obtain w where "sublist w body" "p = map asciiLower w"
    using sublist_map_rightE by blast
  then show "containsCI body p"
    by (auto simp: containsCI_def list_ex_iff)
qed

lemma sublist_lower:
  assumes "\<forall>x \<in> set p. plainUnit x" and "p \<noteq> []"
  shows "sublist p (toLowerCase body) = containsCI body p"
  unfolding containsCI_lower using assms by (rule toLowerCase_sublist)

lemma marker_lower:
  "sublist (ascii ''haha'') (toLowerCase body) = containsCI body (ascii ''haha'')"
  "sublist (ascii ''love'') (toLowerCase body) = containsCI body (ascii ''love'')"
  "sublist (ascii ''pyaar'') (toLowerCase body) = containsCI body (ascii ''pyaar'')"
  by (rule sublist_lower; simp add: ascii_def plainUnit_def)+

lemma sentiment_spec:
  "(if includesStr body laughEmoji \<or> includesStr body (ascii '':)'')
                        \<or> includesStr (toLowerCase body) (ascii ''haha'')
                     then ascii ''funny''
                     else if includesStr body heart
                        \<or> includesStr (toLowerCase body) (ascii ''love'')
                        \<or> includesStr (toLowerCase body) (ascii ''pyaar'')
                     then ascii ''love''
                     else ascii ''neutral'') = specSentiment body"
  unfolding specSentiment_def funnyMarker_def loveMarker_def includesStr_sublist marker_lower ..

text \<open>
  Claim C6. Let a string have its first \<open>" - "\<close> at index \<open>k\<close> and, after it, the first
  \<open>": "\<close> at index \<open>j\<close> of the rest. Then \<open>parseWhatsAppMessage\<close> returns a result whose
  text is the trimmed rest after that \<open>": "\<close>, and whose sentiment is funny if this body
  holds a funny marker (the laughing emoji, \<open>:)\<close>, or \<open>haha\<close> in any letter case), else
  love if it holds a love marker (the heart, or \<open>love\<close> or \<open>pyaar\<close> in any letter
  case), else neutral; with markers of both classes it is funny.
\<close>

theorem parse_sentiment:
  assumes "firstAt (ascii '' - '') m k" and "firstAt (ascii '': '') (drop (k + 3) m) j"
  shows "\<exists>r. parseWhatsAppMessage (Str m) = Some r
    \<and> text_msg r = trim (drop (k + j + 5) m)
    \<and> sentiment r = specSentiment (trim (drop (k + j + 5) m))
    \<and> (funnyMarker (trim (drop (k + j + 5) m)) \<and> loveMarker (trim (drop (k + j + 5) m))
         \<longrightarrow> sentiment r = ascii ''funny'')"
proof -
  have "specSentiment (trim (drop (k + j + 5) m)) = ascii ''funny''"
    if "funnyMarker (trim (drop (k + j + 5) m))"
    using that by (simp add: specSentiment_def)
  then show ?thesis
    unfolding parse_result [OF assms] sentiment_spec by simp
qed

lemma msgBoth_facts:
  "firstAt (ascii '' - '') msgBoth 17" "firstAt (ascii '': '') (drop (17 + 3) msgBoth) 5"
  "trim (drop (17 + 5 + 5) msgBoth) = ascii ''HaHa I LOVE it''"
  "funnyMarker (ascii ''HaHa I LOVE it'')" "loveMarker (ascii ''HaHa I LOVE it'')"
  by code_simp+

theorem parse_sentiment_witness:
  "\<exists>r. parseWhatsAppMessage (Str msgBoth) = Some r
      \<and> text_msg r = ascii ''HaHa I LOVE it''
      \<and> funnyMarker (ascii ''HaHa I LOVE it'') \<and> loveMarker (ascii ''HaHa I LOVE it'')
      \<and> sentiment r = ascii ''funny''"
proof -
  from parse_sentiment [OF msgBoth_facts(1,2), unfolded msgBoth_facts(3)]
  obtain r where r: "parseWhatsAppMessage (Str msgBoth) = Some r"
    "text_msg r = ascii ''HaHa I LOVE it''"
    "funnyMarker (ascii ''HaHa I LOVE it'') \<and> loveMarker (ascii ''HaHa I LOVE it'')
       \<longrightarrow> sentiment r = ascii ''funny''"
    by (elim exE conjE)
  from mp [OF r(3) conjI [OF msgBoth_facts(4,5)]] r(1,2) msgBoth_facts(4,5)
  show ?thesis by (intro exI [of _ r] conjI)
qed

lemma splitWhen_cong:
  "(\<And>x. x \<in> set s \<Longrightarrow> d x = e x) \<Longrightarrow> splitWhen d s = splitWhen e s"
  by (induction s) simp_all

lemma splitWhen_pieces:
  "t \<in> set (splitWhen d s) \<Longrightarrow> x \<in> set t \<Longrightarrow> x \<in> set s \<and> \<not> d x"
proof (induction s arbitrary: t)
  case Nil
  then show ?case by simp
next
  case (Cons y ys)
  show ?case
  proof (cases "d y")
    case True
    with Cons.prems have "t \<in> set (splitWhen d ys)" by auto
    from Cons.IH [OF this Cons.prems(2)] show ?thesis by simp
  next
    case False
    with Cons.prems(1) have "t = y # hd (splitWhen d ys) \<or> t \<in> set (tl (splitWhen d ys))"
      by simp
    then show ?thesis
    proof
      assume t: "t = y # hd (splitWhen d ys)"
      show ?thesis
      proof (cases "x = y")
        case True
        with False show ?thesis by simp
      next
        case ne: False
        with t Cons.prems(2) have "x \<in> set (hd (splitWhen d ys))" by simp
        moreover have "hd (splitWhen d ys) \<in> set (splitWhen d ys)"
          by (simp add: splitWhen_nonempty)
        ultimately show ?thesis using Cons.IH by auto
      qed
    next
      assume "t \<in> set (tl (splitWhen d ys))"
      then have "t \<in> set (splitWhen d ys)"
        by (meson list.set_sel(2) splitWhen_nonempty)
      from Cons.IH [OF this Cons.prems(2)] show ?thesis by simp
    qed
  qed
qed

lemma wordCount_spaces_only:
  assumes "\<forall>c \<in> set body. isWhiteSpace c \<longrightarrow> c = 0x20"
  shows "length (filter (\<lambda>t. \<exists>c \<in> set t. \<not> isWhiteSpace c) (splitWhen (\<lambda>x. x = 0x20) body))
         = specWordCount body"
proof -
  have sp: "isWhiteSpace 0x20" by (simp add: isWhiteSpace_def)
  have eq: "splitWhen (\<lambda>x. x = 0x20) body = splitWhen isWhiteSpace body"
    using assms sp by (intro splitWhen_cong) auto
  have "filter (\<lambda>t. \<exists>c \<in> set t. \<not> isWhiteSpace c) (splitWhen isWhiteSpace body)
        = filter (\<lambda>t. t \<noteq> []) (splitWhen isWhiteSpace body)"
  proof (rule filter_cong [OF refl])
    fix t assume t: "t \<in> set (splitWhen isWhiteSpace body)"
    show "(\<exists>c \<in> set t. \<not> isWhiteSpace c) = (t \<noteq> [])"
    proof
      assume "t \<noteq> []"
      then obtain c where "c \<in> set t" by (cases t) auto
      with splitWhen_pieces [OF t] show "\<exists>c \<in> set t. \<not> isWhiteSpace c" by blast
    qed auto
  qed
  then show ?thesis
    by (simp add: eq specWordCount_def)
qed


text \<open>
  Claim C2, amended. Let a string have its first \<open>" - "\<close> at index \<open>k\<close> and, after it,
  the first \<open>": "\<close> at index \<open>j\<close> of the rest. Then \<open>parseWhatsAppMessage\<close> returns a
  result whose text is the trimmed rest after that \<open>": "\<close>, and whose \<open>wordCount\<close> is the
  number of pieces of this body between space characters (U+0020) that hold a character
  which is not white space, however long the runs of spaces are. When the body has no white
  space other than the space character, this is the number of non-empty
  whitespace-delimited tokens.
\<close>

theorem parse_wordCount:
  assumes "firstAt (ascii '' - '') m k" and "firstAt (ascii '': '') (drop (k + 3) m) j"
  shows "\<exists>r. parseWhatsAppMessage (Str m) = Some r
    \<and> text_msg r = trim (drop (k + j + 5) m)
    \<and> wordCount r
         = length (filter (\<lambda>t. \<exists>c \<in> set t. \<not> isWhiteSpace c)
                     (splitWhen (\<lambda>x. x = 0x20) (trim (drop (k + j + 5) m))))
    \<and> ((\<forall>c \<in> set (trim (drop (k + j + 5) m)). isWhiteSpace c \<longrightarrow> c = 0x20)
         \<longrightarrow> wordCount r = specWordCount (trim (drop (k + j + 5) m)))"
proof -
  have sp: "ascii '' '' = [0x20]" by (simp add: ascii_def)
  have 1: "length (filter (\<lambda>word. trim word \<noteq> []) (split (trim (drop (k + j + 5) m)) (ascii '' '')))
         = length (filter (\<lambda>t. \<exists>c \<in> set t. \<not> isWhiteSpace c)
                     (splitWhen (\<lambda>x. x = 0x20) (trim (drop (k + j + 5) m))))"
    unfolding sp split_single trim_nonempty_iff ..
  show ?thesis
    unfolding parse_result [OF assms]
    using 1 wordCount_spaces_only [of "trim (drop (k + j + 5) m)"] by simp
qed

lemma msgSpaces_facts:
  "firstAt (ascii '' - '') msgSpaces 17" "firstAt (ascii '': '') (drop (17 + 3) msgSpaces) 5"
  "trim (drop (17 + 5 + 5) msgSpaces) = ascii ''I  love   it''"
  "\<forall>c \<in> set (ascii ''I  love   it''). isWhiteSpace c \<longrightarrow> c = 0x20"
  "specWordCount (ascii ''I  love   it'') = 3"
  by code_simp+

theorem parse_wordCount_witness:
  "\<exists>r. parseWhatsAppMessage (Str msgSpaces) = Some r \<and> text_msg r = ascii ''I  love   it''
      \<and> wordCount r = 3 \<and> specWordCount (ascii ''I  love   it'') = 3"
proof -
  from parse_wordCount [OF msgSpaces_facts(1,2), unfolded msgSpaces_facts(3)]
  obtain r where r: "parseWhatsAppMessage (Str msgSpaces) = Some r"
    "text_msg r = ascii ''I  love   it''"
    "(\<forall>c \<in> set (ascii ''I  love   it''). isWhiteSpace c \<longrightarrow> c = 0x20)
       \<longrightarrow> wordCount r = specWordCount (ascii ''I  love   it'')"
    by (elim exE conjE)
  from mp [OF r(3) msgSpaces_facts(4)] have "wordCount r = 3"
    unfolding msgSpaces_facts(5) .
  with r(1,2) msgSpaces_facts(5) show ?thesis by (intro exI [of _ r] conjI)
qed

lemma msgTab_parsed:
  "parseWhatsAppMessage (Str msgTab) =
     Some \<lparr> date = Str (ascii ''01/12/2024''), time = Str (ascii ''09:15''),
            sender = ascii ''Priya'', text_msg = ascii ''a'' @ [0x9] @ ascii ''b'', wordCount = 1,
            sentiment = ascii ''neutral'' \<rparr>"
  by code_simp

lemma msgTab_facts:
  "firstAt (ascii '' - '') msgTab 17" "firstAt (ascii '': '') (drop (17 + 3) msgTab) 5"
  "trim (drop (17 + 5 + 5) msgTab) = ascii ''a'' @ [0x9] @ ascii ''b''"
  "specWordCount (ascii ''a'' @ [0x9] @ ascii ''b'') = 2"
  by code_simp+

text \<open>
  The claim as stated fails on a body with a tab: the line is valid, its body \<open>a<TAB>b\<close>
  has two whitespace-delimited tokens, and \<open>wordCount\<close> is 1, since the source splits at
  the space character only.
\<close>

theorem parse_wordCount_tab_counterexample:
  "firstAt (ascii '' - '') msgTab 17 \<and> firstAt (ascii '': '') (drop (17 + 3) msgTab) 5
   \<and> parseWhatsAppMessage (Str msgTab) \<noteq> None
   \<and> text_msg (the (parseWhatsAppMessage (Str msgTab))) = trim (drop (17 + 5 + 5) msgTab)
   \<and> wordCount (the (parseWhatsAppMessage (Str msgTab))) = 1
   \<and> specWordCount (trim (drop (17 + 5 + 5) msgTab)) = 2"
  unfolding msgTab_parsed msgTab_facts(3,4) using msgTab_facts(1,2) by simp

subsection \<open>Mumbai local pass\<close>

lemma slice_0_3: "slice s 0 3 = take 3 s"
  by (simp add: slice_def sliceIndex_def Let_def min_def)

lemma sliceFrom_1: "sliceFrom s 1 = drop 1 s"
  by (simp add: sliceFrom_def slice_def sliceIndex_def Let_def min_def)

lemma charAt_0: "charAt s 0 = take 1 s"
  by (cases s) (simp_all add: charAt_def)

lemma nonBlankText_code: "nonBlankText v = (typeof v = TString \<and> trim (strOf v) \<noteq> [])"
  by (cases v) (simp_all add: nonBlankText_def trim_nonempty_iff)

lemma generateLocalPass_invalid:
  assumes "\<not> passAccepted p"
  shows "generateLocalPass p = ascii ''INVALID PASS''"
proof (cases p)
  case (Obj fs)
  from assms show ?thesis
    unfolding generateLocalPass_def Let_def passAccepted_def nonBlankText_code Obj
    by (auto simp del: field.simps)
qed (simp_all add: generateLocalPass_def)

lemma generateLocalPass_accepted:
  assumes "passAccepted p"
  shows "generateLocalPass p = join nl (passLines p)"
proof -
  from assms obtain fs where p: "p = Obj fs"
    by (cases p) (simp_all add: passAccepted_def)
  let ?name = "field p (ascii ''name'')"
  let ?from = "field p (ascii ''from'')"
  let ?to = "field p (ascii ''to'')"
  let ?cls = "field p (ascii ''classType'')"
  from assms p have nb: "nonBlankText ?name" "nonBlankText ?from" "nonBlankText ?to"
      "nonBlankText ?cls"
    and cl: "toLowerCase (strOf ?cls) = ascii ''first'' \<or> toLowerCase (strOf ?cls) = ascii ''second''"
    by (simp_all add: passAccepted_def)
  have c1: "\<not> (typeof p \<noteq> TObject \<or> p = Null)"
    using p by simp
  have c2: "\<not> (typeof ?name \<noteq> TString \<or> trim (strOf ?name) = [] \<or>
              typeof ?from \<noteq> TString \<or> trim (strOf ?from) = [] \<or>
              typeof ?to \<noteq> TString \<or> trim (strOf ?to) = [] \<or>
              typeof ?cls \<noteq> TString \<or> trim (strOf ?cls) = [])"
    using nb unfolding nonBlankText_code by simp
  have c3: "\<not> (toLowerCase (strOf ?cls) \<noteq> ascii ''first'' \<and> toLowerCase (strOf ?cls) \<noteq> ascii ''second'')"
    using cl by simp
  show ?thesis
    unfolding generateLocalPass_def Let_def if_not_P [OF c1] if_not_P [OF c2] if_not_P [OF c3]
    by (simp add: passLines_def passId_def titleCase_def slice_0_3 sliceFrom_1 charAt_0)
qed

lemma splitWhen_none: "\<forall>x \<in> set s. \<not> d x \<Longrightarrow> splitWhen d s = [s]"
  by (induction s) simp_all

lemma splitWhen_absent: "c \<notin> set s \<Longrightarrow> splitWhen (\<lambda>x. x = c) s = [s]"
  by (rule splitWhen_none) auto

lemma splitWhen_append:
  "\<forall>x \<in> set a. \<not> d x \<Longrightarrow> d c \<Longrightarrow> splitWhen d (a @ c # b) = a # splitWhen d b"
  by (induction a) simp_all

lemma splitWhen_join:
  "segs \<noteq> [] \<Longrightarrow> \<forall>s \<in> set segs. c \<notin> set s \<Longrightarrow>
   splitWhen (\<lambda>x. x = c) (join [c] segs) = segs"
proof (induction "[c]" segs rule: join.induct)
  case 1
  then show ?case by simp
next
  case (2 x)
  then show ?case by (simp add: splitWhen_absent)
next
  case (3 x y ys)
  from 3 have "splitWhen (\<lambda>x. x = c) (join [c] (y # ys)) = y # ys" by simp
  moreover from 3 have "\<forall>z \<in> set x. \<not> z = c" by auto
  ultimately show ?case
    using splitWhen_append [of x "\<lambda>x. x = c" c "join [c] (y # ys)"] by simp
qed

lemma suffix_join_last: "segs \<noteq> [] \<Longrightarrow> suffix (last segs) (join sep segs)"
proof (induction sep segs rule: join.induct)
  case (3 sep x y ys)
  then have "suffix (last (y # ys)) (join sep (y # ys))" by simp
  then show ?case
    by (simp add: suffix_append del: join.simps(3) add: join.simps(3) [of sep x y ys])
qed simp_all

lemma no_nl_literals:
  "0xA \<notin> set (ascii ''MUMBAI LOCAL PASS'')" "0xA \<notin> set (ascii ''---'')"
  "0xA \<notin> set (ascii ''Name: '')" "0xA \<notin> set (ascii ''From: '')" "0xA \<notin> set (ascii ''To: '')"
  "0xA \<notin> set (ascii ''Class: '')" "0xA \<notin> set (ascii ''Pass ID: '')"
  by (simp_all add: ascii_def)


lemma no_nl_upper: "0xA \<notin> set s \<Longrightarrow> 0xA \<notin> set (toUpperCase s)"
  by (simp add: toUpperCase_nl)

lemma no_nl_lower: "0xA \<notin> set s \<Longrightarrow> 0xA \<notin> set (toLowerCase s)"
  by (simp add: toLowerCase_nl)

lemma no_nl_take: "0xA \<notin> set s \<Longrightarrow> 0xA \<notin> set (take n s)"
  by (auto dest: in_set_takeD)

lemma no_nl_drop: "0xA \<notin> set s \<Longrightarrow> 0xA \<notin> set (drop n s)"
  by (auto dest: in_set_dropD)

lemma no_nl_append: "0xA \<notin> set a \<Longrightarrow> 0xA \<notin> set b \<Longrightarrow> 0xA \<notin> set (a @ b)"
  by simp


lemma no_nl_class:
  assumes "toLowerCase s = ascii ''first'' \<or> toLowerCase s = ascii ''second''"
  shows "0xA \<notin> set (toLowerCase s)"
  using assms by (auto simp: ascii_def)

lemma passLines_no_nl:
  assumes "passAccepted p"
    and "0xA \<notin> set (strOf (field p (ascii ''name'')))"
    and "0xA \<notin> set (strOf (field p (ascii ''from'')))"
    and "0xA \<notin> set (strOf (field p (ascii ''to'')))"
  shows "\<forall>s \<in> set (passLines p). 0xA \<notin> set s"
proof -
  from assms(1) have cl: "toLowerCase (strOf (field p (ascii ''classType''))) = ascii ''first''
      \<or> toLowerCase (strOf (field p (ascii ''classType''))) = ascii ''second''"
    by (cases p) (simp_all add: passAccepted_def)
  note c = no_nl_class [OF cl]
  show ?thesis
    unfolding passLines_def passId_def titleCase_def list.set(2) ball_simps list.set(1)
    by (intro conjI no_nl_append no_nl_upper no_nl_lower no_nl_take no_nl_drop no_nl_literals
        assms(2-4) c ballI) simp
qed

lemma generateLocalPass_suffix:
  assumes "passAccepted p"
  shows "suffix (ascii ''Pass ID: '' @ passId p) (generateLocalPass p)"
proof -
  have ne: "passLines p \<noteq> []"
    by (simp add: passLines_def)
  have l: "last (passLines p) = ascii ''Pass ID: '' @ passId p"
    by (simp add: passLines_def)
  show ?thesis
    unfolding generateLocalPass_accepted [OF assms] l [symmetric] using ne by (rule suffix_join_last)
qed

text \<open>
  Claim C7, amended. \<open>generateLocalPass\<close> returns the invalid sentinel for every input
  that is not an accepted record (\<open>null\<close> among them). For an accepted record the output is
  the seven segments joined by line feeds and ends with \<open>Pass ID: \<close> followed by the
  identifier: the uppercase first letter of the lowercased class type, the first three code
  units of the uppercased \<open>from\<close> and the first three of the uppercased \<open>to\<close>. When
  \<open>name\<close>, \<open>from\<close> and \<open>to\<close> hold no line feed, the lines of the output are exactly
  these seven, the last one the pass identifier line.
\<close>

theorem generateLocalPass_lines:
  "(\<not> passAccepted passenger \<longrightarrow> generateLocalPass passenger = ascii ''INVALID PASS'')
   \<and> (passAccepted passenger \<longrightarrow>
        generateLocalPass passenger = join nl (passLines passenger)
        \<and> suffix (ascii ''Pass ID: '' @ passId passenger) (generateLocalPass passenger)
        \<and> (0xA \<notin> set (strOf (field passenger (ascii ''name'')))
            \<and> 0xA \<notin> set (strOf (field passenger (ascii ''from'')))
            \<and> 0xA \<notin> set (strOf (field passenger (ascii ''to'')))
            \<longrightarrow> split (generateLocalPass passenger) nl = passLines passenger))"
proof (cases "passAccepted passenger")
  case False
  then show ?thesis by (simp add: generateLocalPass_invalid)
next
  case True
  have j: "generateLocalPass passenger = join nl (passLines passenger)"
    using True by (rule generateLocalPass_accepted)
  have ne: "passLines passenger \<noteq> []"
    by (simp add: passLines_def)
  have s: "suffix (ascii ''Pass ID: '' @ passId passenger) (generateLocalPass passenger)"
    using True by (rule generateLocalPass_suffix)
  have "split (generateLocalPass passenger) nl = passLines passenger"
    if "0xA \<notin> set (strOf (field passenger (ascii ''name'')))"
      "0xA \<notin> set (strOf (field passenger (ascii ''from'')))"
      "0xA \<notin> set (strOf (field passenger (ascii ''to'')))"
    unfolding j nl_def split_single
    using ne passLines_no_nl [OF True that] by (rule splitWhen_join)
  with True j s show ?thesis by simp
qed

theorem generateLocalPass_lines_witness:
  "passAccepted (examplePass (ascii ''rahul sharma''))
   \<and> split (generateLocalPass (examplePass (ascii ''rahul sharma''))) nl
       = [ascii ''MUMBAI LOCAL PASS'', ascii ''---'', ascii ''Name: RAHUL SHARMA'',
          ascii ''From: Dadar'', ascii ''To: Andheri'', ascii ''Class: FIRST'',
          ascii ''Pass ID: FDADAND'']
   \<and> suffix (ascii ''Pass ID: FDADAND'') (generateLocalPass (examplePass (ascii ''rahul sharma'')))
   \<and> generateLocalPass Null = ascii ''INVALID PASS''"
proof -
  let ?p = "examplePass (ascii ''rahul sharma'')"
  have a: "passAccepted ?p"
    by code_simp
  have n: "0xA \<notin> set (strOf (field ?p (ascii ''name'')))
            \<and> 0xA \<notin> set (strOf (field ?p (ascii ''from'')))
            \<and> 0xA \<notin> set (strOf (field ?p (ascii ''to'')))"
    by code_simp
  have l: "passLines ?p
       = [ascii ''MUMBAI LOCAL PASS'', ascii ''---'', ascii ''Name: RAHUL SHARMA'',
          ascii ''From: Dadar'', ascii ''To: Andheri'', ascii ''Class: FIRST'',
          ascii ''Pass ID: FDADAND'']"
    by code_simp
  have i: "ascii ''Pass ID: '' @ passId ?p = ascii ''Pass ID: FDADAND''"
    by code_simp
  have z: "\<not> passAccepted Null"
    by code_simp
  note t = mp [OF conjunct2 [OF generateLocalPass_lines [of ?p]] a]
  note t2 = conjunct1 [OF conjunct2 [OF t]]
  note t3 = mp [OF conjunct2 [OF conjunct2 [OF t]] n]
  note t0 = mp [OF conjunct1 [OF generateLocalPass_lines [of Null]] z]
  from a t2 [unfolded i] t3 [unfolded l] t0 show ?thesis
    by (intro conjI)
qed


lemma upperCP_examples:
  "upperCP 0xDF = [0x53, 0x53]" "upperCP 0x61 = [0x41]" "upperCP 0x62 = [0x42]"
  by (simp_all add: upperCP_def upperTable_defs)

lemma toUpperCase_sharp_s:
  "toUpperCase (0xDF # ascii ''ab'') = ascii ''SSAB''"
  "toUpperCase (take 3 (0xDF # ascii ''ab'')) = ascii ''SSAB''"
  by (simp_all add: toUpperCase_def ascii_def isHighSurrogate_def upperCP_examples codeUnits_def
      codeUnitsOf_def)

lemma passSharpS_facts:
  "passAccepted passSharpS"
  "strOf (field passSharpS (ascii ''from'')) = 0xDF # ascii ''ab''"
  "toUpperCase (take 1 (toLowerCase (strOf (field passSharpS (ascii ''classType''))))) = ascii ''F''"
  "take 3 (toUpperCase (strOf (field passSharpS (ascii ''to'')))) = ascii ''AND''"
  "toUpperCase (take 3 (strOf (field passSharpS (ascii ''to'')))) = ascii ''AND''"
  by code_simp+

lemma passId_sharp_s:
  "ascii ''Pass ID: '' @ passId passSharpS = ascii ''Pass ID: FSSAAND''"
  "passIdOfPrefixes passSharpS = ascii ''FSSABAND''"
  unfolding passId_def passIdOfPrefixes_def passSharpS_facts toUpperCase_sharp_s
  by (simp_all add: ascii_def)

lemma passNewlineName_facts:
  "passAccepted passNewlineName"
  "length (split (generateLocalPass passNewlineName) nl) = 8"
  by code_simp+

text \<open>
  The claim as stated fails on two accepted records. With a line feed in the name the
  output has eight lines. With \<open>from\<close> the sharp s followed by \<open>ab\<close>, uppercasing the
  first three characters of \<open>from\<close> gives \<open>SSAB\<close>, while the pass ends with \<open>FSSAAND\<close>:
  the source takes the first three characters of the uppercased \<open>from\<close>.
\<close>

theorem generateLocalPass_newline_counterexample:
  "passAccepted passNewlineName
   \<and> length (split (generateLocalPass passNewlineName) nl) = 8
   \<and> passAccepted passSharpS
   \<and> suffix (ascii ''Pass ID: FSSAAND'') (generateLocalPass passSharpS)
   \<and> passIdOfPrefixes passSharpS = ascii ''FSSABAND''"
  using passNewlineName_facts passSharpS_facts(1)
    generateLocalPass_suffix [OF passSharpS_facts(1), unfolded passId_sharp_s(1)] passId_sharp_s(2)
  by (intro conjI)

end
